(* ===== verification/Prelude.thy ===== *)
theory Prelude
  imports Main "HOL-Library.Word"
begin

text \<open>
  Shared vocabulary of the development: the JavaScript built-ins that the
  TypeScript sources call on strings and numbers, written as executable HOL
  functions, and the lemmas about them that the component theories use.
  A JavaScript string is modelled as a \<open>string\<close> (a list of 8-bit
  \<open>char\<close>s): every code unit below 256 is one \<open>char\<close>, so
  \<open>length\<close> agrees with \<^verbatim>\<open>String.prototype.length\<close> on such strings.
  \<^item> \<open>is_js_space\<close>, \<open>js_trim\<close>: \<^verbatim>\<open>String.prototype.trim\<close> and the
    white-space class \<^verbatim>\<open>\s\<close> of regular expressions (the code points
    below 256 among WhiteSpace and LineTerminator);
  \<^item> \<open>js_split\<close>, \<open>js_join\<close>: \<^verbatim>\<open>split\<close> on a one-character separator
    and \<^verbatim>\<open>join\<close>;
  \<^item> \<open>js_parse_int\<close>: \<^verbatim>\<open>parseInt(s, 10)\<close>, \<open>None\<close> being \<^verbatim>\<open>NaN\<close>;
  \<^item> \<open>js_nat_string\<close>, \<open>js_int_string\<close>: \<^verbatim>\<open>String(n)\<close> of an integer;
  \<^item> \<open>js_pad_start\<close>: \<^verbatim>\<open>padStart(n, c)\<close> with a one-character filler;
  \<^item> \<open>js_substring\<close>: \<^verbatim>\<open>substring(a, b)\<close>;
  \<^item> \<open>js_lower\<close>, \<open>js_upper\<close>: \<^verbatim>\<open>toLowerCase\<close>, \<^verbatim>\<open>toUpperCase\<close>;
  \<^item> \<open>js_last_index_of\<close>: \<^verbatim>\<open>lastIndexOf\<close> of a character, \<open>-1\<close> when absent;
  \<^item> \<open>js_starts_with\<close>, \<open>js_ends_with\<close>.
  Errors that JavaScript raises are values of \<open>js_error\<close>
  (\<open>PlainError\<close> is \<^verbatim>\<open>new Error(message)\<close>).
\<close>

named_theorems js_simps "evaluation rules of the modelled JavaScript built-ins"

datatype js_error = TypeError string | ReferenceError string | PlainError string

type_synonym js_string = string

subsection \<open>Characters\<close>

definition is_js_space :: "char \<Rightarrow> bool" where
  "is_js_space c \<longleftrightarrow> of_char c \<in> {9, 10, 11, 12, 13, 32, 160 :: nat}"

definition is_digit :: "char \<Rightarrow> bool" where
  "is_digit c \<longleftrightarrow> 48 \<le> (of_char c :: nat) \<and> (of_char c :: nat) \<le> 57"

definition digit_value :: "char \<Rightarrow> nat" where
  "digit_value c = of_char c - 48"

definition js_lower_char :: "char \<Rightarrow> char" where
  "js_lower_char c =
     (let n = (of_char c :: nat)
      in if (65 \<le> n \<and> n \<le> 90) \<or> (192 \<le> n \<and> n \<le> 222 \<and> n \<noteq> 215)
         then char_of (n + 32) else c)"

definition js_lower :: "js_string \<Rightarrow> js_string" where
  "js_lower s = map js_lower_char s"

text \<open>\<^verbatim>\<open>toUpperCase\<close> on the 8-bit characters whose upper case is one:
  \<open>\<mu>\<close>, sharp s and y with diaeresis, whose upper case lies outside the
  8-bit range, are left unchanged.\<close>

definition js_upper_char :: "char \<Rightarrow> char" where
  "js_upper_char c =
     (let n = (of_char c :: nat)
      in if (97 \<le> n \<and> n \<le> 122) \<or> (224 \<le> n \<and> n \<le> 254 \<and> n \<noteq> 247)
         then char_of (n - 32) else c)"

definition js_upper :: "js_string \<Rightarrow> js_string" where
  "js_upper s = map js_upper_char s"

subsection \<open>Trimming, prefixes, suffixes\<close>

definition js_trim :: "js_string \<Rightarrow> js_string" where
  "js_trim s = rev (dropWhile is_js_space (rev (dropWhile is_js_space s)))"

definition js_starts_with :: "js_string \<Rightarrow> js_string \<Rightarrow> bool" where
  "js_starts_with s p \<longleftrightarrow> take (length p) s = p"

definition js_ends_with :: "js_string \<Rightarrow> js_string \<Rightarrow> bool" where
  "js_ends_with s p \<longleftrightarrow> drop (length s - length p) s = p \<and> length p \<le> length s"

fun js_last_index_of :: "char \<Rightarrow> js_string \<Rightarrow> int" where
  "js_last_index_of c [] = -1"
| "js_last_index_of c (x # xs) =
     (let i = js_last_index_of c xs
      in if 0 \<le> i then i + 1 else if x = c then 0 else -1)"

subsection \<open>Splitting and joining\<close>

fun js_split :: "char \<Rightarrow> js_string \<Rightarrow> js_string list" where
  "js_split c [] = [[]]"
| "js_split c (x # xs) =
     (let ws = js_split c xs in if x = c then [] # ws else (x # hd ws) # tl ws)"

fun js_join :: "char \<Rightarrow> js_string list \<Rightarrow> js_string" where
  "js_join c [] = []"
| "js_join c [w] = w"
| "js_join c (w # ws) = w @ c # js_join c ws"

text \<open>\<^verbatim>\<open>join(sep)\<close> with a separator string.\<close>

fun js_join_str :: "js_string \<Rightarrow> js_string list \<Rightarrow> js_string" where
  "js_join_str sep [] = []"
| "js_join_str sep [w] = w"
| "js_join_str sep (w # ws) = w @ sep @ js_join_str sep ws"

subsection \<open>Numbers and their decimal text\<close>

definition digits_value :: "js_string \<Rightarrow> nat" where
  "digits_value ds = foldl (\<lambda>n d. 10 * n + digit_value d) 0 ds"

definition js_parse_int :: "js_string \<Rightarrow> int option" where
  "js_parse_int s =
     (let t = dropWhile is_js_space s;
          (sg, r) = (case t of
                       c # r \<Rightarrow> if c = CHR ''-'' then (-1, r)
                                else if c = CHR ''+'' then (1, r) else (1, t)
                     | [] \<Rightarrow> (1, t));
          ds = takeWhile is_digit r
      in if ds = [] then None else Some (sg * int (digits_value ds)))"

fun js_nat_string :: "nat \<Rightarrow> js_string" where
  "js_nat_string n =
     (if n < 10 then [char_of (48 + n)]
      else js_nat_string (n div 10) @ [char_of (48 + n mod 10)])"

declare js_nat_string.simps [simp del]

definition js_int_string :: "int \<Rightarrow> js_string" where
  "js_int_string i =
     (if i < 0 then CHR ''-'' # js_nat_string (nat (- i)) else js_nat_string (nat i))"

definition js_pad_start :: "nat \<Rightarrow> char \<Rightarrow> js_string \<Rightarrow> js_string" where
  "js_pad_start n c s = replicate (n - length s) c @ s"

text \<open>\<^verbatim>\<open>s.substring(a, b)\<close> for indices that are not negative: both are
  clamped to the length and swapped when \<open>a > b\<close>.\<close>

definition js_substring :: "js_string \<Rightarrow> nat \<Rightarrow> nat \<Rightarrow> js_string" where
  "js_substring s a b =
     (let lo = min (min a b) (length s); hi = min (max a b) (length s) in take (hi - lo) (drop lo s))"

subsection \<open>Lemmas on the built-ins\<close>

lemma js_split_not_Nil [simp]: "js_split c s \<noteq> []"
  by (induction s) (simp_all add: Let_def)

lemma js_split_no_sep [js_simps]: "c \<notin> set s \<Longrightarrow> js_split c s = [s]"
  by (induction s) auto

lemma js_split_append_sep [js_simps]:
  "c \<notin> set w \<Longrightarrow> js_split c (w @ c # s) = w # js_split c s"
  by (induction w) (auto simp: Let_def)

lemma js_join_split: "js_join c (js_split c s) = s"
proof (induction s)
  case Nil
  then show ?case by simp
next
  case (Cons x xs)
  then show ?case
    by (cases "js_split c xs" rule: list.exhaust; cases "tl (js_split c xs)")
       (auto simp: Let_def)
qed

lemma js_split_join:
  "ws \<noteq> [] \<Longrightarrow> \<forall>w\<in>set ws. c \<notin> set w \<Longrightarrow> js_split c (js_join c ws) = ws"
proof (induction c ws rule: js_join.induct)
  case (3 c w v vs)
  then show ?case by (simp add: js_split_append_sep)
qed (auto simp: js_split_no_sep)

lemma is_digit_char_of: "d < (10::nat) \<Longrightarrow> is_digit (char_of (48 + d))"
  by (simp add: is_digit_def)

lemma digit_value_char_of: "d < (10::nat) \<Longrightarrow> digit_value (char_of (48 + d)) = d"
  by (simp add: digit_value_def)

lemma js_nat_string_digits: "\<forall>d\<in>set (js_nat_string n). is_digit d"
proof (induction n rule: js_nat_string.induct)
  case (1 n)
  then show ?case
    by (subst js_nat_string.simps) (auto simp: is_digit_char_of)
qed

lemma js_nat_string_not_Nil [simp]: "js_nat_string n \<noteq> []"
  by (subst js_nat_string.simps) simp

lemma digits_value_snoc: "digits_value (ds @ [d]) = 10 * digits_value ds + digit_value d"
  by (simp add: digits_value_def)

lemma digits_value_nat_string: "digits_value (js_nat_string n) = n"
proof (induction n rule: js_nat_string.induct)
  case (1 n)
  show ?case
  proof (cases "n < 10")
    case True
    then show ?thesis
      by (subst js_nat_string.simps) (simp add: digits_value_def digit_value_char_of)
  next
    case False
    with "1.IH" show ?thesis
      by (subst js_nat_string.simps) (simp add: digits_value_snoc digit_value_char_of)
  qed
qed

lemma digits_value_zeros: "digits_value (replicate k CHR ''0'' @ ds) = digits_value ds"
proof -
  have "foldl (\<lambda>n d. 10 * n + digit_value d) 0 (replicate k CHR ''0'') = 0"
    by (induction k) (simp_all add: digit_value_def)
  then show ?thesis by (simp add: digits_value_def)
qed

lemma takeWhile_all: "\<forall>d\<in>set ds. P d \<Longrightarrow> takeWhile P ds = ds"
  by (induction ds) auto

lemma js_parse_int_digits:
  assumes "ds \<noteq> []" and "\<forall>d\<in>set ds. is_digit d"
  shows "js_parse_int ds = Some (int (digits_value ds))"
    and "js_parse_int (CHR ''-'' # ds) = Some (- int (digits_value ds))"
proof -
  obtain d ds' where ds: "ds = d # ds'" using assms(1) by (cases ds) auto
  have d: "is_digit d" using assms(2) ds by simp
  then have "\<not> is_js_space d" "d \<noteq> CHR ''-''" "d \<noteq> CHR ''+''"
    by (auto simp: is_digit_def is_js_space_def)
  then show "js_parse_int ds = Some (int (digits_value ds))"
    using assms by (simp add: js_parse_int_def ds takeWhile_all del: takeWhile.simps)
  show "js_parse_int (CHR ''-'' # ds) = Some (- int (digits_value ds))"
    using assms by (simp add: js_parse_int_def is_js_space_def takeWhile_all)
qed

lemma js_parse_int_int_string [js_simps]: "js_parse_int (js_int_string i) = Some i"
  using js_parse_int_digits [OF js_nat_string_not_Nil js_nat_string_digits]
  by (simp add: js_int_string_def digits_value_nat_string)

lemma js_parse_int_pad_nat [js_simps]:
  "js_parse_int (js_pad_start k CHR ''0'' (js_nat_string n)) = Some (int n)"
proof -
  let ?ds = "replicate (k - length (js_nat_string n)) CHR ''0'' @ js_nat_string n"
  have "\<forall>d\<in>set ?ds. is_digit d"
    using js_nat_string_digits by (auto simp: is_digit_def)
  moreover have "?ds \<noteq> []" by simp
  ultimately show ?thesis
    by (simp add: js_pad_start_def js_parse_int_digits digits_value_zeros digits_value_nat_string)
qed

lemma dropWhile_snoc_not_Nil: "\<not> P y \<Longrightarrow> dropWhile P (xs @ [y]) \<noteq> []"
  by (induction xs) auto

lemma js_trim_Nil_iff: "js_trim s = [] \<longleftrightarrow> (\<forall>c\<in>set s. is_js_space c)"
proof (cases "dropWhile is_js_space s")
  case Nil
  then have "\<forall>c\<in>set s. is_js_space c" by (simp add: dropWhile_eq_Nil_conv)
  then show ?thesis by (auto simp: js_trim_def dest: set_dropWhileD)
next
  case (Cons y ys)
  then have "\<not> is_js_space y"
    by (metis hd_dropWhile list.sel(1) list.simps(3))
  then have "js_trim s \<noteq> []"
    using Cons by (simp add: js_trim_def dropWhile_snoc_not_Nil)
  moreover have "\<not> (\<forall>c\<in>set s. is_js_space c)"
    using Cons by (metis dropWhile_eq_Nil_conv list.simps(3))
  ultimately show ?thesis by simp
qed

lemma js_split_pieces: "w \<in> set (js_split c s) \<Longrightarrow> c \<notin> set w"
proof (induction s arbitrary: w)
  case Nil
  then show ?case by simp
next
  case (Cons x xs)
  then show ?case
    by (cases "js_split c xs") (auto simp: Let_def split: if_splits)
qed

subsection \<open>Integer division\<close>

lemma div_succ_int:
  fixes x k :: int
  assumes k: "1 < k"
  shows "(x + 1) div k = x div k + (if (x + 1) mod k = 0 then 1 else 0)"
proof -
  have r: "0 \<le> x mod k" "x mod k < k" using k by simp_all
  have dv: "(x + 1) div k = x div k + (x mod k + 1) div k"
    using k by (subst div_add1_eq) simp
  have md: "(x + 1) mod k = (x mod k + 1) mod k"
    by (simp add: mod_add_left_eq)
  show ?thesis
  proof (cases "x mod k + 1 = k")
    case True
    then show ?thesis using dv md k by simp
  next
    case False
    with r have lt: "x mod k + 1 < k" and ge: "0 < x mod k + 1" by simp_all
    then have "(x mod k + 1) div k = 0" "(x mod k + 1) mod k = x mod k + 1"
      by (simp_all add: div_pos_pos_trivial mod_pos_pos_trivial)
    then show ?thesis using dv md ge by simp
  qed
qed

lemma mod_shift_int: "(k::int) dvd c \<Longrightarrow> (y - c) mod k = y mod k"
  by (simp add: mod_diff_right_eq [symmetric])

lemma mod_dvd_zero: "(k::int) dvd b \<Longrightarrow> y mod b = 0 \<Longrightarrow> y mod k = 0"
  by (metis mod_mod_cancel mod_0)

lemma div_step_shift:
  fixes y c k :: int
  assumes "1 < k" and "k dvd (c - 1)"
  shows "(y + 1 - c) div k = (y - c) div k + of_bool (y mod k = 0)"
proof -
  have "(y - c + 1) div k = (y - c) div k + (if (y - c + 1) mod k = 0 then 1 else 0)"
    using assms(1) by (rule div_succ_int)
  moreover have "(y - c + 1) mod k = y mod k"
    using mod_shift_int [OF assms(2), of y] by (simp add: algebra_simps)
  ultimately show ?thesis by (simp add: algebra_simps)
qed

subsection \<open>Digit strings\<close>

lemma is_digit_not_sep:
  "is_digit c \<Longrightarrow> c \<noteq> CHR ''/'' \<and> c \<noteq> CHR ''-'' \<and> \<not> is_js_space c"
  by (auto simp: is_digit_def is_js_space_def)

lemma js_int_string_chars:
  "c \<in> set (js_int_string i) \<Longrightarrow> is_digit c \<or> c = CHR ''-''"
  using js_nat_string_digits by (auto simp: js_int_string_def split: if_splits)

lemma js_int_string_nonneg_digits:
  "0 \<le> i \<Longrightarrow> \<forall>c\<in>set (js_int_string i). is_digit c"
  using js_nat_string_digits by (simp add: js_int_string_def)

lemma js_pad_start_set: "set (js_pad_start n c s) \<subseteq> insert c (set s)"
  by (auto simp: js_pad_start_def)

lemma js_parse_int_pad_int:
  "0 \<le> i \<Longrightarrow> js_parse_int (js_pad_start k CHR ''0'' (js_int_string i)) = Some i"
  using js_parse_int_pad_nat [of k "nat i"] by (simp add: js_int_string_def)

lemma js_int_string_not_Nil [simp]: "js_int_string i \<noteq> []"
  by (simp add: js_int_string_def)

lemma js_trim_not_Nil: "c \<in> set s \<Longrightarrow> \<not> is_js_space c \<Longrightarrow> js_trim s \<noteq> []"
  using js_trim_Nil_iff by blast

lemma padded_digits:
  "0 \<le> i \<Longrightarrow> \<forall>c\<in>set (js_pad_start k CHR ''0'' (js_int_string i)). is_digit c"
  using js_pad_start_set [of k "CHR ''0''" "js_int_string i"] js_int_string_nonneg_digits [of i]
  by (auto simp: is_digit_def)

lemma padded_not_Nil: "js_pad_start k c s \<noteq> [] \<longleftrightarrow> s \<noteq> [] \<or> length s < k"
  by (auto simp: js_pad_start_def)

subsection \<open>Lengths of digit strings\<close>

lemma js_nat_string_length:
  "10 ^ k \<le> n \<Longrightarrow> n < 10 ^ Suc k \<Longrightarrow> length (js_nat_string n) = Suc k"
proof (induction k arbitrary: n)
  case 0
  then show ?case by (subst js_nat_string.simps) simp
next
  case (Suc k)
  have "10 ^ k \<le> n div 10" using Suc.prems(1) by (simp add: less_eq_div_iff_mult_less_eq mult.commute)
  moreover have "n div 10 < 10 ^ Suc k" using Suc.prems(2) by (simp add: div_less_iff_less_mult mult.commute)
  moreover have "\<not> n < 10"
  proof -
    have "(10::nat) * 1 \<le> 10 * 10 ^ k" by (intro mult_le_mono2) simp
    then show ?thesis using Suc.prems(1) by (simp only: power_Suc)
  qed
  ultimately show ?case using Suc.IH by (subst js_nat_string.simps) simp
qed

lemma js_pad_start_length: "length (js_pad_start k c s) = max k (length s)"
  by (simp add: js_pad_start_def)

lemma pad2_length: "0 \<le> i \<Longrightarrow> i < 100 \<Longrightarrow> length (js_pad_start 2 c (js_int_string i)) = 2"
proof -
  assume i: "0 \<le> i" "i < 100"
  have "length (js_nat_string (nat i)) \<le> 2"
  proof (cases "nat i < 10")
    case True
    then show ?thesis by (subst js_nat_string.simps) simp
  next
    case False
    then show ?thesis using js_nat_string_length [of 1 "nat i"] i by simp
  qed
  with i show ?thesis by (simp add: js_pad_start_length js_int_string_def)
qed

lemma digits_value_pad:
  "0 \<le> i \<Longrightarrow> int (digits_value (js_pad_start k CHR ''0'' (js_int_string i))) = i"
  by (simp add: js_pad_start_def js_int_string_def digits_value_zeros digits_value_nat_string)

subsection \<open>Last index of a character; 32-bit words\<close>

lemma js_last_index_of_cases:
  "(c \<notin> set s \<and> js_last_index_of c s = -1) \<or>
   (\<exists>k. js_last_index_of c s = int k \<and> k < length s \<and> s ! k = c \<and> c \<notin> set (drop (Suc k) s))"
proof (induction s)
  case Nil
  then show ?case by simp
next
  case (Cons x xs)
  then show ?case
  proof
    assume a: "c \<notin> set xs \<and> js_last_index_of c xs = -1"
    show ?thesis
    proof (cases "x = c")
      case True
      then show ?thesis using a by (intro disjI2 exI [of _ 0]) simp
    next
      case False
      then show ?thesis using a by simp
    qed
  next
    assume "\<exists>k. js_last_index_of c xs = int k \<and> k < length xs \<and> xs ! k = c \<and> c \<notin> set (drop (Suc k) xs)"
    then obtain k where "js_last_index_of c xs = int k" "k < length xs" "xs ! k = c" "c \<notin> set (drop (Suc k) xs)"
      by blast
    then show ?thesis by (intro disjI2 exI [of _ "Suc k"]) simp
  qed
qed

lemma rev_takeWhile_last:
  assumes "k < length s" "s ! k = c" "c \<notin> set (drop (Suc k) s)"
  shows "rev (takeWhile (\<lambda>x. x \<noteq> c) (rev s)) = drop (Suc k) s"
proof -
  have s: "s = take k s @ c # drop (Suc k) s" using assms(1,2) id_take_nth_drop by fastforce
  have "rev s = rev (drop (Suc k) s) @ c # rev (take k s)" by (subst s) simp
  moreover have "takeWhile (\<lambda>x. x \<noteq> c) (rev (drop (Suc k) s) @ c # rev (take k s)) =
      rev (drop (Suc k) s) @ takeWhile (\<lambda>x. x \<noteq> c) (c # rev (take k s))"
    by (rule takeWhile_append2) (use assms(3) in auto)
  ultimately have "takeWhile (\<lambda>x. x \<noteq> c) (rev s) = rev (drop (Suc k) s)" by simp
  then show ?thesis by simp
qed

lemma js_substring_le [js_simps]: "a \<le> b \<Longrightarrow> js_substring s a b = take (b - a) (drop a s)"
  by (simp add: js_substring_def Let_def min_def)

lemma js_ends_with_last: "js_ends_with s p \<Longrightarrow> p \<noteq> [] \<Longrightarrow> last s = last p"
  unfolding js_ends_with_def by (metis diff_less last_drop length_greater_0_conv less_le_trans)

lemma unat_word_of_int32: "unat (word_of_int k :: 32 word) = nat (k mod 4294967296)"
  by (simp only: unat_eq_nat_uint uint_word_of_int) simp

lemma unat_minus_one32: "unat (- 1 :: 32 word) = 4294967295"
proof -
  have "(- 1 :: 32 word) = word_of_int (-1)" by simp
  then have "unat (- 1 :: 32 word) = nat (-1 mod 4294967296)" by (simp only: unat_word_of_int32)
  then show ?thesis by simp
qed


lemma digit_not_special: "is_digit c \<Longrightarrow> \<not> is_js_space c \<and> c \<noteq> CHR ''-'' \<and> c \<noteq> CHR ''+'' \<and> c \<noteq> CHR ''/''"
  by (auto simp: is_digit_def is_js_space_def)

lemma js_parse_int_trailing:
  assumes "ds \<noteq> []" "\<forall>d\<in>set ds. is_digit d" "j = [] \<or> \<not> is_digit (hd j)"
  shows "js_parse_int (ds @ j) = js_parse_int ds"
proof -
  obtain c cs where ds: "ds = c # cs" using assms(1) by (cases ds) auto
  have c: "is_digit c" using assms(2) ds by simp
  have tw: "takeWhile is_digit (ds @ j) = ds"
    using assms(2,3) by (cases j) (auto simp: takeWhile_append2)
  have cs: "takeWhile is_digit cs = cs" using assms(2) ds by simp
  show ?thesis using c digit_not_special [OF c] tw
    by (simp add: js_parse_int_def ds cs)
qed

end
