(* ===== verification/Validation.thy ===== *)
theory Validation
  imports Prelude
begin

text \<open>
  The rule-based validation engine of the text field
  (\<^verbatim>\<open>src/types/onboarding.ts\<close>, interface \<^verbatim>\<open>ValidationRule\<close> and the
  \<^verbatim>\<open>validate\<close> callback of \<^verbatim>\<open>CustomTextInput\<close>), and the e-mail regular
  expression \<^verbatim>\<open>/^[^\s@]+@[^\s@]+\.[^\s@]+$/\<close> that it shares with the
  submission checks.  A rule's \<^verbatim>\<open>value?: any\<close> is a number or a regular
  expression (\<open>rule_value\<close>); a regular expression is represented by its
  \<^verbatim>\<open>test\<close> function.  \<^verbatim>\<open>validate\<close> runs every rule in order and collects
  the messages of the failing ones; a regex rule whose value is a non-zero number
  makes \<^verbatim>\<open>rule.value.test\<close> a call of \<^verbatim>\<open>undefined\<close>, a \<^verbatim>\<open>TypeError\<close>
  that aborts the \<^verbatim>\<open>forEach\<close>: the result is \<open>js_error + js_string list\<close>.
\<close>

datatype rule_type = Required | MinLength | MaxLength | Regex | Email | Custom

datatype rule_value = VNum int | VRegex "js_string \<Rightarrow> bool"

record validation_rule =
  vr_type :: rule_type
  vr_value :: "rule_value option"
  vr_message :: js_string
  vr_validator :: "(js_string \<Rightarrow> bool) option"

subsection \<open>The e-mail regular expression\<close>

text \<open>
  \<open>email_regex_test\<close> decides the regular expression directly: no white space
  anywhere, exactly one \<open>@\<close> with a non-empty part before it, and in the part
  after it a dot that is neither its first nor its last character.
  \<open>email_regex_lang\<close> is the language of the expression read off its syntax;
  their equivalence is proved below.
\<close>

definition email_regex_test :: "js_string \<Rightarrow> bool" where
  "email_regex_test s \<longleftrightarrow>
     (\<forall>c\<in>set s. \<not> is_js_space c) \<and>
     (case js_split CHR ''@'' s of
        [l, d] \<Rightarrow> l \<noteq> [] \<and> CHR ''.'' \<in> set (butlast (tl d))
      | _ \<Rightarrow> False)"

definition email_regex_lang :: "js_string \<Rightarrow> bool" where
  "email_regex_lang s \<longleftrightarrow>
     (\<exists>a b c. s = a @ CHR ''@'' # b @ CHR ''.'' # c \<and> a \<noteq> [] \<and> b \<noteq> [] \<and> c \<noteq> [] \<and>
        (\<forall>x\<in>set (a @ b @ c). \<not> is_js_space x \<and> x \<noteq> CHR ''@''))"

subsection \<open>Rules\<close>

definition js_truthy_value :: "rule_value option \<Rightarrow> bool" where
  "js_truthy_value v = (case v of None \<Rightarrow> False | Some (VNum n) \<Rightarrow> n \<noteq> 0 | Some (VRegex _) \<Rightarrow> True)"

text \<open>
  \<open>rule_fails text r\<close> is one case of the \<^verbatim>\<open>switch\<close>: \<open>Inr True\<close> when the
  rule's message is pushed.  \<^verbatim>\<open>text.length < rule.value\<close> is false when the value
  is \<^verbatim>\<open>undefined\<close> or not a number.
\<close>

definition rule_fails :: "js_string \<Rightarrow> validation_rule \<Rightarrow> js_error + bool" where
  "rule_fails text r =
     (case vr_type r of
        Required \<Rightarrow> Inr (js_trim text = [])
      | MinLength \<Rightarrow> Inr (case vr_value r of Some (VNum n) \<Rightarrow> int (length text) < n | _ \<Rightarrow> False)
      | MaxLength \<Rightarrow> Inr (case vr_value r of Some (VNum n) \<Rightarrow> int (length text) > n | _ \<Rightarrow> False)
      | Email \<Rightarrow> Inr (text \<noteq> [] \<and> \<not> email_regex_test text)
      | Regex \<Rightarrow>
          (if js_truthy_value (vr_value r) \<and> text \<noteq> [] then
             (case vr_value r of
                Some (VRegex p) \<Rightarrow> Inr (\<not> p text)
              | _ \<Rightarrow> Inl (TypeError ''rule.value.test is not a function''))
           else Inr False)
      | Custom \<Rightarrow> Inr (case vr_validator r of Some f \<Rightarrow> \<not> f text | None \<Rightarrow> False))"

fun validate :: "validation_rule list \<Rightarrow> js_string \<Rightarrow> js_error + js_string list" where
  "validate [] text = Inr []"
| "validate (r # rs) text =
     (case rule_fails text r of
        Inl e \<Rightarrow> Inl e
      | Inr b \<Rightarrow>
          (case validate rs text of
             Inl e \<Rightarrow> Inl e
           | Inr ms \<Rightarrow> Inr (if b then vr_message r # ms else ms)))"

subsection \<open>The contract of the engine\<close>

text \<open>
  A rule is well formed when a regex rule carries a regular expression (or a
  falsy value, which disables it).  \<open>rule_holds\<close> states each rule's meaning as
  the specification gives it (section 4.1): required is a non-blank value, the
  length rules are inclusive bounds, e-mail and regex accept the empty value or a
  match, custom accepts what its predicate accepts.
\<close>

definition wf_rule :: "validation_rule \<Rightarrow> bool" where
  "wf_rule r =
     (case vr_type r of
        Regex \<Rightarrow> (case vr_value r of Some (VNum n) \<Rightarrow> n = 0 | _ \<Rightarrow> True)
      | _ \<Rightarrow> True)"

definition rule_holds :: "js_string \<Rightarrow> validation_rule \<Rightarrow> bool" where
  "rule_holds v r =
     (case vr_type r of
        Required \<Rightarrow> (\<exists>c\<in>set v. \<not> is_js_space c)
      | MinLength \<Rightarrow> (case vr_value r of Some (VNum n) \<Rightarrow> n \<le> int (length v) | _ \<Rightarrow> True)
      | MaxLength \<Rightarrow> (case vr_value r of Some (VNum n) \<Rightarrow> int (length v) \<le> n | _ \<Rightarrow> True)
      | Email \<Rightarrow> v = [] \<or> email_regex_lang v
      | Regex \<Rightarrow> (case vr_value r of Some (VRegex p) \<Rightarrow> v = [] \<or> p v | _ \<Rightarrow> True)
      | Custom \<Rightarrow> (case vr_validator r of Some f \<Rightarrow> f v | None \<Rightarrow> True))"

subsection \<open>The e-mail test decides the regular expression\<close>

lemma butlast_mid_in_set: "c \<noteq> [] \<Longrightarrow> x \<in> set (butlast (ys @ x # c))"
  by (simp add: butlast_append)

lemma email_lang_split:
  assumes "s = a @ CHR ''@'' # d" and "CHR ''@'' \<notin> set a" and "CHR ''@'' \<notin> set d"
  shows "js_split CHR ''@'' s = [a, d]"
  using assms by (simp add: js_split_append_sep js_split_no_sep)

lemma email_lang_no_space:
  assumes "s = a @ CHR ''@'' # b @ CHR ''.'' # c"
    and "\<forall>x\<in>set (a @ b @ c). \<not> is_js_space x \<and> x \<noteq> CHR ''@''"
  shows "\<forall>x\<in>set s. \<not> is_js_space x"
proof -
  have "\<not> is_js_space CHR ''@''" "\<not> is_js_space CHR ''.''"
    by (simp_all add: is_js_space_def)
  then show ?thesis using assms by auto
qed

lemma email_lang_test: "email_regex_lang s \<Longrightarrow> email_regex_test s"
proof -
  assume "email_regex_lang s"
  then obtain a b c where s: "s = a @ CHR ''@'' # b @ CHR ''.'' # c"
    and ne: "a \<noteq> []" "b \<noteq> []" "c \<noteq> []"
    and ok: "\<forall>x\<in>set (a @ b @ c). \<not> is_js_space x \<and> x \<noteq> CHR ''@''"
    unfolding email_regex_lang_def by (elim exE conjE) (rule that, assumption+)
  have "js_split CHR ''@'' s = [a, b @ CHR ''.'' # c]"
  proof (rule email_lang_split [OF s])
    show "CHR ''@'' \<notin> set a" "CHR ''@'' \<notin> set (b @ CHR ''.'' # c)"
      using ok by auto
  qed
  moreover have "\<forall>x\<in>set s. \<not> is_js_space x"
    using s ok by (rule email_lang_no_space)
  ultimately show "email_regex_test s"
    using ne unfolding email_regex_test_def by (simp add: butlast_mid_in_set)
qed

lemma email_test_lang: "email_regex_test s \<Longrightarrow> email_regex_lang s"
proof -
  assume t: "email_regex_test s"
  have ws: "\<forall>c\<in>set s. \<not> is_js_space c" using t by (simp add: email_regex_test_def)
  have "\<exists>l d. js_split CHR ''@'' s = [l, d] \<and> l \<noteq> [] \<and> CHR ''.'' \<in> set (butlast (tl d))"
  proof (cases "js_split CHR ''@'' s")
    case Nil
    then show ?thesis using t by (simp add: email_regex_test_def)
  next
    case (Cons l r)
    then show ?thesis using t
      by (cases r rule: remdups_adj.cases) (auto simp: email_regex_test_def)
  qed
  then obtain l d where sp: "js_split CHR ''@'' s = [l, d]" and l: "l \<noteq> []"
    and dot: "CHR ''.'' \<in> set (butlast (tl d))"
    by blast
  have s: "s = l @ CHR ''@'' # d"
    using js_join_split [of "CHR ''@''" s] sp by simp
  have noat: "CHR ''@'' \<notin> set l" "CHR ''@'' \<notin> set d"
    using js_split_pieces [of _ "CHR ''@''" s] sp by auto
  obtain ys zs where bt: "butlast (tl d) = ys @ CHR ''.'' # zs"
    using dot by (meson split_list)
  have tl: "tl d \<noteq> []" using bt by auto
  then have "d = hd d # tl d" by (cases d) simp_all
  also have "tl d = butlast (tl d) @ [last (tl d)]" using tl by simp
  finally have "d = hd d # ys @ CHR ''.'' # zs @ [last (tl d)]" using bt by simp
  then obtain h t where d: "d = h # ys @ CHR ''.'' # zs @ [t]" by blast
  have sub: "set ((h # ys) @ zs @ [t]) \<subseteq> set d" using d by auto
  show "email_regex_lang s"
    unfolding email_regex_lang_def
  proof (intro exI conjI)
    show "s = l @ CHR ''@'' # (h # ys) @ CHR ''.'' # (zs @ [t])"
      using s d by simp
    show "l \<noteq> []" by (rule l)
    show "h # ys \<noteq> []" "zs @ [t] \<noteq> []" by simp_all
    show "\<forall>x\<in>set (l @ (h # ys) @ zs @ [t]). \<not> is_js_space x \<and> x \<noteq> CHR ''@''"
    proof
      fix x
      assume x: "x \<in> set (l @ (h # ys) @ zs @ [t])"
      then have "x \<in> set l \<or> x \<in> set d" using sub by auto
      then show "\<not> is_js_space x \<and> x \<noteq> CHR ''@''" using ws noat s by auto
    qed
  qed
qed


subsection \<open>Behaviour of the engine\<close>

lemma rule_fails_wf:
  "wf_rule r \<Longrightarrow> rule_fails v r = Inr (\<not> rule_holds v r)"
proof (cases "vr_type r = Email")
  case True
  then show ?thesis
    using email_test_lang email_lang_test by (auto simp: rule_fails_def rule_holds_def)
next
  case False
  then show "wf_rule r \<Longrightarrow> ?thesis"
    by (cases "vr_type r")
       (simp_all add: rule_fails_def rule_holds_def wf_rule_def js_truthy_value_def js_trim_Nil_iff
          not_le split: option.splits rule_value.splits)
qed

lemma validate_wf_Inr:
  "list_all wf_rule rs \<Longrightarrow> \<exists>ms. validate rs v = Inr ms \<and> set ms \<subseteq> vr_message ` set rs"
  by (induction rs) (auto simp: rule_fails_wf)

lemma rule_fails_Inl:
  "rule_fails v r = Inl e \<Longrightarrow> v \<noteq> [] \<and> \<not> wf_rule r"
  by (auto simp: rule_fails_def wf_rule_def js_truthy_value_def
      split: rule_type.splits option.splits rule_value.splits if_splits)

text \<open>
  The rule sets of the onboarding screen (\<^verbatim>\<open>src/services/onboarding.service.ts\<close>,
  lines 296--300): the name field's required, minimum and maximum length rules.
\<close>

definition name_rules :: "validation_rule list" where
  "name_rules =
     [\<lparr>vr_type = Required, vr_value = None, vr_message = ''Name is required'', vr_validator = None\<rparr>,
      \<lparr>vr_type = MinLength, vr_value = Some (VNum 2),
        vr_message = ''Name must be at least 2 characters'', vr_validator = None\<rparr>,
      \<lparr>vr_type = MaxLength, vr_value = Some (VNum 100),
        vr_message = ''Name must not exceed 100 characters'', vr_validator = None\<rparr>]"

lemmas name_rules_eval = name_rules_def wf_rule_def rule_holds_def rule_fails_def js_trim_def
  is_js_space_def

text \<open>C1: the engine evaluates every rule, in declaration order, and returns exactly
  the messages of the rules the value violates (no short-circuit).\<close>

theorem validate_collects_failures:
  "list_all wf_rule rs \<Longrightarrow>
   validate rs v = Inr (map vr_message (filter (\<lambda>r. \<not> rule_holds v r) rs))"
  by (induction rs) (simp_all add: rule_fails_wf)

theorem validate_collects_failures_witness:
  "list_all wf_rule name_rules \<and>
   validate name_rules '' '' = Inr [''Name is required'', ''Name must be at least 2 characters'']"
proof -
  have wf: "list_all wf_rule name_rules" by (simp add: name_rules_eval)
  show ?thesis
    using validate_collects_failures [OF wf, of "'' ''"] wf by (simp add: name_rules_eval)
qed

text \<open>C3: the e-mail test used by the \<^verbatim>\<open>email\<close> rule accepts exactly the language of
  the regular expression \<^verbatim>\<open>/^[^\s@]+@[^\s@]+\.[^\s@]+$/\<close>.\<close>

theorem email_rule_matches_regex: "email_regex_test s \<longleftrightarrow> email_regex_lang s"
  using email_test_lang email_lang_test by blast

text \<open>C4: the only error path of the engine is a \<^verbatim>\<open>TypeError\<close> from an ill-formed
  regex rule, and it is raised only on a non-empty value: an empty value never
  exposes the configuration error.\<close>

theorem validate_error_only_misconfigured:
  "validate rs v = Inl e \<Longrightarrow> v \<noteq> [] \<and> \<not> list_all wf_rule rs"
proof (induction rs)
  case Nil
  then show ?case by simp
next
  case (Cons r rs)
  then show ?case
    by (auto dest: rule_fails_Inl split: sum.splits)
qed

definition bad_regex_rule :: validation_rule where
  "bad_regex_rule = \<lparr>vr_type = Regex, vr_value = Some (VNum 5), vr_message = ''Bad'', vr_validator = None\<rparr>"

theorem validate_error_only_misconfigured_witness:
  "validate [bad_regex_rule] ''x'' = Inl (TypeError ''rule.value.test is not a function'') \<and>
   ''x'' \<noteq> [] \<and> \<not> list_all wf_rule [bad_regex_rule] \<and> validate [bad_regex_rule] [] = Inr []"
proof -
  have e: "validate [bad_regex_rule] ''x'' = Inl (TypeError ''rule.value.test is not a function'')"
    by (simp add: bad_regex_rule_def rule_fails_def js_truthy_value_def)
  have "validate [bad_regex_rule] [] = Inr []"
    by (simp add: bad_regex_rule_def rule_fails_def js_truthy_value_def)
  with e validate_error_only_misconfigured [OF e] show ?thesis by simp
qed

end
