(* ===== verification/TextField.thy ===== *)
theory TextField
  imports Validation
begin

text \<open>
  The text field controller \<^verbatim>\<open>CustomTextInput\<close> (\<^verbatim>\<open>src/types/onboarding.ts\<close>,
  lines 69--166).  Its React state (\<^verbatim>\<open>internalValue\<close>, \<^verbatim>\<open>isFocused\<close>,
  \<^verbatim>\<open>isTouched\<close>, \<^verbatim>\<open>errors\<close>) is the record \<open>text_field\<close>; the props it
  reads are \<open>text_props\<close>, where \<open>tp_value = None\<close> is an \<^verbatim>\<open>undefined\<close>
  \<^verbatim>\<open>value\<close> prop (uncontrolled mode).  Each handler returns the new state and
  the callbacks it calls, in order (\<^verbatim>\<open>onChangeText\<close>, \<^verbatim>\<open>onValidate\<close>), or
  the \<^verbatim>\<open>TypeError\<close> of the engine, which escapes the handler.  Events are
  handled one at a time and the component re-renders between two events, so each
  handler sees the state the previous one committed.  A \<open>Props\<close> event is a
  re-render by the parent with a new \<^verbatim>\<open>value\<close> prop.
\<close>

record text_field =
  tf_internal :: js_string
  tf_focused :: bool
  tf_touched :: bool
  tf_errors :: "js_string list"

record text_props =
  tp_validators :: "validation_rule list"
  tp_value :: "js_string option"

datatype tf_output = OnChangeText js_string | OnValidate bool

datatype tf_event = Change js_string | Focus | Blur | Props "js_string option"

definition tf_init :: text_field where
  "tf_init = \<lparr>tf_internal = [], tf_focused = False, tf_touched = False, tf_errors = []\<rparr>"

definition tf_value :: "text_props \<Rightarrow> text_field \<Rightarrow> js_string" where
  "tf_value p s = (case tp_value p of Some v \<Rightarrow> v | None \<Rightarrow> tf_internal s)"

definition handle_change_text ::
  "text_props \<Rightarrow> text_field \<Rightarrow> js_string \<Rightarrow> js_error + text_field \<times> tf_output list" where
  "handle_change_text p s text =
     (let s1 = (if tp_value p = None then s\<lparr>tf_internal := text\<rparr> else s)
      in if tf_touched s then
           (case validate (tp_validators p) text of
              Inl e \<Rightarrow> Inl e
            | Inr errs \<Rightarrow> Inr (s1\<lparr>tf_errors := errs\<rparr>, [OnChangeText text, OnValidate (errs = [])]))
         else Inr (s1, [OnChangeText text]))"

definition handle_focus :: "text_field \<Rightarrow> text_field" where
  "handle_focus s = s\<lparr>tf_focused := True\<rparr>"

definition handle_blur ::
  "text_props \<Rightarrow> text_field \<Rightarrow> js_error + text_field \<times> tf_output list" where
  "handle_blur p s =
     (case validate (tp_validators p) (tf_value p s) of
        Inl e \<Rightarrow> Inl e
      | Inr errs \<Rightarrow>
          Inr (s\<lparr>tf_focused := False, tf_touched := True, tf_errors := errs\<rparr>, [OnValidate (errs = [])]))"

definition tf_has_error :: "text_field \<Rightarrow> bool" where
  "tf_has_error s \<longleftrightarrow> tf_touched s \<and> tf_errors s \<noteq> []"

definition tf_is_success :: "text_props \<Rightarrow> text_field \<Rightarrow> bool" where
  "tf_is_success p s \<longleftrightarrow> tf_touched s \<and> tf_errors s = [] \<and> js_trim (tf_value p s) \<noteq> []"

fun tf_step ::
  "text_props \<times> text_field \<Rightarrow> tf_event \<Rightarrow> js_error + (text_props \<times> text_field) \<times> tf_output list" where
  "tf_step (p, s) (Change t) =
     (case handle_change_text p s t of Inl e \<Rightarrow> Inl e | Inr (s', os) \<Rightarrow> Inr ((p, s'), os))"
| "tf_step (p, s) Focus = Inr ((p, handle_focus s), [])"
| "tf_step (p, s) Blur =
     (case handle_blur p s of Inl e \<Rightarrow> Inl e | Inr (s', os) \<Rightarrow> Inr ((p, s'), os))"
| "tf_step (p, s) (Props v) = Inr ((p\<lparr>tp_value := v\<rparr>, s), [])"

fun tf_run ::
  "text_props \<times> text_field \<Rightarrow> tf_event list \<Rightarrow> js_error + (text_props \<times> text_field) \<times> tf_output list" where
  "tf_run c [] = Inr (c, [])"
| "tf_run c (e # es) =
     (case tf_step c e of
        Inl err \<Rightarrow> Inl err
      | Inr (c', os) \<Rightarrow> (case tf_run c' es of Inl err \<Rightarrow> Inl err | Inr (c'', os') \<Rightarrow> Inr (c'', os @ os')))"

text \<open>
  The onboarding screen drives its fields in controlled mode with an echoing
  parent (\<^verbatim>\<open>value={name} onChangeText={setName}\<close>,
  \<^verbatim>\<open>src/services/onboarding.service.ts\<close> lines 290--295): every change is
  followed by a re-render that passes the typed text back as the \<^verbatim>\<open>value\<close> prop.
\<close>

fun parent_echo :: "tf_event \<Rightarrow> tf_event list" where
  "parent_echo (Change t) = [Change t, Props (Some t)]"
| "parent_echo e = [e]"

definition no_props :: "tf_event \<Rightarrow> bool" where
  "no_props e = (case e of Props _ \<Rightarrow> False | _ \<Rightarrow> True)"

subsection \<open>What the field renders\<close>

text \<open>The label with a required mark when a rule is \<^verbatim>\<open>required\<close>, the
  border colour of \<^verbatim>\<open>getBorderColor\<close>, the success and error icons, the
  error messages or the helper text, and the character count of a
  \<^verbatim>\<open>maxLength\<close> rule; React cannot render a regular expression as the
  maximum and throws.\<close>

record tf_display =
  td_label :: js_string
  td_helper :: "js_string option"
  td_disabled :: bool

record tf_view =
  tv_label :: js_string
  tv_required_mark :: bool
  tv_border :: js_string
  tv_editable :: bool
  tv_success_icon :: bool
  tv_error_icon :: bool
  tv_messages :: "js_string list"
  tv_char_count :: "js_string option"

definition tf_border_color :: "tf_display \<Rightarrow> text_props \<Rightarrow> text_field \<Rightarrow> js_string" where
  "tf_border_color d p s =
     (if td_disabled d then ''#E0E0E0'' else if tf_has_error s then ''#F44336''
      else if tf_is_success p s then ''#4CAF50'' else if tf_focused s then ''#2196F3'' else ''#BDBDBD'')"

definition tf_char_count :: "text_props \<Rightarrow> text_field \<Rightarrow> js_error + js_string option" where
  "tf_char_count p s =
     (case find (\<lambda>r. vr_type r = MaxLength) (tp_validators p) of
        None \<Rightarrow> Inr None
      | Some r \<Rightarrow>
          (let shown = js_int_string (int (length (tf_value p s))) @ '' / ''
           in case vr_value r of
                None \<Rightarrow> Inr (Some shown)
              | Some (VNum n) \<Rightarrow> Inr (Some (shown @ js_int_string n))
              | Some (VRegex _) \<Rightarrow> Inl (PlainError ''Objects are not valid as a React child'')))"

definition tf_view :: "tf_display \<Rightarrow> text_props \<Rightarrow> text_field \<Rightarrow> js_error + tf_view" where
  "tf_view d p s =
     (case tf_char_count p s of
        Inl e \<Rightarrow> Inl e
      | Inr cc \<Rightarrow>
          Inr \<lparr>tv_label = td_label d, tv_required_mark = list_ex (\<lambda>r. vr_type r = Required) (tp_validators p),
               tv_border = tf_border_color d p s, tv_editable = \<not> td_disabled d,
               tv_success_icon = tf_is_success p s, tv_error_icon = tf_has_error s,
               tv_messages = (if tf_has_error s then tf_errors s
                              else case td_helper d of Some h \<Rightarrow> if h \<noteq> [] then [h] else [] | None \<Rightarrow> []),
               tv_char_count = cc\<rparr>)"

subsection \<open>Invariants of the controller\<close>

text \<open>
  \<open>tf_inv\<close>: once the field is touched, its errors are the engine's verdict on
  the value it shows.
\<close>

definition tf_inv :: "text_props \<times> text_field \<Rightarrow> bool" where
  "tf_inv c \<longleftrightarrow>
     (tf_touched (snd c) \<longrightarrow>
      validate (tp_validators (fst c)) (tf_value (fst c) (snd c)) = Inr (tf_errors (snd c)))"

lemma tf_inv_init [simp]: "tf_inv (p, tf_init)"
  by (simp add: tf_inv_def tf_init_def)

lemma tf_step_touched:
  "tf_step c e = Inr (c', os) \<Longrightarrow> tf_touched (snd c) \<Longrightarrow> tf_touched (snd c')"
  by (cases c; cases e)
     (auto simp: handle_change_text_def handle_blur_def handle_focus_def Let_def
        split: sum.splits if_splits)

lemma tf_step_props:
  "tf_step c e = Inr (c', os) \<Longrightarrow> no_props e \<Longrightarrow> fst c' = fst c"
  by (cases c; cases e) (auto simp: no_props_def split: sum.splits prod.splits)

lemma tf_step_inv_uncontrolled:
  assumes "tf_step c e = Inr (c', os)" and "tf_inv c" and "tp_value (fst c) = None"
    and "no_props e"
  shows "tf_inv c'"
  using assms
  by (cases c; cases e)
     (auto simp: tf_inv_def handle_change_text_def handle_blur_def handle_focus_def tf_value_def
        no_props_def Let_def split: sum.splits if_splits)

lemma tf_echo_inv_controlled:
  assumes "tf_run c (parent_echo e) = Inr (c', os)" and "tf_inv c" and "tp_value (fst c) \<noteq> None"
    and "no_props e"
  shows "tf_inv c' \<and> tp_value (fst c') \<noteq> None \<and> tp_validators (fst c') = tp_validators (fst c)"
  using assms
  by (cases c; cases e)
     (auto simp: tf_inv_def handle_change_text_def handle_blur_def handle_focus_def tf_value_def
        no_props_def Let_def split: sum.splits if_splits)

lemma tf_run_append:
  "tf_run c (xs @ ys) =
     (case tf_run c xs of
        Inl e \<Rightarrow> Inl e
      | Inr (c', os) \<Rightarrow> (case tf_run c' ys of Inl e \<Rightarrow> Inl e | Inr (c'', os') \<Rightarrow> Inr (c'', os @ os')))"
  by (induction c xs rule: tf_run.induct) (auto split: sum.splits prod.splits)

lemma tf_run_inv_uncontrolled:
  "tf_run c es = Inr (c', os) \<Longrightarrow> tf_inv c \<Longrightarrow> tp_value (fst c) = None \<Longrightarrow> list_all no_props es \<Longrightarrow>
   tf_inv c' \<and> fst c' = fst c"
proof (induction c es arbitrary: os rule: tf_run.induct)
  case (1 c)
  then show ?case by simp
next
  case (2 c e es)
  then obtain c1 os1 os2 where st: "tf_step c e = Inr (c1, os1)" and rn: "tf_run c1 es = Inr (c', os2)"
    by (auto split: sum.splits prod.splits)
  have "fst c1 = fst c" using st "2.prems"(4) by (simp add: tf_step_props)
  moreover have "tf_inv c1" using st "2.prems" by (auto intro: tf_step_inv_uncontrolled)
  ultimately show ?case using "2.IH" [OF st] rn "2.prems" by auto
qed

lemma tf_run_inv_echo:
  "tf_run c (concat (map parent_echo es)) = Inr (c', os) \<Longrightarrow> tf_inv c \<Longrightarrow> tp_value (fst c) \<noteq> None \<Longrightarrow>
   list_all no_props es \<Longrightarrow>
   tf_inv c' \<and> tp_value (fst c') \<noteq> None \<and> tp_validators (fst c') = tp_validators (fst c)"
proof (induction es arbitrary: c os)
  case Nil
  then show ?case by simp
next
  case (Cons e es)
  from Cons.prems(1) obtain c1 os1 os2 where e: "tf_run c (parent_echo e) = Inr (c1, os1)"
    and rn: "tf_run c1 (concat (map parent_echo es)) = Inr (c', os2)"
    by (auto simp: tf_run_append split: sum.splits prod.splits)
  have "tf_inv c1 \<and> tp_value (fst c1) \<noteq> None \<and> tp_validators (fst c1) = tp_validators (fst c)"
    using tf_echo_inv_controlled [OF e] Cons.prems by simp
  then show ?case using Cons.IH [OF rn] Cons.prems by simp
qed

lemmas tf_eval = tf_init_def handle_change_text_def handle_blur_def handle_focus_def tf_value_def
  no_props_def tf_has_error_def tf_is_success_def name_rules_eval

text \<open>The name field of the onboarding screen in uncontrolled mode.\<close>

definition name_field :: text_props where
  "name_field = \<lparr>tp_validators = name_rules, tp_value = None\<rparr>"

text \<open>The success tick shows only for a value that passes every rule and is
  not blank, the error cross only with the failing messages, and never both.\<close>

lemma tf_view_icons:
  assumes "tf_inv (p, s)" and "tf_view d p s = Inr v"
  shows "(tv_success_icon v \<longrightarrow> validate (tp_validators p) (tf_value p s) = Inr [] \<and> js_trim (tf_value p s) \<noteq> []) \<and>
         (tv_error_icon v \<longrightarrow> validate (tp_validators p) (tf_value p s) = Inr (tv_messages v) \<and> tv_messages v \<noteq> []) \<and>
         \<not> (tv_success_icon v \<and> tv_error_icon v)"
  using assms by (auto simp: tf_view_def tf_inv_def tf_is_success_def tf_has_error_def split: sum.splits)

subsection \<open>Properties of the controller\<close>

text \<open>C5: \<^verbatim>\<open>isTouched\<close> goes from false to true only: no sequence of events
  resets a touched field.\<close>
theorem tf_touched_never_reset:
  "tf_run c es = Inr (c', os) \<Longrightarrow> tf_touched (snd c) \<Longrightarrow> tf_touched (snd c')"
proof (induction c es arbitrary: os rule: tf_run.induct)
  case (1 c)
  then show ?case by simp
next
  case (2 c e es)
  then show ?case
    by (auto split: sum.splits prod.splits dest: tf_step_touched)
qed

theorem tf_touched_never_reset_witness:
  "tf_run (name_field, tf_init\<lparr>tf_touched := True\<rparr>) [Change ''Ada'', Props (Some [])]
     = Inr ((name_field\<lparr>tp_value := Some []\<rparr>, tf_init\<lparr>tf_internal := ''Ada'', tf_touched := True\<rparr>),
            [OnChangeText ''Ada'', OnValidate True]) \<and>
   tf_touched (tf_init\<lparr>tf_internal := ''Ada'', tf_touched := True\<rparr>)"
proof -
  have r: "tf_run (name_field, tf_init\<lparr>tf_touched := True\<rparr>) [Change ''Ada'', Props (Some [])]
     = Inr ((name_field\<lparr>tp_value := Some []\<rparr>, tf_init\<lparr>tf_internal := ''Ada'', tf_touched := True\<rparr>),
            [OnChangeText ''Ada'', OnValidate True])"
    by (simp add: name_field_def tf_eval)
  have "tf_touched (snd (name_field, tf_init\<lparr>tf_touched := True\<rparr>))" by simp
  with r show ?thesis using tf_touched_never_reset [OF r] by simp
qed

text \<open>The specification's test case: a required field with the empty value shows no
  error before it is blurred; focusing and blurring it makes it touched, with
  exactly the rule's message, reported as invalid.\<close>
theorem tf_required_empty_blur:
  "\<not> tf_has_error tf_init \<and>
   tf_run (\<lparr>tp_validators = [\<lparr>vr_type = Required, vr_value = None, vr_message = ''Name is required'', vr_validator = None\<rparr>],
            tp_value = Some []\<rparr>, tf_init) [Focus, Blur]
   = Inr ((\<lparr>tp_validators = [\<lparr>vr_type = Required, vr_value = None, vr_message = ''Name is required'', vr_validator = None\<rparr>],
            tp_value = Some []\<rparr>, tf_init\<lparr>tf_touched := True, tf_errors := [''Name is required'']\<rparr>),
          [OnValidate False]) \<and>
   tf_has_error (tf_init\<lparr>tf_touched := True, tf_errors := [''Name is required'']\<rparr>)"
  by (simp add: tf_eval rule_fails_def)

text \<open>C6: in uncontrolled mode, whatever the user does (changes, focus, blur), a
  touched field's errors are exactly the engine's verdict on its current value.\<close>

theorem tf_uncontrolled_errors_are_verdict:
  assumes "tp_value p = None" and "list_all no_props es"
    and "tf_run (p, tf_init) es = Inr ((p', s'), os)" and "tf_touched s'"
  shows "validate (tp_validators p) (tf_internal s') = Inr (tf_errors s')"
proof -
  have "tf_inv (p', s') \<and> fst (p', s') = fst (p, tf_init)"
    using assms(1,2) by (intro tf_run_inv_uncontrolled [OF assms(3)]) simp_all
  then have p': "p' = p" and inv: "tf_inv (p', s')" by auto
  from inv assms(1,4) show ?thesis by (simp add: tf_inv_def tf_value_def p')
qed

theorem tf_uncontrolled_errors_are_verdict_witness:
  "tf_run (name_field, tf_init) [Focus, Change ''Ada'', Blur, Change ''A'']
     = Inr ((name_field, \<lparr>tf_internal = ''A'', tf_focused = False, tf_touched = True,
                         tf_errors = [''Name must be at least 2 characters'']\<rparr>),
            [OnChangeText ''Ada'', OnValidate True, OnChangeText ''A'', OnValidate False]) \<and>
   validate name_rules ''A'' = Inr [''Name must be at least 2 characters'']"
proof -
  have r: "tf_run (name_field, tf_init) [Focus, Change ''Ada'', Blur, Change ''A'']
     = Inr ((name_field, \<lparr>tf_internal = ''A'', tf_focused = False, tf_touched = True,
                         tf_errors = [''Name must be at least 2 characters'']\<rparr>),
            [OnChangeText ''Ada'', OnValidate True, OnChangeText ''A'', OnValidate False])"
    by (simp add: name_field_def tf_eval)
  have "tp_value name_field = None" "list_all no_props [Focus, Change ''Ada'', Blur, Change ''A'']"
    by (simp_all add: name_field_def no_props_def)
  with r show ?thesis
    using tf_uncontrolled_errors_are_verdict [of name_field, OF _ _ r] by (simp add: name_field_def)
qed

text \<open>C7: on the onboarding screen (controlled mode, the parent echoing every change
  as the new \<^verbatim>\<open>value\<close>), a touched field's errors are exactly the engine's
  verdict on the value it shows.\<close>

theorem tf_screen_errors_are_verdict:
  assumes "tp_value p \<noteq> None" and "list_all no_props es"
    and "tf_run (p, tf_init) (concat (map parent_echo es)) = Inr ((p', s'), os)" and "tf_touched s'"
  shows "validate (tp_validators p) (tf_value p' s') = Inr (tf_errors s')"
proof -
  have "tf_inv (p', s') \<and> tp_value (fst (p', s')) \<noteq> None \<and>
        tp_validators (fst (p', s')) = tp_validators (fst (p, tf_init))"
    using assms(1,2) by (intro tf_run_inv_echo [OF assms(3)]) simp_all
  then have v: "tp_validators p' = tp_validators p" and inv: "tf_inv (p', s')" by simp_all
  from inv assms(4) show ?thesis by (simp add: tf_inv_def v [symmetric])
qed

theorem tf_screen_errors_are_verdict_witness:
  "tf_run (name_field\<lparr>tp_value := Some []\<rparr>, tf_init) (concat (map parent_echo [Focus, Change ''A'', Blur]))
     = Inr ((name_field\<lparr>tp_value := Some ''A''\<rparr>,
             \<lparr>tf_internal = [], tf_focused = False, tf_touched = True,
              tf_errors = [''Name must be at least 2 characters'']\<rparr>),
            [OnChangeText ''A'', OnValidate False]) \<and>
   validate name_rules ''A'' = Inr [''Name must be at least 2 characters'']"
proof -
  have r: "tf_run (name_field\<lparr>tp_value := Some []\<rparr>, tf_init) (concat (map parent_echo [Focus, Change ''A'', Blur]))
     = Inr ((name_field\<lparr>tp_value := Some ''A''\<rparr>,
             \<lparr>tf_internal = [], tf_focused = False, tf_touched = True,
              tf_errors = [''Name must be at least 2 characters'']\<rparr>),
            [OnChangeText ''A'', OnValidate False])"
    by (simp add: name_field_def tf_eval)
  have "tp_value (name_field\<lparr>tp_value := Some []\<rparr>) \<noteq> None" "list_all no_props [Focus, Change ''A'', Blur]"
    by (simp_all add: no_props_def)
  with r show ?thesis
    using tf_screen_errors_are_verdict [OF _ _ r] by (simp add: name_field_def tf_value_def)
qed

text \<open>C9: the mode is not fixed at construction: it is re-read from the
  \<^verbatim>\<open>value\<close> prop on every render.  A field not yet touched, typed into in
  controlled mode, whose parent echoes the text and then passes
  \<^verbatim>\<open>undefined\<close>, shows its stale internal value, whatever was typed.\<close>

theorem tf_mode_switch_drops_text:
  assumes "tp_value p \<noteq> None" and "\<not> tf_touched s"
  shows "tf_run (p, s) [Change t, Props (Some t), Props None] = Inr ((p\<lparr>tp_value := None\<rparr>, s), [OnChangeText t]) \<and>
         tf_value (p\<lparr>tp_value := None\<rparr>) s = tf_internal s"
  using assms by (auto simp: tf_eval)

text \<open>C10: when the parent resets a touched, valid field's value to the
  empty string (the screen's \<^verbatim>\<open>handleReset\<close>), the field keeps its empty
  error list and shows no error, although the empty string violates its
  rules: for every list of rules that accepts the typed text and rejects the
  empty string.  The specification's invariant "errors is empty iff the value
  satisfies every rule" does not hold in controlled mode.\<close>

theorem tf_parent_reset_keeps_stale_errors:
  assumes "validate (tp_validators p) t = Inr []" and "validate (tp_validators p) [] = Inr es" and "es \<noteq> []"
  shows "tf_run (p\<lparr>tp_value := Some []\<rparr>, tf_init) [Change t, Props (Some t), Blur, Props (Some [])]
           = Inr ((p\<lparr>tp_value := Some []\<rparr>, \<lparr>tf_internal = [], tf_focused = False, tf_touched = True, tf_errors = []\<rparr>),
                  [OnChangeText t, OnValidate True]) \<and>
         \<not> tf_has_error \<lparr>tf_internal = [], tf_focused = False, tf_touched = True, tf_errors = []\<rparr> \<and>
         validate (tp_validators p) (tf_value (p\<lparr>tp_value := Some []\<rparr>) \<lparr>tf_internal = [], tf_focused = False, tf_touched = True, tf_errors = []\<rparr>)
           = Inr es"
  using assms by (simp add: tf_eval tf_has_error_def)

theorem tf_mode_switch_drops_text_witness:
  "tf_run (name_field\<lparr>tp_value := Some []\<rparr>, tf_init) [Change ''Ada'', Props (Some ''Ada''), Props None]
     = Inr ((name_field, tf_init), [OnChangeText ''Ada'']) \<and>
   tf_value name_field tf_init = []"
  using tf_mode_switch_drops_text [of "name_field\<lparr>tp_value := Some []\<rparr>" tf_init "''Ada''"]
  by (simp add: name_field_def tf_init_def)
theorem tf_parent_reset_keeps_stale_errors_witness:
  "tf_run (name_field\<lparr>tp_value := Some []\<rparr>, tf_init) [Change ''Ada'', Props (Some ''Ada''), Blur, Props (Some [])]
     = Inr ((name_field\<lparr>tp_value := Some []\<rparr>,
             \<lparr>tf_internal = [], tf_focused = False, tf_touched = True, tf_errors = []\<rparr>),
            [OnChangeText ''Ada'', OnValidate True]) \<and>
   \<not> tf_has_error \<lparr>tf_internal = [], tf_focused = False, tf_touched = True, tf_errors = []\<rparr> \<and>
   validate name_rules [] = Inr [''Name is required'', ''Name must be at least 2 characters'']"
proof -
  have "validate (tp_validators name_field) ''Ada'' = Inr []"
    "validate (tp_validators name_field) [] = Inr [''Name is required'', ''Name must be at least 2 characters'']"
    by (simp_all add: name_field_def tf_eval)
  from tf_parent_reset_keeps_stale_errors [OF this] show ?thesis
    by (simp add: name_field_def tf_value_def)
qed
end
