(* ===== verification/JsDate.thy ===== *)
theory JsDate
  imports Prelude
begin

text \<open>
  The part of the ECMAScript \<^verbatim>\<open>Date\<close> object that the date field uses
  (ECMA-262, section 21.4.1): a date is its time value, an integer number of
  milliseconds since 1970-01-01 UTC.  \<open>day_from_year\<close> is \<^verbatim>\<open>DayFromYear\<close>,
  \<open>make_day\<close> is \<^verbatim>\<open>MakeDay\<close> (month overflow carried into the year, day
  overflow into later months), \<open>civil_of_day\<close> gives the getters
  \<^verbatim>\<open>YearFromTime\<close>, \<^verbatim>\<open>MonthFromTime\<close> and \<^verbatim>\<open>DateFromTime\<close> of a day
  number.  Local time is UTC plus a fixed offset \<open>tz\<close> in milliseconds (no
  daylight-saving changes).  \<open>js_new_date\<close> is \<^verbatim>\<open>new Date(y, m, d)\<close>: a
  year between 0 and 99 means 1900 plus it, the result is local midnight, and
  \<^verbatim>\<open>TimeClip\<close> makes a time value beyond 8.64e15 ms an invalid date
  (\<open>None\<close>).  The year getter searches from an estimate (\<open>find_year\<close>); its
  result does not depend on the estimate.
\<close>

definition ms_per_day :: int where
  "ms_per_day = 86400000"

definition leap_year :: "int \<Rightarrow> bool" where
  "leap_year y \<longleftrightarrow> y mod 4 = 0 \<and> (y mod 100 \<noteq> 0 \<or> y mod 400 = 0)"

definition days_in_year :: "int \<Rightarrow> int" where
  "days_in_year y = (if leap_year y then 366 else 365)"

definition day_from_year :: "int \<Rightarrow> int" where
  "day_from_year y =
     365 * (y - 1970) + (y - 1969) div 4 - (y - 1901) div 100 + (y - 1601) div 400"

text \<open>Days before the first day of month \<open>m\<close> (0-based), for \<open>0 \<le> m \<le> 12\<close>.\<close>

definition month_table :: "int list" where
  "month_table = [0, 31, 59, 90, 120, 151, 181, 212, 243, 273, 304, 334, 365]"

definition month_start :: "bool \<Rightarrow> int \<Rightarrow> int" where
  "month_start lp m = month_table ! nat m + (if lp \<and> 2 \<le> m then 1 else 0)"

definition days_in_month :: "int \<Rightarrow> int \<Rightarrow> int" where
  "days_in_month y m = month_start (leap_year y) (m + 1) - month_start (leap_year y) m"

lemma days_in_year_ge: "365 \<le> days_in_year y"
  by (simp add: days_in_year_def)

lemma leap_indicator:
  "(B \<Longrightarrow> A) \<Longrightarrow> (C \<Longrightarrow> B) \<Longrightarrow>
   of_bool A - of_bool B + of_bool C = (of_bool (A \<and> (\<not> B \<or> C)) :: int)"
  by (cases A; cases B; cases C) simp_all

lemma day_from_year_Suc: "day_from_year (y + 1) = day_from_year y + days_in_year y"
proof -
  have a: "(y + 1 - 1969) div 4 = (y - 1969) div 4 + of_bool (y mod 4 = 0)"
    by (rule div_step_shift) simp_all
  have b: "(y + 1 - 1901) div 100 = (y - 1901) div 100 + of_bool (y mod 100 = 0)"
    by (rule div_step_shift) simp_all
  have c: "(y + 1 - 1601) div 400 = (y - 1601) div 400 + of_bool (y mod 400 = 0)"
    by (rule div_step_shift) simp_all
  have d: "y mod 100 = 0 \<Longrightarrow> y mod 4 = 0" "y mod 400 = 0 \<Longrightarrow> y mod 100 = 0"
    using mod_dvd_zero [of 4 100 y] mod_dvd_zero [of 100 400 y] by simp_all
  have "day_from_year (y + 1) =
      365 * (y + 1 - 1970) + (y + 1 - 1969) div 4 - (y + 1 - 1901) div 100 + (y + 1 - 1601) div 400"
    by (rule day_from_year_def)
  also have "\<dots> = 365 * (y + 1 - 1970) + ((y - 1969) div 4 + of_bool (y mod 4 = 0))
      - ((y - 1901) div 100 + of_bool (y mod 100 = 0)) + ((y - 1601) div 400 + of_bool (y mod 400 = 0))"
    by (simp only: a b c)
  also have "\<dots> = day_from_year y + 365 + of_bool (y mod 4 = 0)
      - of_bool (y mod 100 = 0) + of_bool (y mod 400 = 0)"
    unfolding day_from_year_def by (simp only: algebra_simps)
  finally have e: "day_from_year (y + 1) = day_from_year y + 365 + of_bool (y mod 4 = 0)
      - of_bool (y mod 100 = 0) + of_bool (y mod 400 = 0)" .
  have f: "of_bool (y mod 4 = 0) - of_bool (y mod 100 = 0) + of_bool (y mod 400 = 0)
      = (of_bool (leap_year y) :: int)"
    unfolding leap_year_def using d by (rule leap_indicator)
  have g: "days_in_year y = 365 + of_bool (leap_year y)"
    by (simp add: days_in_year_def)
  show ?thesis
    using e f g by linarith
qed

lemma day_from_year_less_Suc: "day_from_year y < day_from_year (y + 1)"
  using day_from_year_Suc [of y] days_in_year_ge [of y] by simp

lemma day_from_year_strict_mono: "y < y' \<Longrightarrow> day_from_year y < day_from_year y'"
proof (induction "nat (y' - y - 1)" arbitrary: y')
  case 0
  then have "y' = y + 1" by simp
  then show ?case using day_from_year_less_Suc by simp
next
  case (Suc k)
  then have "day_from_year y < day_from_year (y' - 1)" by simp
  also have "day_from_year (y' - 1) < day_from_year y'"
    using day_from_year_less_Suc [of "y' - 1"] by simp
  finally show ?case .
qed

lemma day_from_year_mono_iff: "day_from_year y < day_from_year y' \<longleftrightarrow> y < y'"
  by (metis day_from_year_strict_mono not_less_iff_gr_or_eq order_less_asym)

function find_year :: "int \<Rightarrow> int \<Rightarrow> int" where
  "find_year y n =
     (if n < day_from_year y then find_year (y - 1) n
      else if day_from_year (y + 1) \<le> n then find_year (y + 1) n
      else y)"
  by pat_completeness auto
termination
proof (relation "measures [\<lambda>(y, n). nat (day_from_year y - n), \<lambda>(y, n). nat (n - day_from_year y)]")
  show "wf (measures [\<lambda>(y, n). nat (day_from_year y - n), \<lambda>(y, n). nat (n - day_from_year y)])"
    by simp
next
  fix y n :: int
  assume "n < day_from_year y"
  moreover have "day_from_year (y - 1) < day_from_year y"
    using day_from_year_less_Suc [of "y - 1"] by simp
  ultimately show "((y - 1, n), y, n)
    \<in> measures [\<lambda>(y, n). nat (day_from_year y - n), \<lambda>(y, n). nat (n - day_from_year y)]"
    by simp
next
  fix y n :: int
  assume "\<not> n < day_from_year y" and "day_from_year (y + 1) \<le> n"
  moreover have "day_from_year y < day_from_year (y + 1)"
    by (rule day_from_year_less_Suc)
  ultimately show "((y + 1, n), y, n)
    \<in> measures [\<lambda>(y, n). nat (day_from_year y - n), \<lambda>(y, n). nat (n - day_from_year y)]"
    by simp
qed

declare find_year.simps [simp del]

definition year_from_day :: "int \<Rightarrow> int" where
  "year_from_day n = find_year (1970 + (400 * n) div 146097) n"

definition month_of_day_in_year :: "bool \<Rightarrow> int \<Rightarrow> int" where
  "month_of_day_in_year lp d = int (length (filter (\<lambda>k. month_start lp k \<le> d) [1 .. 11]))"

text \<open>The getters of a day number: year, 0-based month (\<^verbatim>\<open>getMonth\<close>), date.\<close>

definition civil_of_day :: "int \<Rightarrow> int \<times> int \<times> int" where
  "civil_of_day n =
     (let y = year_from_day n; lp = leap_year y; d = n - day_from_year y;
          m = month_of_day_in_year lp d
      in (y, m, d - month_start lp m + 1))"

definition make_day :: "int \<Rightarrow> int \<Rightarrow> int \<Rightarrow> int" where
  "make_day y m dt =
     (let ym = y + m div 12; mn = m mod 12
      in day_from_year ym + month_start (leap_year ym) mn + dt - 1)"

definition time_clip :: "int \<Rightarrow> int option" where
  "time_clip t = (if \<bar>t\<bar> \<le> 8640000000000000 then Some t else None)"

definition js_new_date :: "int \<Rightarrow> int \<Rightarrow> int \<Rightarrow> int \<Rightarrow> int option" where
  "js_new_date tz y m d =
     (let yr = (if 0 \<le> y \<and> y \<le> 99 then 1900 + y else y)
      in time_clip (make_day yr m d * ms_per_day - tz))"

definition local_day :: "int \<Rightarrow> int \<Rightarrow> int" where
  "local_day tz t = (t + tz) div ms_per_day"

definition local_civil :: "int \<Rightarrow> int \<Rightarrow> int \<times> int \<times> int" where
  "local_civil tz t = civil_of_day (local_day tz t)"

definition valid_civil :: "int \<Rightarrow> int \<Rightarrow> int \<Rightarrow> bool" where
  "valid_civil y m d \<longleftrightarrow> 0 \<le> m \<and> m \<le> 11 \<and> 1 \<le> d \<and> d \<le> days_in_month y m"

text \<open>
  \<^verbatim>\<open>new Date(s)\<close> for a date-only ISO string \<^verbatim>\<open>YYYY-MM-DD\<close>: such a
  string denotes UTC midnight (ECMA-262, 21.4.1.32); a string of another shape or
  naming no calendar day is an invalid date.
\<close>

definition js_date_parse_iso :: "js_string \<Rightarrow> int option" where
  "js_date_parse_iso s =
     (case js_split CHR ''-'' s of
        [a, b, c] \<Rightarrow>
          if length a = 4 \<and> length b = 2 \<and> length c = 2 \<and> (\<forall>ch\<in>set (a @ b @ c). is_digit ch) then
            (let y = int (digits_value a); m = int (digits_value b) - 1; d = int (digits_value c)
             in if valid_civil y m d then time_clip (make_day y m d * ms_per_day) else None)
          else None
      | _ \<Rightarrow> None)"

subsection \<open>The getters invert \<open>MakeDay\<close> on valid dates\<close>

lemma find_year_bounds:
  "day_from_year (find_year y n) \<le> n \<and> n < day_from_year (find_year y n + 1)"
proof (induction y n rule: find_year.induct)
  case (1 y n)
  show ?case
  proof (cases "n < day_from_year y")
    case True
    with "1.IH"(1) show ?thesis by (simp add: find_year.simps [of y n])
  next
    case False
    show ?thesis
    proof (cases "day_from_year (y + 1) \<le> n")
      case True
      with False "1.IH"(2) show ?thesis by (simp add: find_year.simps [of y n])
    next
      case False
      with \<open>\<not> n < day_from_year y\<close> show ?thesis by (simp add: find_year.simps [of y n])
    qed
  qed
qed

lemma day_from_year_mono: "y \<le> y' \<Longrightarrow> day_from_year y \<le> day_from_year y'"
  using day_from_year_strict_mono [of y y'] by (cases "y = y'") simp_all

lemma year_bracket_unique:
  assumes "day_from_year y \<le> n" "n < day_from_year (y + 1)"
    and "day_from_year y' \<le> n" "n < day_from_year (y' + 1)"
  shows "y = y'"
proof (rule ccontr)
  assume "y \<noteq> y'"
  then consider "y + 1 \<le> y'" | "y' + 1 \<le> y" by linarith
  then show False
  proof cases
    case 1
    then have "day_from_year (y + 1) \<le> day_from_year y'" by (rule day_from_year_mono)
    with assms show False by simp
  next
    case 2
    then have "day_from_year (y' + 1) \<le> day_from_year y" by (rule day_from_year_mono)
    with assms show False by simp
  qed
qed

lemma year_from_day_eq:
  "day_from_year y \<le> n \<Longrightarrow> n < day_from_year (y + 1) \<Longrightarrow> year_from_day n = y"
  using find_year_bounds [of "1970 + (400 * n) div 146097" n] year_bracket_unique
  unfolding year_from_day_def by blast

lemma year_from_day_bounds:
  "day_from_year (year_from_day n) \<le> n \<and> n < day_from_year (year_from_day n + 1)"
  unfolding year_from_day_def by (rule find_year_bounds)

lemma step_interval:
  "f 0 \<le> (x::int) \<Longrightarrow> x < f (n::nat) \<Longrightarrow> \<exists>m<n. f m \<le> x \<and> x < f (Suc m)"
proof (induction n)
  case 0
  then show ?case by simp
next
  case (Suc n)
  show ?case
  proof (cases "x < f n")
    case True
    with Suc.IH Suc.prems(1) obtain m where "m < n" "f m \<le> x" "x < f (Suc m)" by blast
    then show ?thesis by (intro exI [of _ m]) simp
  next
    case False
    with Suc.prems(2) show ?thesis by (intro exI [of _ n]) simp
  qed
qed

lemma month_start_table: "month_start lp m = month_table ! nat m + of_bool (lp \<and> 2 \<le> m)"
  by (simp add: month_start_def)

lemma month_start_strict:
  assumes "0 \<le> i" "i < j" "j \<le> 12"
  shows "month_start lp i < month_start lp j"
proof -
  have s: "sorted_wrt (<) month_table" by (simp add: month_table_def)
  have "month_table ! nat i < month_table ! nat j"
    using assms by (intro sorted_wrt_nth_less [OF s]) (simp_all add: month_table_def)
  then show ?thesis
    using assms by (auto simp: month_start_table)
qed

lemma month_start_mono:
  "0 \<le> i \<Longrightarrow> i \<le> j \<Longrightarrow> j \<le> 12 \<Longrightarrow> month_start lp i \<le> month_start lp j"
  using month_start_strict [of i j lp] by (cases "i = j") simp_all

lemma month_start_0 [simp]: "month_start lp 0 = 0"
  by (simp add: month_start_def month_table_def)

lemma month_start_12: "month_start (leap_year y) 12 = days_in_year y"
  by (simp add: month_start_def month_table_def days_in_year_def)

lemma length_filter_le_upto:
  assumes "0 \<le> m" "m \<le> 11"
  shows "length (filter (\<lambda>k. k \<le> m) [1 .. 11]) = nat m"
proof (cases "m = 11")
  case True
  have "filter (\<lambda>k. k \<le> m) [1 .. 11] = [1 .. 11]" using True by (intro filter_True) simp
  then show ?thesis using True by simp
next
  case False
  have "[1 .. 11] = [1 .. m + 1 - 1] @ [m + 1 .. (11::int)]"
    using assms False by (intro upto_split1) simp_all
  moreover have "filter (\<lambda>k. k \<le> m) [1 .. m] = [1 .. m]" by (rule filter_True) simp
  moreover have "filter (\<lambda>k. k \<le> m) [m + 1 .. 11] = []" by (rule filter_False) simp
  ultimately show ?thesis using assms by simp
qed

lemma month_of_day_in_year_eq:
  assumes m: "0 \<le> m" "m \<le> 11" and d: "month_start lp m \<le> d" "d < month_start lp (m + 1)"
  shows "month_of_day_in_year lp d = m"
proof -
  have "filter (\<lambda>k. month_start lp k \<le> d) [1 .. 11] = filter (\<lambda>k. k \<le> m) [1 .. 11]"
  proof (rule filter_cong [OF refl])
    fix k :: int
    assume "k \<in> set [1 .. 11]"
    then have k: "1 \<le> k" "k \<le> 11" by simp_all
    show "month_start lp k \<le> d \<longleftrightarrow> k \<le> m"
    proof
      assume "month_start lp k \<le> d"
      show "k \<le> m"
      proof (rule ccontr)
        assume "\<not> k \<le> m"
        then have "month_start lp (m + 1) \<le> month_start lp k"
          using m k by (intro month_start_mono) simp_all
        with d \<open>month_start lp k \<le> d\<close> show False by simp
      qed
    next
      assume "k \<le> m"
      then have "month_start lp k \<le> month_start lp m"
        using m k by (intro month_start_mono) simp_all
      with d show "month_start lp k \<le> d" by simp
    qed
  qed
  then show ?thesis
    using length_filter_le_upto [OF m] m by (simp add: month_of_day_in_year_def)
qed

lemma civil_of_make_day:
  assumes "valid_civil y m d"
  shows "civil_of_day (make_day y m d) = (y, m, d)"
proof -
  have m: "0 \<le> m" "m \<le> 11" and d: "1 \<le> d" "d \<le> days_in_month y m"
    using assms by (simp_all add: valid_civil_def)
  let ?lp = "leap_year y"
  have md: "make_day y m d = day_from_year y + month_start ?lp m + d - 1"
    using m by (simp add: make_day_def)
  have s0: "0 \<le> month_start ?lp m"
    using month_start_mono [of 0 m ?lp] m by simp
  have s12: "month_start ?lp (m + 1) \<le> days_in_year y"
    using month_start_mono [of "m + 1" 12 ?lp] m by (simp add: month_start_12)
  have y: "year_from_day (make_day y m d) = y"
    using md s0 s12 d by (intro year_from_day_eq) (simp_all add: day_from_year_Suc days_in_month_def)
  have mo: "month_of_day_in_year ?lp (month_start ?lp m + (d - 1)) = m"
    using m d by (intro month_of_day_in_year_eq) (simp_all add: days_in_month_def)
  show ?thesis
    using y mo md by (simp add: civil_of_day_def Let_def)
qed

lemma civil_of_day_valid:
  assumes "civil_of_day n = (y, m, d)"
  shows "valid_civil y m d \<and> make_day y m d = n"
proof -
  let ?y = "year_from_day n"
  let ?lp = "leap_year ?y"
  let ?dd = "n - day_from_year ?y"
  have b: "0 \<le> ?dd" "?dd < month_start ?lp 12"
    using year_from_day_bounds [of n] by (simp_all add: day_from_year_Suc month_start_12)
  obtain k :: nat where k: "k < 12" "month_start ?lp (int k) \<le> ?dd" "?dd < month_start ?lp (int (Suc k))"
    using step_interval [of "\<lambda>k. month_start ?lp (int k)" ?dd 12] b by auto
  have k3: "?dd < month_start ?lp (int k + 1)" using k(3) by (simp add: add.commute)
  have mo: "month_of_day_in_year ?lp ?dd = int k"
    using k k3 by (intro month_of_day_in_year_eq) simp_all
  have "civil_of_day n = (?y, int k, ?dd - month_start ?lp (int k) + 1)"
    using mo by (simp add: civil_of_day_def Let_def)
  with assms have eq: "(y, m, d) = (?y, int k, ?dd - month_start ?lp (int k) + 1)"
    by (rule subst)
  then have yy: "y = ?y" and mm: "m = int k" and dd: "d = ?dd - month_start ?lp (int k) + 1"
    by simp_all
  have "valid_civil y m d"
    using k k3 by (simp add: valid_civil_def yy mm dd days_in_month_def)
  moreover have "make_day y m d = n"
    using k by (simp add: make_day_def yy mm dd)
  ultimately show ?thesis ..
qed

subsection \<open>Dates built by the constructor\<close>

lemma local_civil_midnight:
  "local_civil tz (dn * ms_per_day - tz) = civil_of_day dn"
  by (simp add: local_civil_def local_day_def ms_per_day_def)

lemma js_new_date_valid:
  assumes "valid_civil y m d" and "100 \<le> y \<or> y < 0"
    and "js_new_date tz y m d = Some t"
  shows "t = make_day y m d * ms_per_day - tz \<and> local_civil tz t = (y, m, d)"
proof -
  have "t = make_day y m d * ms_per_day - tz"
    using assms(2,3) by (auto simp: js_new_date_def time_clip_def split: if_splits)
  then show ?thesis
    using civil_of_make_day [OF assms(1)] by (simp add: local_civil_midnight)
qed

subsection \<open>Bounds of \<open>MakeDay\<close> and local days\<close>

lemma days_in_month_le: "0 \<le> m \<Longrightarrow> m \<le> 11 \<Longrightarrow> days_in_month y m \<le> 31"
proof -
  assume "0 \<le> m" "m \<le> 11"
  then have "m \<in> set [0..11]" by simp
  then show ?thesis
    by (simp add: upto.simps days_in_month_def month_start_def month_table_def; elim disjE; simp)
qed

lemma make_day_valid:
  "valid_civil y m d \<Longrightarrow> make_day y m d = day_from_year y + month_start (leap_year y) m + d - 1"
  by (simp add: make_day_def valid_civil_def)

lemma make_day_year_bracket:
  assumes "valid_civil y m d"
  shows "day_from_year y \<le> make_day y m d \<and> make_day y m d < day_from_year (y + 1)"
proof -
  have m: "0 \<le> m" "m \<le> 11" and d: "1 \<le> d" "d \<le> days_in_month y m"
    using assms by (simp_all add: valid_civil_def)
  have "month_start (leap_year y) (m + 1) \<le> month_start (leap_year y) 12"
    using m by (intro month_start_mono) simp_all
  moreover have "0 \<le> month_start (leap_year y) m"
    using month_start_mono [of 0 m] m by simp
  ultimately show ?thesis
    using d make_day_valid [OF assms] day_from_year_Suc [of y] month_start_12 [of y]
    by (simp add: days_in_month_def)
qed

lemma make_day_range:
  assumes "valid_civil y m d" "1000 \<le> y" "y \<le> 9999"
  shows "\<bar>make_day y m d * ms_per_day\<bar> \<le> 8640000000000000 - ms_per_day"
proof -
  have "day_from_year 1000 \<le> make_day y m d"
    using day_from_year_mono [OF assms(2)] make_day_year_bracket [OF assms(1)] by simp
  moreover have "make_day y m d < day_from_year 10000"
    using day_from_year_mono [of "y + 1" 10000] make_day_year_bracket [OF assms(1)] assms(3) by simp
  ultimately show ?thesis by (simp add: day_from_year_def ms_per_day_def abs_le_iff)
qed

lemma make_day_lower:
  "0 \<le> m \<Longrightarrow> m \<le> 11 \<Longrightarrow> 1 \<le> d \<Longrightarrow> day_from_year y \<le> make_day y m d"
  using month_start_mono [of 0 m "leap_year y"] by (simp add: make_day_def)

lemma div_ms_offset:
  "- ms_per_day \<le> tz \<Longrightarrow> tz < ms_per_day \<Longrightarrow> tz div ms_per_day = (if tz < 0 then -1 else 0)"
proof -
  assume a: "- ms_per_day \<le> tz" "tz < ms_per_day"
  show ?thesis
  proof (cases "tz < 0")
    case True
    have "(tz + ms_per_day) div ms_per_day = 0"
      using a True by (intro div_pos_pos_trivial) simp_all
    then show ?thesis using True div_add_self2 [of ms_per_day tz] by (simp add: ms_per_day_def)
  next
    case False
    then show ?thesis using a by (simp add: div_pos_pos_trivial)
  qed
qed

lemma local_day_shift:
  "- ms_per_day \<le> tz \<Longrightarrow> tz < ms_per_day \<Longrightarrow>
   local_day tz (n * ms_per_day) = n - (if tz < 0 then 1 else 0)"
proof -
  assume "- ms_per_day \<le> tz" "tz < ms_per_day"
  moreover have "(tz + n * ms_per_day) div ms_per_day = n + tz div ms_per_day"
    by (rule div_mult_self1) (simp add: ms_per_day_def)
  ultimately show ?thesis using div_ms_offset [of tz] by (simp add: local_day_def add.commute)
qed

text \<open>A time is its local midnight plus the time of day, and a time of
  day after a valid day's midnight has that day as local date.\<close>

lemma local_midnight_le:
  "local_day tz t * ms_per_day - tz + (t + tz) mod ms_per_day = t" "0 \<le> (t + tz) mod ms_per_day"
proof -
  have "(t + tz) div ms_per_day * ms_per_day + (t + tz) mod ms_per_day = t + tz" by (rule div_mult_mod_eq)
  then show "local_day tz t * ms_per_day - tz + (t + tz) mod ms_per_day = t" unfolding local_day_def by linarith
  show "0 \<le> (t + tz) mod ms_per_day" by (simp add: ms_per_day_def)
qed

lemma local_civil_of_time:
  assumes "valid_civil y m d" "0 \<le> r" "r < ms_per_day"
  shows "local_civil tz (make_day y m d * ms_per_day - tz + r) = (y, m, d)"
    "(make_day y m d * ms_per_day - tz + r + tz) mod ms_per_day = r"
proof -
  have "(make_day y m d * ms_per_day - tz + r + tz) div ms_per_day = make_day y m d"
    using assms(2,3) by (simp add: ms_per_day_def)
  then show "local_civil tz (make_day y m d * ms_per_day - tz + r) = (y, m, d)"
    using civil_of_make_day [OF assms(1)] by (simp add: local_civil_def local_day_def)
  show "(make_day y m d * ms_per_day - tz + r + tz) mod ms_per_day = r"
    using assms(2,3) by (simp add: ms_per_day_def)
qed

end
