(* ===== verification/DateField.thy ===== *)
theory DateField
  imports JsDate
begin

text \<open>
  The date field \<^verbatim>\<open>CalendarPicker\<close>
  (\<^verbatim>\<open>src/components/onboarding/CalendarPicker.tsx\<close>).  A \<^verbatim>\<open>Date\<close> is its
  time value (\<open>int option\<close>, \<open>None\<close> for an invalid date), read in local time
  at the device's offset \<open>tz\<close>.  \<open>format_date\<close> is \<^verbatim>\<open>formatDate\<close>,
  \<open>parse_date\<close> is \<^verbatim>\<open>parseDate\<close> (split on the format's separator,
  \<^verbatim>\<open>parseInt\<close> of each part, \<^verbatim>\<open>new Date(year, month, day)\<close>, and the
  check that the getters give back the parsed numbers), \<open>validate_date\<close> is
  \<^verbatim>\<open>validateDate\<close> (the first failing check's message, the empty string when
  none fails).  The component's state is the record \<open>date_field\<close>; its
  handlers return the new state and the \<^verbatim>\<open>onChange\<close> calls they make.
  \<^verbatim>\<open>handleTextChange\<close> reads \<^verbatim>\<open>validationError\<close> outside the block that
  declares it (line 151): the reference is unresolvable and raises a
  \<^verbatim>\<open>ReferenceError\<close>, so its model is that error.
\<close>

datatype date_format = DDMMYYYY | MMDDYYYY | YYYYMMDD

definition format_name :: "date_format \<Rightarrow> js_string" where
  "format_name f = (case f of DDMMYYYY \<Rightarrow> ''DD/MM/YYYY'' | MMDDYYYY \<Rightarrow> ''MM/DD/YYYY''
                             | YYYYMMDD \<Rightarrow> ''YYYY-MM-DD'')"

record date_props =
  dp_format :: date_format
  dp_min :: "int option"
  dp_max :: "int option"
  dp_required :: bool
  dp_disabled :: bool

subsection \<open>Formatting and parsing\<close>

text \<open>The three fields of \<^verbatim>\<open>formatDate\<close>: day and month padded to two digits,
  the year unpadded; an invalid date gives \<^verbatim>\<open>NaN\<close> in each.\<close>

definition date_fields :: "int \<Rightarrow> int option \<Rightarrow> js_string \<times> js_string \<times> js_string" where
  "date_fields tz t =
     (case t of
        None \<Rightarrow> (''NaN'', ''NaN'', ''NaN'')
      | Some v \<Rightarrow>
          (let (y, m, d) = local_civil tz v
           in (js_pad_start 2 CHR ''0'' (js_int_string d), js_pad_start 2 CHR ''0'' (js_int_string (m + 1)),
               js_int_string y)))"

definition format_date :: "date_format \<Rightarrow> int \<Rightarrow> int option \<Rightarrow> js_string" where
  "format_date f tz t =
     (let (day, month, year) = date_fields tz t
      in case f of
           DDMMYYYY \<Rightarrow> day @ CHR ''/'' # month @ CHR ''/'' # year
         | MMDDYYYY \<Rightarrow> month @ CHR ''/'' # day @ CHR ''/'' # year
         | YYYYMMDD \<Rightarrow> year @ CHR ''-'' # month @ CHR ''-'' # day)"

text \<open>\<^verbatim>\<open>new Date(year, month, day)\<close> and the check of its getters, on the
  numbers \<^verbatim>\<open>parseInt\<close> gave (\<open>None\<close> for \<^verbatim>\<open>NaN\<close>).\<close>

definition parse_date_parts :: "int \<Rightarrow> int option \<Rightarrow> int option \<Rightarrow> int option \<Rightarrow> int option" where
  "parse_date_parts tz dayo montho yearo =
     (case (dayo, montho, yearo) of
        (Some day, Some month, Some year) \<Rightarrow>
          (case js_new_date tz year month day of
             None \<Rightarrow> None
           | Some t \<Rightarrow> if local_civil tz t = (year, month, day) then Some t else None)
      | _ \<Rightarrow> None)"

definition parse_date :: "date_format \<Rightarrow> int \<Rightarrow> js_string \<Rightarrow> int option" where
  "parse_date f tz s =
     (if js_trim s = [] then None
      else case f of
        DDMMYYYY \<Rightarrow>
          (case js_split CHR ''/'' s of
             [p0, p1, p2] \<Rightarrow>
               parse_date_parts tz (js_parse_int p0) (map_option (\<lambda>m. m - 1) (js_parse_int p1))
                 (js_parse_int p2)
           | _ \<Rightarrow> None)
      | MMDDYYYY \<Rightarrow>
          (case js_split CHR ''/'' s of
             [p0, p1, p2] \<Rightarrow>
               parse_date_parts tz (js_parse_int p1) (map_option (\<lambda>m. m - 1) (js_parse_int p0))
                 (js_parse_int p2)
           | _ \<Rightarrow> None)
      | YYYYMMDD \<Rightarrow>
          (case js_split CHR ''-'' s of
             [p0, p1, p2] \<Rightarrow>
               parse_date_parts tz (js_parse_int p2) (map_option (\<lambda>m. m - 1) (js_parse_int p1))
                 (js_parse_int p0)
           | _ \<Rightarrow> None))"

text \<open>\<^verbatim>\<open>toCalendarFormat\<close>: the calendar's \<^verbatim>\<open>YYYY-MM-DD\<close> key of a date,
  read through the local getters, and \<^verbatim>\<open>markedDates\<close>, the key of the
  parsed text (\<open>None\<close> for the empty object).\<close>

definition to_calendar_format :: "int \<Rightarrow> int \<Rightarrow> js_string" where
  "to_calendar_format tz t =
     (let (y, m, d) = local_civil tz t
      in js_int_string y @ CHR ''-'' # js_pad_start 2 CHR ''0'' (js_int_string (m + 1)) @
         CHR ''-'' # js_pad_start 2 CHR ''0'' (js_int_string d))"

definition marked_dates :: "date_props \<Rightarrow> int \<Rightarrow> js_string \<Rightarrow> js_string option" where
  "marked_dates p tz text =
     (if text = [] then None else map_option (to_calendar_format tz) (parse_date (dp_format p) tz text))"

subsection \<open>Validation: the first failing check\<close>

definition validate_date :: "date_props \<Rightarrow> int \<Rightarrow> js_string \<Rightarrow> js_string" where
  "validate_date p tz s =
     (if dp_required p \<and> js_trim s = [] then ''Date is required''
      else if js_trim s = [] then []
      else case parse_date (dp_format p) tz s of
        None \<Rightarrow> ''Invalid date format. Use '' @ format_name (dp_format p)
      | Some t \<Rightarrow>
          if (case dp_min p of Some mn \<Rightarrow> t < mn | None \<Rightarrow> False)
          then ''Date must be after '' @ format_date (dp_format p) tz (dp_min p)
          else if (case dp_max p of Some mx \<Rightarrow> mx < t | None \<Rightarrow> False)
          then ''Date must be before '' @ format_date (dp_format p) tz (dp_max p)
          else [])"

subsection \<open>The component\<close>

record date_field =
  df_text :: js_string
  df_error :: js_string
  df_touched :: bool
  df_modal :: bool

datatype df_output = DateOnChange js_string

definition df_init :: "js_string \<Rightarrow> date_field" where
  "df_init v = \<lparr>df_text = v, df_error = [], df_touched = False, df_modal = False\<rparr>"

definition df_text_change ::
  "date_props \<Rightarrow> int \<Rightarrow> date_field \<Rightarrow> js_string \<Rightarrow> js_error + date_field \<times> df_output list" where
  "df_text_change p tz s text = Inl (ReferenceError ''validationError is not defined'')"

definition df_blur :: "date_props \<Rightarrow> int \<Rightarrow> date_field \<Rightarrow> date_field" where
  "df_blur p tz s = s\<lparr>df_touched := True, df_error := validate_date p tz (df_text s)\<rparr>"

definition df_select ::
  "date_props \<Rightarrow> int \<Rightarrow> date_field \<Rightarrow> js_string \<Rightarrow> date_field \<times> df_output list" where
  "df_select p tz s date_string =
     (let formatted = format_date (dp_format p) tz (js_date_parse_iso date_string)
      in (s\<lparr>df_text := formatted, df_error := [], df_touched := True, df_modal := False\<rparr>,
          [DateOnChange formatted]))"

definition df_clear :: "date_field \<Rightarrow> date_field \<times> df_output list" where
  "df_clear s = (s\<lparr>df_text := [], df_error := []\<rparr>, [DateOnChange []])"

definition df_open :: "date_props \<Rightarrow> date_field \<Rightarrow> date_field" where
  "df_open p s = (if dp_disabled p then s else s\<lparr>df_modal := True\<rparr>)"

definition df_close :: "date_field \<Rightarrow> date_field" where
  "df_close s = s\<lparr>df_modal := False\<rparr>"

definition df_has_error :: "date_field \<Rightarrow> bool" where
  "df_has_error s \<longleftrightarrow> df_touched s \<and> df_error s \<noteq> []"

datatype df_event = DText js_string | DBlur | DSelect js_string | DClear | DOpen | DClose

fun df_step ::
  "date_props \<Rightarrow> int \<Rightarrow> date_field \<Rightarrow> df_event \<Rightarrow> js_error + date_field \<times> df_output list" where
  "df_step p tz s (DText t) = df_text_change p tz s t"
| "df_step p tz s DBlur = Inr (df_blur p tz s, [])"
| "df_step p tz s (DSelect d) = Inr (df_select p tz s d)"
| "df_step p tz s DClear = Inr (df_clear s)"
| "df_step p tz s DOpen = Inr (df_open p s, [])"
| "df_step p tz s DClose = Inr (df_close s, [])"

text \<open>A sequence of events; an exception thrown by a handler ends the run.\<close>

fun df_run ::
  "date_props \<Rightarrow> int \<Rightarrow> date_field \<Rightarrow> df_event list \<Rightarrow> js_error + date_field \<times> df_output list" where
  "df_run p tz s [] = Inr (s, [])"
| "df_run p tz s (e # es) =
     (case df_step p tz s e of
        Inl err \<Rightarrow> Inl err
      | Inr (s', out) \<Rightarrow>
          (case df_run p tz s' es of
             Inl err \<Rightarrow> Inl err
           | Inr (s'', out') \<Rightarrow> Inr (s'', out @ out')))"

text \<open>What the picker renders: the label with the required mark, the border
  colour, the text input, the clear button (with text, unless disabled), the
  error, the format hint, and the calendar modal with its marked day and the
  \<^verbatim>\<open>minDate\<close> and \<^verbatim>\<open>maxDate\<close> keys.\<close>

record df_view =
  dv_label :: js_string
  dv_required_mark :: bool
  dv_border :: js_string
  dv_text :: js_string
  dv_editable :: bool
  dv_clear_button :: bool
  dv_error :: "js_string option"
  dv_format_hint :: js_string
  dv_modal :: bool
  dv_marked :: "js_string option"
  dv_min :: "js_string option"
  dv_max :: "js_string option"

definition df_view :: "js_string \<Rightarrow> date_props \<Rightarrow> int \<Rightarrow> date_field \<Rightarrow> df_view" where
  "df_view label p tz s =
     \<lparr>dv_label = label, dv_required_mark = dp_required p,
      dv_border = (if df_has_error s then ''#F44336'' else if dp_disabled p then ''#E0E0E0'' else ''#BDBDBD''),
      dv_text = df_text s, dv_editable = \<not> dp_disabled p, dv_clear_button = (df_text s \<noteq> [] \<and> \<not> dp_disabled p),
      dv_error = (if df_has_error s then Some (df_error s) else None),
      dv_format_hint = ''Format: '' @ format_name (dp_format p), dv_modal = df_modal s,
      dv_marked = marked_dates p tz (df_text s), dv_min = map_option (to_calendar_format tz) (dp_min p),
      dv_max = map_option (to_calendar_format tz) (dp_max p)\<rparr>"

text \<open>The bounds of the specification's example: 1 January to 31 December 2025,
  local midnight.\<close>

definition spec_bounds :: "int \<Rightarrow> date_props" where
  "spec_bounds tz =
     \<lparr>dp_format = DDMMYYYY, dp_min = Some (make_day 2025 0 1 * ms_per_day - tz),
      dp_max = Some (make_day 2025 11 31 * ms_per_day - tz), dp_required = False, dp_disabled = False\<rparr>"

text \<open>The props the onboarding screen passes: \<^verbatim>\<open>DD/MM/YYYY\<close>, required,
  \<^verbatim>\<open>minDate={new Date()}\<close> and a maximum a year later, both read from the
  clock at render.\<close>

definition screen_date_props :: "int \<Rightarrow> date_props" where
  "screen_date_props now =
     \<lparr>dp_format = DDMMYYYY, dp_min = Some now, dp_max = Some (now + 365 * 24 * 60 * 60 * 1000),
      dp_required = True, dp_disabled = False\<rparr>"

subsection \<open>Parse and format\<close>

lemma js_new_date_in_range:
  "\<bar>make_day y m d * ms_per_day - tz\<bar> \<le> 8640000000000000 \<Longrightarrow> \<not> (0 \<le> y \<and> y \<le> 99) \<Longrightarrow>
   js_new_date tz y m d = Some (make_day y m d * ms_per_day - tz)"
  by (auto simp: js_new_date_def time_clip_def)

lemmas date_eval = parse_date_def parse_date_parts_def js_parse_int_def is_js_space_def is_digit_def
  digits_value_def digit_value_def js_trim_def valid_civil_def days_in_month_def month_start_def
  month_table_def leap_year_def

lemmas string_eval = js_int_string_def js_nat_string.simps js_pad_start_def char_of_def bit_0

lemma parse_date_parts_valid:
  assumes "valid_civil y m d" and "100 \<le> y \<or> y < 0" and "js_new_date tz y m d = Some t"
  shows "parse_date_parts tz (Some d) (Some m) (Some y) = Some t"
proof -
  have "local_civil tz t = (y, m, d)" using js_new_date_valid [OF assms] by blast
  with assms(3) show ?thesis by (simp add: parse_date_parts_def)
qed

lemma format_fields:
  assumes "local_civil tz t = (y, m, d)"
  shows "date_fields tz (Some t) =
    (js_pad_start 2 CHR ''0'' (js_int_string d), js_pad_start 2 CHR ''0'' (js_int_string (m + 1)),
     js_int_string y)"
  using assms by (simp add: date_fields_def)

text \<open>A fixed example, 15 March 2025 at UTC.\<close>

lemma example_date:
  "valid_civil 2025 2 15" "js_new_date 0 2025 2 15 = Some (make_day 2025 2 15 * ms_per_day)"
proof -
  show v: "valid_civil 2025 2 15"
    by (simp add: valid_civil_def days_in_month_def month_start_def month_table_def leap_year_def)
  have "\<bar>make_day 2025 2 15 * ms_per_day - 0\<bar> \<le> 8640000000000000"
    by (simp add: make_day_def day_from_year_def month_start_def month_table_def ms_per_day_def)
  then show "js_new_date 0 2025 2 15 = Some (make_day 2025 2 15 * ms_per_day)"
    using js_new_date_in_range [of 2025 2 15 0] by simp
qed

lemma example_date_parts:
  "parse_date_parts tz (Some 15) (Some 2) (Some 2025) = parse_date DDMMYYYY tz ''15/03/2025''"
  "parse_date_parts 0 (Some 15) (Some 2) (Some 2025) = Some (make_day 2025 2 15 * ms_per_day)"
   apply (simp add: parse_date_def js_parse_int_def is_js_space_def is_digit_def digits_value_def
      digit_value_def js_trim_def)
  using parse_date_parts_valid [OF example_date(1) _ example_date(2)] by simp

text \<open>Formatting any time and parsing the text back gives local midnight
  of its local day, for years from 100 on (or negative, outside
  \<^verbatim>\<open>YYYY-MM-DD\<close>).\<close>

lemma parse_format_local:
  assumes lc: "local_civil tz t = (y, m, d)" and yr: "100 \<le> y \<or> (y < 0 \<and> f \<noteq> YYYYMMDD)"
    and t0: "js_new_date tz y m d = Some t0"
  shows "parse_date f tz (format_date f tz (Some t)) = Some t0"
proof -
  have yr': "100 \<le> y \<or> y < 0" using yr by auto
  have v: "valid_civil y m d" using lc civil_of_day_valid by (simp add: local_civil_def)
  have parts: "parse_date_parts tz (Some d) (Some m) (Some y) = Some t0"
    by (rule parse_date_parts_valid [OF v yr' t0])
  define D where "D = js_pad_start 2 CHR ''0'' (js_int_string d)"
  define M where "M = js_pad_start 2 CHR ''0'' (js_int_string (m + 1))"
  define Y where "Y = js_int_string y"
  have fields: "date_fields tz (Some t) = (D, M, Y)"
    using lc by (simp add: format_fields D_def M_def Y_def)
  have pos: "0 \<le> d" "0 \<le> m + 1" using v by (simp_all add: valid_civil_def)
  have pD: "js_parse_int D = Some d" and pM: "js_parse_int M = Some (m + 1)"
    using pos by (simp_all add: D_def M_def js_parse_int_pad_int)
  have pY: "js_parse_int Y = Some y" by (simp add: Y_def js_parse_int_int_string)
  have dD: "\<forall>c\<in>set D. is_digit c" and dM: "\<forall>c\<in>set M. is_digit c"
    using pos by (simp_all add: D_def M_def padded_digits)
  have cY: "\<forall>c\<in>set Y. is_digit c \<or> c = CHR ''-''" using js_int_string_chars by (simp add: Y_def)
  have neD: "D \<noteq> []" and neY: "Y \<noteq> []" by (simp_all add: D_def Y_def padded_not_Nil)
  have slash: "CHR ''/'' \<notin> set D" "CHR ''/'' \<notin> set M" "CHR ''/'' \<notin> set Y"
    using dD dM cY is_digit_not_sep by fastforce+
  have hdD: "\<not> is_js_space (hd D)" using dD neD is_digit_not_sep by simp
  show ?thesis
  proof (cases f)
    case DDMMYYYY
    have "js_trim (D @ CHR ''/'' # M @ CHR ''/'' # Y) \<noteq> []"
      using hdD neD by (intro js_trim_not_Nil [of "hd D"]) simp_all
    then show ?thesis
      using DDMMYYYY fields slash pD pM pY parts
      by (simp add: format_date_def parse_date_def js_split_append_sep js_split_no_sep)
  next
    case MMDDYYYY
    have neM: "M \<noteq> []" by (simp add: M_def padded_not_Nil)
    have "js_trim (M @ CHR ''/'' # D @ CHR ''/'' # Y) \<noteq> []"
      using dM neM is_digit_not_sep by (intro js_trim_not_Nil [of "hd M"]) simp_all
    then show ?thesis
      using MMDDYYYY fields slash pD pM pY parts
      by (simp add: format_date_def parse_date_def js_split_append_sep js_split_no_sep)
  next
    case YYYYMMDD
    then have "0 \<le> y" using yr by auto
    then have dY: "\<forall>c\<in>set Y. is_digit c" by (simp add: Y_def js_int_string_nonneg_digits)
    have dash: "CHR ''-'' \<notin> set D" "CHR ''-'' \<notin> set M" "CHR ''-'' \<notin> set Y"
      using dD dM dY is_digit_not_sep by fastforce+
    have "js_trim (Y @ CHR ''-'' # M @ CHR ''-'' # D) \<noteq> []"
      using dY neY is_digit_not_sep by (intro js_trim_not_Nil [of "hd Y"]) simp_all
    then show ?thesis
      using YYYYMMDD fields dash pD pM pY parts
      by (simp add: format_date_def parse_date_def js_split_append_sep js_split_no_sep)
  qed
qed

text \<open>C11: formatting a date and parsing the text back gives the same date, in
  every format and time zone, for a valid day whose year is at least 100 (or
  negative, outside \<^verbatim>\<open>YYYY-MM-DD\<close>, whose split on the minus sign breaks).\<close>

theorem parse_format_roundtrip:
  assumes v: "valid_civil y m d" and yr: "100 \<le> y \<or> (y < 0 \<and> f \<noteq> YYYYMMDD)"
    and t: "js_new_date tz y m d = Some t"
  shows "parse_date f tz (format_date f tz (Some t)) = Some t"
proof -
  have "100 \<le> y \<or> y < 0" using yr by auto
  then have "local_civil tz t = (y, m, d)" using js_new_date_valid [OF v _ t] by blast
  then show ?thesis using yr t by (rule parse_format_local)
qed

lemma parse_date_not_blank: "parse_date f tz s = Some t \<Longrightarrow> js_trim s \<noteq> []"
  by (auto simp: parse_date_def)

lemma parse_date_parts_sound:
  assumes "parse_date_parts tz a b c = Some t"
  shows "\<exists>y m d. a = Some d \<and> b = Some m \<and> c = Some y \<and> local_civil tz t = (y, m, d) \<and>
           valid_civil y m d \<and> t = make_day y m d * ms_per_day - tz"
proof -
  obtain d m y where abc: "a = Some d" "b = Some m" "c = Some y"
    and nd: "js_new_date tz y m d = Some t" and lc: "local_civil tz t = (y, m, d)"
    using assms by (auto simp: parse_date_parts_def split: option.splits if_splits)
  define yr where "yr = (if 0 \<le> y \<and> y \<le> 99 then 1900 + y else y)"
  have t: "t = make_day yr m d * ms_per_day - tz"
    using nd by (auto simp: js_new_date_def time_clip_def yr_def Let_def split: if_splits)
  have "civil_of_day (make_day yr m d) = (y, m, d)"
    using lc by (simp add: t local_civil_midnight)
  then have "valid_civil y m d \<and> make_day y m d = make_day yr m d"
    by (rule civil_of_day_valid)
  with abc lc t show ?thesis by auto
qed

lemma parse_date_cases:
  "parse_date f tz s = Some t \<Longrightarrow> \<exists>a b c. parse_date_parts tz a b c = Some t"
  by (auto simp: parse_date_def split: if_splits date_format.splits list.splits)

text \<open>A \<^verbatim>\<open>DD/MM/YYYY\<close> text that parses has parts that \<^verbatim>\<open>parseInt\<close> reads, and
  \<^verbatim>\<open>parseDate\<close> checked the day they name.\<close>

lemma parse_ddmm_parts:
  assumes "js_split CHR ''/'' s = [p0, p1, p2]" and "js_parse_int p0 = Some d"
    and "js_parse_int p1 = Some m" and "js_parse_int p2 = Some y" and "parse_date DDMMYYYY tz s = Some t"
  shows "parse_date_parts tz (Some d) (Some (m - 1)) (Some y) = Some t"
proof -
  have "js_trim s \<noteq> []" using assms(5) by (auto simp: parse_date_def split: if_splits)
  with assms show ?thesis by (simp add: parse_date_def)
qed

text \<open>C12: \<^verbatim>\<open>parseDate\<close> returns exactly the day the text names: when the
  parts of a \<^verbatim>\<open>DD/MM/YYYY\<close> text read as day \<open>d\<close>, month \<open>m\<close> and year \<open>y\<close>
  and the text parses, that day exists and the date is its local midnight,
  whose getters give back \<open>(y, m - 1, d)\<close>; a day that \<^verbatim>\<open>new Date\<close> rolled
  over into another is never returned.\<close>

theorem parse_date_sound:
  assumes "js_split CHR ''/'' s = [p0, p1, p2]" and "js_parse_int p0 = Some d"
    and "js_parse_int p1 = Some m" and "js_parse_int p2 = Some y" and "parse_date DDMMYYYY tz s = Some t"
  shows "valid_civil y (m - 1) d \<and> local_civil tz t = (y, m - 1, d) \<and> t = make_day y (m - 1) d * ms_per_day - tz"
  using parse_date_parts_sound [OF parse_ddmm_parts [OF assms]] by auto



text \<open>The specification's test of the first-failure order: with the bounds
  2025-01-01 and 2025-12-31, month 13 is a format error and 2024-01-01 a min-date
  error, not a format error.\<close>

theorem validate_date_spec_example:
  assumes tz: "\<bar>tz\<bar> \<le> ms_per_day"
  shows "validate_date (spec_bounds tz) tz ''15/13/2025'' = ''Invalid date format. Use DD/MM/YYYY'' \<and>
         validate_date (spec_bounds tz) tz ''01/01/2024'' = ''Date must be after 01/01/2025''"
proof -
  have p13: "parse_date DDMMYYYY tz ''15/13/2025'' = None"
  proof (cases "parse_date DDMMYYYY tz ''15/13/2025''")
    case (Some t)
    then have "parse_date_parts tz (Some 15) (Some 12) (Some 2025) = Some t"
      by (simp add: date_eval cong: option.case_cong)
    then have "valid_civil 2025 12 15" using parse_date_parts_sound by fastforce
    then show ?thesis by (simp add: valid_civil_def)
  qed simp
  have range: "\<bar>make_day 2024 0 1 * ms_per_day - tz\<bar> \<le> 8640000000000000"
    using tz by (simp add: make_day_def day_from_year_def month_start_def month_table_def ms_per_day_def)
  have nd: "js_new_date tz 2024 0 1 = Some (make_day 2024 0 1 * ms_per_day - tz)"
    using js_new_date_in_range [OF range] by simp
  have p24: "parse_date DDMMYYYY tz ''01/01/2024'' = Some (make_day 2024 0 1 * ms_per_day - tz)"
  proof -
    have "parse_date_parts tz (Some 1) (Some 0) (Some 2024) = Some (make_day 2024 0 1 * ms_per_day - tz)"
      by (rule parse_date_parts_valid) (simp_all add: nd valid_civil_def days_in_month_def
            month_start_def month_table_def)
    then show ?thesis by (simp add: date_eval cong: option.case_cong)
  qed
  have lc: "local_civil tz (make_day 2025 0 1 * ms_per_day - tz) = (2025, 0, 1)"
    using civil_of_make_day [of 2025 0 1]
    by (simp add: local_civil_midnight valid_civil_def days_in_month_def month_start_def month_table_def)
  have less: "make_day 2024 0 1 * ms_per_day - tz < make_day 2025 0 1 * ms_per_day - tz"
    by (simp add: make_day_def day_from_year_def month_start_def month_table_def ms_per_day_def)
  have fmt: "format_date DDMMYYYY tz (Some (make_day 2025 0 1 * ms_per_day - tz)) = ''01/01/2025''"
    using lc by (simp add: format_date_def date_fields_def string_eval)
  show ?thesis
    using p13 p24 less fmt
    by (simp add: validate_date_def spec_bounds_def format_name_def js_trim_def is_js_space_def)
qed

theorem validate_date_spec_example_witness:
  "\<bar>0::int\<bar> \<le> ms_per_day \<and>
   validate_date (spec_bounds 0) 0 ''15/13/2025'' = ''Invalid date format. Use DD/MM/YYYY'' \<and>
   validate_date (spec_bounds 0) 0 ''01/01/2024'' = ''Date must be after 01/01/2025''"
proof -
  have "\<bar>0::int\<bar> \<le> ms_per_day" by (simp add: ms_per_day_def)
  then show ?thesis using validate_date_spec_example [of 0] by simp
qed

text \<open>C15: \<^verbatim>\<open>validateDate\<close> reports no error exactly when the text is blank and not
  required, or it parses to a date within the configured bounds (both inclusive).\<close>

theorem validate_date_ok_iff:
  "validate_date p tz s = [] \<longleftrightarrow>
   (js_trim s = [] \<and> \<not> dp_required p) \<or>
   (\<exists>t. parse_date (dp_format p) tz s = Some t \<and>
        (case dp_min p of Some mn \<Rightarrow> mn \<le> t | None \<Rightarrow> True) \<and>
        (case dp_max p of Some mx \<Rightarrow> t \<le> mx | None \<Rightarrow> True))"
  by (auto simp: validate_date_def parse_date_def not_less split: option.splits if_splits)

text \<open>C16: \<^verbatim>\<open>parseInt\<close> stops at the first non-digit, so trailing text
  after the digits of any part is ignored: a \<^verbatim>\<open>DD/MM/YYYY\<close> text whose
  parts are digits followed by text that does not begin with a digit parses
  to the same date as the digits alone, as \<^verbatim>\<open>15abc/03/2025\<close> does to
  15 March 2025.\<close>

theorem parse_date_ignores_trailing_text:
  assumes digits: "\<forall>p\<in>{p0, p1, p2}. p \<noteq> [] \<and> (\<forall>d\<in>set p. is_digit d)"
    and junk: "\<forall>j\<in>{j0, j1, j2}. CHR ''/'' \<notin> set j \<and> (j = [] \<or> \<not> is_digit (hd j))"
  shows "parse_date DDMMYYYY tz (p0 @ j0 @ CHR ''/'' # p1 @ j1 @ CHR ''/'' # p2 @ j2) =
         parse_date DDMMYYYY tz (p0 @ CHR ''/'' # p1 @ CHR ''/'' # p2)"
proof -
  have nosl: "\<And>p. \<forall>d\<in>set p. is_digit d \<Longrightarrow> CHR ''/'' \<notin> set p" using digit_not_special by blast
  have sl: "CHR ''/'' \<notin> set (p @ j)" if "p \<in> {p0, p1, p2}" "j \<in> {j0, j1, j2}" for p j
    using digits junk nosl that by auto
  have split: "js_split CHR ''/'' (a @ CHR ''/'' # b @ CHR ''/'' # c) = [a, b, c]"
    if "CHR ''/'' \<notin> set a" "CHR ''/'' \<notin> set b" "CHR ''/'' \<notin> set c" for a b c
    using that by (simp add: js_split_append_sep js_split_no_sep)
  have trim: "js_trim (p0 @ s) \<noteq> []" for s
  proof -
    obtain c cs where "p0 = c # cs" using digits by (cases p0) auto
    then show ?thesis using digits digit_not_special [of c] js_trim_not_Nil [of c "p0 @ s"] by auto
  qed
  have pi: "js_parse_int (p @ j) = js_parse_int p" if "p \<in> {p0, p1, p2}" "j \<in> {j0, j1, j2}" for p j
    using digits junk that by (intro js_parse_int_trailing) auto
  have s1: "js_split CHR ''/'' (p0 @ j0 @ CHR ''/'' # p1 @ j1 @ CHR ''/'' # p2 @ j2) = [p0 @ j0, p1 @ j1, p2 @ j2]"
    using split [of "p0 @ j0" "p1 @ j1" "p2 @ j2"] sl [of p0 j0] sl [of p1 j1] sl [of p2 j2] by simp
  have s2: "js_split CHR ''/'' (p0 @ CHR ''/'' # p1 @ CHR ''/'' # p2) = [p0, p1, p2]"
    using split [of p0 p1 p2] digits nosl by simp
  show ?thesis
    using s1 s2 trim [of "j0 @ CHR ''/'' # p1 @ j1 @ CHR ''/'' # p2 @ j2"] trim [of "CHR ''/'' # p1 @ CHR ''/'' # p2"] pi
    by (simp add: parse_date_def)
qed
subsection \<open>Calendar selection and the event sequence\<close>

lemma to_calendar_format_civil:
  "local_civil tz t = (y, m, d) \<Longrightarrow>
   to_calendar_format tz t = js_int_string y @ CHR ''-'' # js_pad_start 2 CHR ''0'' (js_int_string (m + 1)) @
     CHR ''-'' # js_pad_start 2 CHR ''0'' (js_int_string d)"
  by (simp add: to_calendar_format_def)

lemma js_date_parse_iso_calendar:
  assumes v: "valid_civil y m d" and y: "1000 \<le> y" "y \<le> 9999"
  shows "js_date_parse_iso (to_calendar_format 0 (make_day y m d * ms_per_day)) =
    Some (make_day y m d * ms_per_day)"
proof -
  have m: "0 \<le> m" "m \<le> 11" and d: "1 \<le> d" "d \<le> 31"
    using v days_in_month_le [of m y] by (simp_all add: valid_civil_def)
  have lc: "local_civil 0 (make_day y m d * ms_per_day) = (y, m, d)"
    using local_civil_midnight [of 0 "make_day y m d"] civil_of_make_day [OF v] by simp
  define Y where "Y = js_int_string y"
  define M where "M = js_pad_start 2 CHR ''0'' (js_int_string (m + 1))"
  define D where "D = js_pad_start 2 CHR ''0'' (js_int_string d)"
  have str: "to_calendar_format 0 (make_day y m d * ms_per_day) = Y @ CHR ''-'' # M @ CHR ''-'' # D"
    using to_calendar_format_civil [OF lc] by (simp add: Y_def M_def D_def)
  have dY: "\<forall>c\<in>set Y. is_digit c" using y js_int_string_nonneg_digits [of y] by (simp add: Y_def)
  have dM: "\<forall>c\<in>set M. is_digit c" using m padded_digits [of "m + 1" 2] by (simp add: M_def)
  have dD: "\<forall>c\<in>set D. is_digit c" using d padded_digits [of d 2] by (simp add: D_def)
  have nY: "CHR ''-'' \<notin> set Y" and nM: "CHR ''-'' \<notin> set M" and nD: "CHR ''-'' \<notin> set D"
    using dY dM dD is_digit_not_sep by blast+
  have split: "js_split CHR ''-'' (Y @ CHR ''-'' # M @ CHR ''-'' # D) = [Y, M, D]"
    by (simp add: js_split_append_sep js_split_no_sep nY nM nD)
  have dAll: "\<forall>c\<in>set (Y @ M @ D). is_digit c" using dY dM dD by auto
  have lY: "length Y = 4"
    using js_nat_string_length [of 3 "nat y"] y by (simp add: Y_def js_int_string_def)
  have lM: "length M = 2" using m pad2_length [of "m + 1"] by (simp add: M_def)
  have lD: "length D = 2" using d pad2_length [of d] by (simp add: D_def)
  have vY: "int (digits_value Y) = y" using y by (simp add: Y_def js_int_string_def digits_value_nat_string)
  have vM: "int (digits_value M) = m + 1" using m digits_value_pad [of "m + 1" 2] by (simp add: M_def)
  have vD: "int (digits_value D) = d" using d digits_value_pad [of d 2] by (simp add: D_def)
  have tc: "time_clip (make_day y m d * ms_per_day) = Some (make_day y m d * ms_per_day)"
    using make_day_range [OF v y] by (simp add: time_clip_def ms_per_day_def)
  have "js_date_parse_iso (Y @ CHR ''-'' # M @ CHR ''-'' # D) =
    (let y' = int (digits_value Y); m' = int (digits_value M) - 1; d' = int (digits_value D)
     in if valid_civil y' m' d' then time_clip (make_day y' m' d' * ms_per_day) else None)"
    unfolding js_date_parse_iso_def split using lY lM lD dAll by simp
  also have "\<dots> = Some (make_day y m d * ms_per_day)"
    unfolding vY vM vD Let_def using v tc by simp
  finally show ?thesis using str by simp
qed

lemma format_date_local_civil:
  "local_civil tz t = local_civil tz' t' \<Longrightarrow> format_date f tz (Some t) = format_date f tz' (Some t')"
  by (simp add: format_date_def date_fields_def)

lemma df_run_Cons_ok:
  "df_step p tz s e = Inr (s', out) \<Longrightarrow> (df_run p tz s (e # es) = Inl err) = (df_run p tz s' es = Inl err)"
  by (simp split: sum.splits prod.splits)

text \<open>C17: selecting a day in the calendar shows that day in a time zone at or east of UTC, and the day before in a zone west of UTC: the calendar's \<^verbatim>\<open>YYYY-MM-DD\<close> key is parsed by \<^verbatim>\<open>new Date\<close> as UTC midnight and formatted through the local getters.\<close>

theorem df_select_shows_day:
  assumes v: "valid_civil y m d" and y: "1000 \<le> y" "y \<le> 9999"
    and tz: "- ms_per_day \<le> tz" "tz < ms_per_day"
  shows "df_text (fst (df_select p tz s (to_calendar_format 0 (make_day y m d * ms_per_day)))) =
    format_date (dp_format p) 0 (Some ((make_day y m d - (if tz < 0 then 1 else 0)) * ms_per_day))"
proof -
  have "local_civil tz (make_day y m d * ms_per_day) = civil_of_day (make_day y m d - (if tz < 0 then 1 else 0))"
    using local_day_shift [OF tz, of "make_day y m d"] by (simp add: local_civil_def)
  also have "\<dots> = local_civil 0 ((make_day y m d - (if tz < 0 then 1 else 0)) * ms_per_day)"
    using local_civil_midnight [of 0 "make_day y m d - (if tz < 0 then 1 else 0)"] by simp
  finally have lc: "local_civil tz (make_day y m d * ms_per_day) =
        local_civil 0 ((make_day y m d - (if tz < 0 then 1 else 0)) * ms_per_day)" .
  have "df_text (fst (df_select p tz s (to_calendar_format 0 (make_day y m d * ms_per_day)))) =
        format_date (dp_format p) tz (Some (make_day y m d * ms_per_day))"
    by (simp add: df_select_def Let_def js_date_parse_iso_calendar [OF v y])
  also have "\<dots> = format_date (dp_format p) 0 (Some ((make_day y m d - (if tz < 0 then 1 else 0)) * ms_per_day))"
    using lc by (rule format_date_local_civil)
  finally show ?thesis .
qed

text \<open>C19: \<^verbatim>\<open>new Date(y, m, d)\<close> maps the years 0 to 99 to 1900 to 1999, so the check of \<^verbatim>\<open>getFullYear\<close> fails: a text whose year is 0 to 99 never parses.\<close>

theorem parse_date_parts_two_digit_year:
  assumes "0 \<le> y" "y \<le> 99"
  shows "parse_date_parts tz (Some d) (Some m) (Some y) = None"
proof (rule ccontr)
  assume "parse_date_parts tz (Some d) (Some m) (Some y) \<noteq> None"
  then obtain t where nd: "js_new_date tz y m d = Some t" and lc: "local_civil tz t = (y, m, d)"
    by (auto simp: parse_date_parts_def split: option.splits if_splits)
  have t: "t = make_day (1900 + y) m d * ms_per_day - tz"
    using nd assms by (auto simp: js_new_date_def time_clip_def Let_def split: if_splits)
  have "civil_of_day (make_day (1900 + y) m d) = (y, m, d)"
    using lc by (simp add: t local_civil_midnight)
  then have v: "valid_civil y m d" and eq: "make_day y m d = make_day (1900 + y) m d"
    using civil_of_day_valid by blast+
  have "make_day y m d < day_from_year (y + 1)" using make_day_year_bracket [OF v] by blast
  also have "\<dots> \<le> day_from_year (1900 + y)" by (rule day_from_year_mono) simp
  also have "\<dots> \<le> make_day (1900 + y) m d"
    using v by (intro make_day_lower) (simp_all add: valid_civil_def)
  finally show False using eq by simp
qed

text \<open>C14: the calendar offers the day of \<^verbatim>\<open>minDate\<close> (its
  \<^verbatim>\<open>minDate\<close> key is that local day), but the date it selects is
  midnight, earlier than \<^verbatim>\<open>minDate\<close> itself: with \<^verbatim>\<open>minDate\<close> the
  current time, selecting today and leaving the field reports
  \<^verbatim>\<open>Date must be after\<close> today, at any time of day after local midnight
  and in any time zone west of UTC, whatever the format.\<close>

theorem select_min_day_rejected:
  assumes p: "dp_min p = Some now"
    and lc: "local_civil tz now = (y, m, d)" and y: "1000 \<le> y" "y \<le> 9999"
    and tz: "- ms_per_day \<le> tz" "tz < ms_per_day"
    and late: "0 < (now + tz) mod ms_per_day \<or> tz < 0"
  shows "df_error (df_blur p tz (fst (df_select p tz s (to_calendar_format tz now)))) =
           ''Date must be after '' @ format_date (dp_format p) tz (Some now)"
proof -
  define n where "n = local_day tz now"
  have cn: "civil_of_day n = (y, m, d)" using lc by (simp add: local_civil_def n_def)
  have v: "valid_civil y m d" and mdn: "make_day y m d = n" using civil_of_day_valid [OF cn] by auto
  have lc0: "local_civil 0 (n * ms_per_day) = (y, m, d)"
    using local_civil_midnight [of 0 n] cn by simp
  have key: "to_calendar_format tz now = to_calendar_format 0 (make_day y m d * ms_per_day)"
    using lc lc0 mdn by (simp add: to_calendar_format_def)
  have shown: "df_text (fst (df_select p tz s (to_calendar_format tz now))) =
      format_date (dp_format p) tz (Some (n * ms_per_day))"
    using js_date_parse_iso_calendar [OF v y] by (simp add: key df_select_def Let_def mdn)
  define n' where "n' = n - (if tz < 0 then 1 else 0)"
  obtain y' m' d' where c': "civil_of_day n' = (y', m', d')" by (cases "civil_of_day n'") auto
  have lc': "local_civil tz (n * ms_per_day) = (y', m', d')"
    using local_day_shift [OF tz, of n] c' by (simp add: local_civil_def n'_def)
  have v': "valid_civil y' m' d'" and mdn': "make_day y' m' d' = n'" using civil_of_day_valid [OF c'] by auto
  have "day_from_year 1000 \<le> n"
    using day_from_year_mono [OF y(1)] make_day_year_bracket [OF v] mdn by simp
  moreover have "day_from_year 999 + 365 \<le> day_from_year 1000"
    using day_from_year_Suc [of 999] days_in_year_ge [of 999] by simp
  moreover have "n - 1 \<le> n'" by (simp add: n'_def)
  ultimately have "day_from_year 999 < day_from_year (y' + 1)"
    using make_day_year_bracket [OF v'] mdn' by linarith
  then have y': "999 \<le> y'" by (simp add: day_from_year_mono_iff)
  have rng: "\<bar>n * ms_per_day\<bar> \<le> 8640000000000000 - ms_per_day" using make_day_range [OF v y] mdn by simp
  have "\<bar>n' * ms_per_day - tz\<bar> \<le> 8640000000000000"
    using rng tz by (simp add: n'_def algebra_simps abs_le_iff) linarith
  then have t0: "js_new_date tz y' m' d' = Some (n' * ms_per_day - tz)"
    using js_new_date_in_range [of y' m' d' tz] y' mdn' by simp
  have parse: "parse_date (dp_format p) tz (format_date (dp_format p) tz (Some (n * ms_per_day))) =
      Some (n' * ms_per_day - tz)"
    using parse_format_local [OF lc' _ t0] y' by simp
  have "n * ms_per_day - tz + (now + tz) mod ms_per_day = now" "0 \<le> (now + tz) mod ms_per_day"
    unfolding n_def by (rule local_midnight_le)+
  then have lt: "n' * ms_per_day - tz < now"
    using late by (auto simp: n'_def ms_per_day_def)
  show ?thesis
    using parse_date_not_blank [OF parse] parse lt p
    by (simp add: df_blur_def shown validate_date_def)
qed

subsection \<open>Witnesses\<close>

theorem select_min_day_rejected_witness:
  "df_error (df_blur (screen_date_props 1742013000000) 19800000
      (fst (df_select (screen_date_props 1742013000000) 19800000 (df_init [])
        (to_calendar_format 19800000 1742013000000)))) = ''Date must be after 15/03/2025''"
proof -
  have now: "(1742013000000::int) = make_day 2025 2 15 * ms_per_day - 19800000 + 36000000"
    by (simp add: make_day_def day_from_year_def month_start_def month_table_def ms_per_day_def leap_year_def)
  have lc: "local_civil 19800000 1742013000000 = (2025, 2, 15)"
    by (subst now) (rule local_civil_of_time(1) [OF example_date(1)], simp_all add: ms_per_day_def)
  have md: "(1742013000000 + 19800000) mod ms_per_day = 36000000"
    by (subst now) (rule local_civil_of_time(2) [OF example_date(1)], simp_all add: ms_per_day_def)
  have fmt: "format_date DDMMYYYY 19800000 (Some 1742013000000) = ''15/03/2025''"
    using format_fields [OF lc] by (simp add: format_date_def string_eval)
  show ?thesis
    using select_min_day_rejected [of "screen_date_props 1742013000000" 1742013000000 19800000 2025 2 15 "df_init []"]
      lc md fmt by (simp add: screen_date_props_def ms_per_day_def)
qed


theorem parse_format_roundtrip_witness:
  "parse_date DDMMYYYY 0 (format_date DDMMYYYY 0 (Some (make_day 2025 2 15 * ms_per_day))) =
   Some (make_day 2025 2 15 * ms_per_day)"
  using parse_format_roundtrip [OF example_date(1) _ example_date(2), of DDMMYYYY] by simp

theorem parse_date_sound_witness:
  "valid_civil 2025 (3 - 1) 15 \<and> local_civil 0 (make_day 2025 2 15 * ms_per_day) = (2025, 3 - 1, 15) \<and>
   make_day 2025 2 15 * ms_per_day = make_day 2025 (3 - 1) 15 * ms_per_day - 0"
proof -
  have "js_split CHR ''/'' ''15/03/2025'' = [''15'', ''03'', ''2025'']" by simp
  moreover have "js_parse_int ''15'' = Some 15" "js_parse_int ''03'' = Some 3" "js_parse_int ''2025'' = Some 2025"
    by (simp_all add: date_eval)
  moreover have "parse_date DDMMYYYY 0 ''15/03/2025'' = Some (make_day 2025 2 15 * ms_per_day)"
    using example_date_parts by simp
  ultimately show ?thesis by (rule parse_date_sound)
qed

theorem df_select_shows_day_witness:
  "df_text (fst (df_select (spec_bounds 0) (-18000000) (df_init []) ''2025-03-15'')) = ''14/03/2025''"
proof -
  have v: "valid_civil 2025 2 15" and v14: "valid_civil 2025 2 14"
    by (simp_all add: valid_civil_def days_in_month_def month_start_def month_table_def leap_year_def)
  have iso: "to_calendar_format 0 (make_day 2025 2 15 * ms_per_day) = ''2025-03-15''"
    using to_calendar_format_civil [of 0 "make_day 2025 2 15 * ms_per_day" 2025 2 15]
      local_civil_midnight [of 0 "make_day 2025 2 15"] civil_of_make_day [OF v]
    by (simp add: string_eval)
  have "make_day 2025 2 15 - 1 = make_day 2025 2 14" by (simp add: make_day_def)
  then have lc: "local_civil 0 ((make_day 2025 2 15 - 1) * ms_per_day) = (2025, 2, 14)"
    using local_civil_midnight [of 0 "make_day 2025 2 14"] civil_of_make_day [OF v14] by simp
  have "df_text (fst (df_select (spec_bounds 0) (-18000000) (df_init []) ''2025-03-15'')) =
        format_date DDMMYYYY 0 (Some ((make_day 2025 2 15 - 1) * ms_per_day))"
    using df_select_shows_day [OF v, of "-18000000" "spec_bounds 0" "df_init []"] iso
    by (simp add: ms_per_day_def spec_bounds_def)
  also have "\<dots> = ''14/03/2025''"
    using lc by (simp add: format_date_def date_fields_def string_eval)
  finally show ?thesis .
qed

theorem parse_date_parts_two_digit_year_witness:
  "parse_date DDMMYYYY 0 ''15/03/0025'' = None"
proof -
  have "parse_date DDMMYYYY 0 ''15/03/0025'' = parse_date_parts 0 (Some 15) (Some 2) (Some 25)"
    by (simp add: parse_date_def js_parse_int_def is_js_space_def is_digit_def digits_value_def
        digit_value_def js_trim_def)
  then show ?thesis using parse_date_parts_two_digit_year [of 25 0 15 2] by simp
qed

theorem parse_date_ignores_trailing_text_witness:
  "parse_date DDMMYYYY 0 ''15abc/03/2025'' = parse_date DDMMYYYY 0 ''15/03/2025'' \<and>
   parse_date DDMMYYYY 0 ''15abc/03/2025'' = Some (make_day 2025 2 15 * ms_per_day)"
proof -
  have "parse_date DDMMYYYY 0 ''15abc/03/2025'' = parse_date DDMMYYYY 0 ''15/03/2025''"
    using parse_date_ignores_trailing_text [of "''15''" "''03''" "''2025''" "''abc''" "[]" "[]" 0]
    by (simp add: is_digit_def)
  moreover have "parse_date DDMMYYYY 0 ''15abc/03/2025'' = parse_date_parts 0 (Some 15) (Some 2) (Some 2025)"
    by (simp add: parse_date_def js_parse_int_def is_js_space_def is_digit_def digits_value_def
        digit_value_def js_trim_def)
  ultimately show ?thesis using example_date_parts by simp
qed

end
