(* ===== verification/Counter.thy ===== *)
theory Counter
  imports Prelude Complex_Main
begin

text \<open>The counter timer of \<^verbatim>\<open>src/unnamed/part_002\<close> (\<^verbatim>\<open>CounterTimer\<close>). Two
  threads act on it: the JavaScript thread runs the button handlers and the
  React state updates; the UI thread advances the \<^verbatim>\<open>withTiming\<close> animation of
  the shared value \<^verbatim>\<open>progress\<close> frame by frame and, when it finishes, posts
  \<^verbatim>\<open>runOnJS(setState)('completed')\<close> and \<^verbatim>\<open>runOnJS(onComplete)()\<close> to the
  JavaScript thread.  The model keeps the posted calls in an explicit queue
  that the JavaScript thread drains one call at a time, so that every
  interleaving of frames, deliveries and button presses is a sequence of
  events.  Numbers are rationals; the easing curve selected by the prop
  \<^verbatim>\<open>easing\<close> is the parameter \<open>ease\<close> (\<^verbatim>\<open>Easing.linear\<close> is \<open>id\<close>), and the
  \<^verbatim>\<open>format\<close> prop the parameter \<open>fmt\<close>.\<close>

subsection \<open>State\<close>

datatype timer_state = Idle | Running | Paused | Completed

record counter_props =
  target_number :: rat
  duration_sec :: rat
  has_on_complete :: bool

text \<open>A running \<^verbatim>\<open>withTiming(1, {duration})\<close>: the value it started from,
  its duration in milliseconds, and the time elapsed.\<close>

record anim =
  a_from :: rat
  a_duration :: rat
  a_elapsed :: rat

datatype js_call = SetTimerState timer_state | CallOnComplete

record counter =
  c_state :: timer_state
  c_progress :: rat
  c_anim :: "anim option"
  c_queue :: "js_call list"
  c_display :: js_string

datatype ct_output = OnComplete

definition ct_init :: counter where
  "ct_init = \<lparr>c_state = Idle, c_progress = 0, c_anim = None, c_queue = [], c_display = ''0''\<rparr>"

text \<open>\<^verbatim>\<open>Math.max(0, targetNumber || 0)\<close> and
  \<^verbatim>\<open>Math.max(0.1, Math.min(3600, durationSec || 1))\<close>.\<close>

definition valid_target :: "counter_props \<Rightarrow> rat" where
  "valid_target p = max 0 (target_number p)"

definition valid_duration :: "counter_props \<Rightarrow> rat" where
  "valid_duration p = max (1 / 10) (min 3600 (if duration_sec p = 0 then 1 else duration_sec p))"

text \<open>The default \<^verbatim>\<open>format\<close>: \<^verbatim>\<open>Math.round(val).toString()\<close>.\<close>

definition default_format :: "rat \<Rightarrow> js_string" where
  "default_format v = js_int_string (round v)"

subsection \<open>The shared value and its animation\<close>

text \<open>\<^verbatim>\<open>cancelAnimation(progress)\<close> stops the animation where it is; its
  callback runs with \<^verbatim>\<open>finished = false\<close> and posts nothing.  An assignment
  \<^verbatim>\<open>progress.value = v\<close> cancels the running animation the same way.
  \<^verbatim>\<open>progress.value = withTiming(1, {duration}, cb)\<close> starts from the current
  value.\<close>

definition cancel_animation :: "counter \<Rightarrow> counter" where
  "cancel_animation s = s\<lparr>c_anim := None\<rparr>"

definition set_progress :: "rat \<Rightarrow> counter \<Rightarrow> counter" where
  "set_progress v s = s\<lparr>c_anim := None, c_progress := v\<rparr>"

definition with_timing :: "rat \<Rightarrow> counter \<Rightarrow> counter" where
  "with_timing dur s = s\<lparr>c_anim := Some \<lparr>a_from = c_progress s, a_duration = dur, a_elapsed = 0\<rparr>\<rparr>"

text \<open>One frame of the UI thread, \<open>dt\<close> milliseconds after the previous one.
  When the animation reaches its end the value is 1 and the callback, with
  \<^verbatim>\<open>finished = true\<close>, posts its calls to the JavaScript thread.\<close>

definition completion_calls :: "counter_props \<Rightarrow> js_call list" where
  "completion_calls p = SetTimerState Completed # (if has_on_complete p then [CallOnComplete] else [])"

definition frame :: "(rat \<Rightarrow> rat) \<Rightarrow> counter_props \<Rightarrow> rat \<Rightarrow> counter \<Rightarrow> counter" where
  "frame ease p dt s =
     (case c_anim s of
        None \<Rightarrow> s
      | Some a \<Rightarrow>
          (let e = a_elapsed a + dt
           in if a_duration a \<le> e
              then s\<lparr>c_progress := 1, c_anim := None, c_queue := c_queue s @ completion_calls p\<rparr>
              else s\<lparr>c_progress := a_from a + (1 - a_from a) * ease (e / a_duration a),
                     c_anim := Some (a\<lparr>a_elapsed := e\<rparr>)\<rparr>))"

text \<open>The JavaScript thread runs the first posted call.\<close>

definition deliver :: "counter \<Rightarrow> counter \<times> ct_output list" where
  "deliver s =
     (case c_queue s of
        [] \<Rightarrow> (s, [])
      | SetTimerState st # q \<Rightarrow> (s\<lparr>c_state := st, c_queue := q\<rparr>, [])
      | CallOnComplete # q \<Rightarrow> (s\<lparr>c_queue := q\<rparr>, [OnComplete]))"

text \<open>The \<^verbatim>\<open>setInterval\<close> of the effect samples the shared value every 16 ms.\<close>

definition tick :: "(rat \<Rightarrow> js_string) \<Rightarrow> counter_props \<Rightarrow> counter \<Rightarrow> counter" where
  "tick fmt p s = s\<lparr>c_display := fmt (c_progress s * valid_target p)\<rparr>"

subsection \<open>The handlers\<close>

definition handle_start :: "counter_props \<Rightarrow> counter \<Rightarrow> counter" where
  "handle_start p s =
     (if c_state s = Idle \<or> c_state s = Completed
      then with_timing (valid_duration p * 1000) (set_progress 0 (s\<lparr>c_state := Running\<rparr>))
      else if c_state s = Paused
      then with_timing (valid_duration p * 1000 * (1 - c_progress s)) (s\<lparr>c_state := Running\<rparr>)
      else s)"

definition handle_stop :: "counter \<Rightarrow> counter" where
  "handle_stop s = (if c_state s = Running then cancel_animation (s\<lparr>c_state := Paused\<rparr>) else s)"

definition handle_reset :: "counter \<Rightarrow> counter" where
  "handle_reset s = (set_progress 0 (cancel_animation (s\<lparr>c_state := Idle\<rparr>)))\<lparr>c_display := ''0''\<rparr>"

definition handle_restart :: "counter_props \<Rightarrow> counter \<Rightarrow> counter" where
  "handle_restart p s =
     with_timing (valid_duration p * 1000) (set_progress 0 ((cancel_animation s)\<lparr>c_state := Running\<rparr>))"

text \<open>The events: the four buttons (Start is disabled while running, Stop
  unless running), a frame of the UI thread, a delivery on the JavaScript
  thread, and a sample of the display interval.\<close>

datatype ct_event = Start | Stop | Reset | Restart | Frame rat | Deliver | Tick

fun ct_step ::
  "(rat \<Rightarrow> rat) \<Rightarrow> (rat \<Rightarrow> js_string) \<Rightarrow> counter_props \<Rightarrow> counter \<Rightarrow> ct_event \<Rightarrow> counter \<times> ct_output list" where
  "ct_step ease fmt p s Start = (if c_state s = Running then (s, []) else (handle_start p s, []))"
| "ct_step ease fmt p s Stop = (if c_state s \<noteq> Running then (s, []) else (handle_stop s, []))"
| "ct_step ease fmt p s Reset = (handle_reset s, [])"
| "ct_step ease fmt p s Restart = (handle_restart p s, [])"
| "ct_step ease fmt p s (Frame dt) = (if dt < 0 then (s, []) else (frame ease p dt s, []))"
| "ct_step ease fmt p s Deliver = deliver s"
| "ct_step ease fmt p s Tick = (tick fmt p s, [])"

fun ct_run ::
  "(rat \<Rightarrow> rat) \<Rightarrow> (rat \<Rightarrow> js_string) \<Rightarrow> counter_props \<Rightarrow> counter \<Rightarrow> ct_event list \<Rightarrow> counter \<times> ct_output list" where
  "ct_run ease fmt p s [] = (s, [])"
| "ct_run ease fmt p s (e # es) =
     (let (s', out) = ct_step ease fmt p s e; (s'', out') = ct_run ease fmt p s' es in (s'', out @ out'))"

text \<open>The states reachable from the initial one.\<close>

inductive ct_reach :: "(rat \<Rightarrow> rat) \<Rightarrow> (rat \<Rightarrow> js_string) \<Rightarrow> counter_props \<Rightarrow> counter \<Rightarrow> bool"
  for ease fmt p where
  init: "ct_reach ease fmt p ct_init"
| step: "ct_reach ease fmt p s \<Longrightarrow> ct_reach ease fmt p (fst (ct_step ease fmt p s e))"

subsection \<open>What the timer renders\<close>

text \<open>The colour and upper-cased name of the state, the display and the
  formatted target, the width of the progress bar in percent, the Start (or
  Resume) and Stop buttons, and the information line; \<open>num\<close> prints a
  number as JavaScript does.\<close>

definition state_color :: "timer_state \<Rightarrow> js_string" where
  "state_color st = (case st of Running \<Rightarrow> ''#4CAF50'' | Paused \<Rightarrow> ''#FF9800'' | Completed \<Rightarrow> ''#2196F3'' | Idle \<Rightarrow> ''#9E9E9E'')"

definition state_name :: "timer_state \<Rightarrow> js_string" where
  "state_name st = (case st of Idle \<Rightarrow> ''idle'' | Running \<Rightarrow> ''running'' | Paused \<Rightarrow> ''paused'' | Completed \<Rightarrow> ''completed'')"

record ct_view =
  cv_color :: js_string
  cv_state :: js_string
  cv_display :: js_string
  cv_target :: js_string
  cv_bar_percent :: rat
  cv_start_label :: js_string
  cv_start_enabled :: bool
  cv_stop_enabled :: bool
  cv_info :: js_string

definition ct_view ::
  "(rat \<Rightarrow> js_string) \<Rightarrow> (rat \<Rightarrow> js_string) \<Rightarrow> js_string \<Rightarrow> counter_props \<Rightarrow> counter \<Rightarrow> ct_view" where
  "ct_view num fmt easing p s =
     \<lparr>cv_color = state_color (c_state s), cv_state = js_upper (state_name (c_state s)), cv_display = c_display s,
      cv_target = ''of '' @ fmt (valid_target p), cv_bar_percent = c_progress s * 100,
      cv_start_label = (if c_state s = Paused then ''Resume'' else ''Start''),
      cv_start_enabled = (c_state s \<noteq> Running), cv_stop_enabled = (c_state s = Running),
      cv_info = ''Target: '' @ num (valid_target p) @ '' | Duration: '' @ num (valid_duration p) @ ''s | Easing: '' @ easing\<rparr>"

subsection \<open>Invariants and examples\<close>

text \<open>The calls the UI thread posts are completions: \<^verbatim>\<open>setState('completed')\<close> and \<^verbatim>\<open>onComplete()\<close>.\<close>

definition queue_ok :: "js_call list \<Rightarrow> bool" where
  "queue_ok q \<longleftrightarrow> list_all (\<lambda>c. c = SetTimerState Completed \<or> c = CallOnComplete) q"

text \<open>The specification's invariant of the idle state.\<close>

definition idle_inv :: "counter \<Rightarrow> bool" where
  "idle_inv s \<longleftrightarrow> (c_state s = Idle \<longrightarrow> c_progress s = 0 \<and> c_anim s = None) \<and> queue_ok (c_queue s)"

text \<open>An easing curve maps the unit interval into itself.\<close>

definition unit_interval_map :: "(rat \<Rightarrow> rat) \<Rightarrow> bool" where
  "unit_interval_map f \<longleftrightarrow> (\<forall>x. 0 \<le> x \<and> x \<le> 1 \<longrightarrow> 0 \<le> f x \<and> f x \<le> 1)"

definition bounds_inv :: "counter \<Rightarrow> bool" where
  "bounds_inv s \<longleftrightarrow> 0 \<le> c_progress s \<and> c_progress s \<le> 1 \<and>
     (case c_anim s of None \<Rightarrow> True | Some a \<Rightarrow> 0 \<le> a_from a \<and> a_from a \<le> 1 \<and> 0 \<le> a_elapsed a)"

text \<open>With linear easing a running animation of a timer of \<open>d\<close> milliseconds has the remaining duration \<open>d * (1 - from)\<close>, and the value has advanced by the elapsed time over \<open>d\<close>.\<close>

definition rate_inv :: "rat \<Rightarrow> counter \<Rightarrow> bool" where
  "rate_inv d s \<longleftrightarrow>
     (case c_anim s of
        None \<Rightarrow> True
      | Some a \<Rightarrow> a_duration a = d * (1 - a_from a) \<and> c_progress s = a_from a + a_elapsed a / d)"

text \<open>A running animation lasts at most an hour, the cap of \<^verbatim>\<open>validDuration\<close>.\<close>

definition dur_inv :: "counter \<Rightarrow> bool" where
  "dur_inv s \<longleftrightarrow> (case c_anim s of None \<Rightarrow> True | Some a \<Rightarrow> a_duration a \<le> 3600000)"

text \<open>The specification's example: target 100, ten seconds, and the state after Start.\<close>

definition spec_counter_props :: counter_props where
  "spec_counter_props = \<lparr>target_number = 100, duration_sec = 10, has_on_complete = False\<rparr>"

definition started :: counter where
  "started = fst (ct_step id default_format spec_counter_props ct_init Start)"

text \<open>The frame loop of the UI thread: frames of \<open>dt\<close> milliseconds
  while an animation runs, with the number of frames it took, and the number
  of frames an animation has left, which bounds the loop.\<close>

definition frames_left :: "rat \<Rightarrow> counter \<Rightarrow> nat" where
  "frames_left dt s = (case c_anim s of None \<Rightarrow> 0 | Some a \<Rightarrow> nat \<lceil>(a_duration a - a_elapsed a) / dt\<rceil> + 1)"

lemma ceiling_step: "0 < dt \<Longrightarrow> \<lceil>(r - dt) / dt\<rceil> = \<lceil>r / dt\<rceil> - (1::int)" for r dt :: rat
proof -
  assume "0 < dt"
  then have "(r - dt) / dt = r / dt - 1" by (simp add: diff_divide_distrib)
  then show ?thesis by simp
qed

lemma suc_max_nat: "1 < k \<Longrightarrow> Suc (max 1 (nat (k - 1))) = max 1 (nat k)" for k :: int
  by (auto simp: max_def)

lemma frames_left_frame:
  assumes "0 < dt" and "c_anim s = Some a"
  shows "frames_left dt (frame ease p dt s) < frames_left dt s"
proof (cases "a_duration a \<le> a_elapsed a + dt")
  case True
  then show ?thesis using assms by (simp add: frames_left_def frame_def Let_def)
next
  case False
  then have "1 < (a_duration a - a_elapsed a) / dt" using assms(1) by (simp add: less_divide_eq)
  then have "1 < \<lceil>(a_duration a - a_elapsed a) / dt\<rceil>" by linarith
  moreover have "\<lceil>(a_duration a - (a_elapsed a + dt)) / dt\<rceil> = \<lceil>(a_duration a - a_elapsed a) / dt\<rceil> - 1"
    using ceiling_step [OF assms(1), of "a_duration a - a_elapsed a"] by (simp add: algebra_simps)
  ultimately show ?thesis using False assms by (simp add: frames_left_def frame_def Let_def)
qed

function frames_until_done :: "(rat \<Rightarrow> rat) \<Rightarrow> counter_props \<Rightarrow> rat \<Rightarrow> counter \<Rightarrow> counter \<times> nat" where
  "frames_until_done ease p dt s =
     (if dt \<le> 0 \<or> c_anim s = None then (s, 0)
      else let (s', n) = frames_until_done ease p dt (frame ease p dt s) in (s', Suc n))"
  by pat_completeness auto
termination
  by (relation "measure (\<lambda>(ease, p, dt, s). frames_left dt s)") (auto intro: frames_left_frame)

subsection \<open>Lemmas\<close>

lemmas ct_handlers = handle_start_def handle_stop_def handle_reset_def handle_restart_def
  cancel_animation_def set_progress_def with_timing_def tick_def

lemma deliver_cases:
  "queue_ok (c_queue s) \<Longrightarrow>
   fst (deliver s) = s \<or> fst (deliver s) = s\<lparr>c_state := Completed, c_queue := tl (c_queue s)\<rparr> \<or>
   fst (deliver s) = s\<lparr>c_queue := tl (c_queue s)\<rparr>"
  by (auto simp: deliver_def queue_ok_def split: list.splits js_call.splits)

lemma queue_ok_tl: "queue_ok q \<Longrightarrow> queue_ok (tl q)"
  by (cases q) (simp_all add: queue_ok_def)

lemma idle_inv_step: "idle_inv s \<Longrightarrow> idle_inv (fst (ct_step ease fmt p s e))"
proof (cases e)
  case Deliver
  assume i: "idle_inv s"
  then have q: "queue_ok (c_queue s)" by (simp add: idle_inv_def)
  show ?thesis using deliver_cases [OF q] i queue_ok_tl [OF q] Deliver by (auto simp: idle_inv_def)
next
  case (Frame dt)
  assume "idle_inv s"
  then show ?thesis using Frame
    by (auto simp: idle_inv_def frame_def Let_def queue_ok_def completion_calls_def split: option.splits)
qed (auto simp: idle_inv_def ct_handlers)

lemma interp_bounds:
  fixes f e d :: rat
  assumes "0 \<le> f" "f \<le> 1" "0 \<le> v" "v \<le> 1"
  shows "0 \<le> f + (1 - f) * v \<and> f + (1 - f) * v \<le> 1"
proof -
  have "0 \<le> (1 - f) * v" using assms by simp
  moreover have "(1 - f) * v \<le> (1 - f) * 1" using assms by (intro mult_left_mono) simp_all
  ultimately show ?thesis using assms by simp
qed

lemma frame_bounds:
  assumes "unit_interval_map ease" "bounds_inv s" "0 \<le> dt"
  shows "bounds_inv (frame ease p dt s)"
proof (cases "c_anim s")
  case (Some a)
  let ?e = "a_elapsed a + dt"
  show ?thesis
  proof (cases "a_duration a \<le> ?e")
    case False
    have e0: "0 \<le> ?e" using assms(2,3) Some by (simp add: bounds_inv_def)
    then have "0 \<le> ?e / a_duration a" "?e / a_duration a \<le> 1" using False by simp_all
    then have "0 \<le> ease (?e / a_duration a) \<and> ease (?e / a_duration a) \<le> 1"
      using assms(1) by (simp add: unit_interval_map_def)
    then show ?thesis using interp_bounds [of "a_from a" "ease (?e / a_duration a)"] assms(2) Some False e0
      by (simp add: bounds_inv_def frame_def Let_def)
  qed (use assms Some in \<open>simp add: bounds_inv_def frame_def Let_def\<close>)
qed (use assms in \<open>simp add: frame_def\<close>)

lemma bounds_inv_step:
  "unit_interval_map ease \<Longrightarrow> bounds_inv s \<Longrightarrow> bounds_inv (fst (ct_step ease fmt p s e))"
proof (cases e)
  case Deliver
  assume "bounds_inv s"
  then show ?thesis using Deliver
    by (auto simp: bounds_inv_def deliver_def split: list.splits js_call.splits)
next
  case (Frame dt)
  assume "unit_interval_map ease" "bounds_inv s"
  then show ?thesis using Frame frame_bounds [of ease s dt p] by simp
qed (auto simp: bounds_inv_def ct_handlers split: option.splits)

lemma ct_reach_bounds_inv:
  assumes "unit_interval_map ease" and "ct_reach ease fmt p s"
  shows "bounds_inv s"
  using assms(2)
proof induction
  case init
  then show ?case by (simp add: bounds_inv_def ct_init_def)
next
  case (step s e)
  from step.IH show ?case by (rule bounds_inv_step [OF assms(1)])
qed

text \<open>The progress bar stays between 0 and 100 percent, and a disabled button raises no change.\<close>

lemma ct_view_bar:
  assumes "unit_interval_map ease" and "ct_reach ease fmt p s"
  shows "0 \<le> cv_bar_percent (ct_view num fmt' easing p s) \<and> cv_bar_percent (ct_view num fmt' easing p s) \<le> 100"
  using ct_reach_bounds_inv [OF assms] by (simp add: ct_view_def bounds_inv_def)

lemma ct_view_start_gate:
  "\<not> cv_start_enabled (ct_view num fmt' easing p s) \<Longrightarrow> ct_step ease fmt p s Start = (s, [])"
  "\<not> cv_stop_enabled (ct_view num fmt' easing p s) \<Longrightarrow> ct_step ease fmt p s Stop = (s, [])"
  by (simp_all add: ct_view_def)

lemma valid_duration_pos: "0 < valid_duration p"
  by (simp add: valid_duration_def)

lemma frame_linear:
  assumes "rate_inv d s" "bounds_inv s" "c_anim s = Some a" "0 \<le> dt" "0 < d"
  shows "c_progress (frame id p dt s) = min 1 (c_progress s + dt / d) \<and> rate_inv d (frame id p dt s)"
proof (cases "a_duration a \<le> a_elapsed a + dt")
  case True
  have "d * (1 - a_from a) \<le> a_elapsed a + dt" using True assms(1,3) by (simp add: rate_inv_def)
  then have "1 - a_from a \<le> (a_elapsed a + dt) / d" using assms(5) by (simp add: pos_le_divide_eq mult.commute)
  then have "1 \<le> c_progress s + dt / d" using assms(1,3) by (simp add: rate_inv_def add_divide_distrib)
  then show ?thesis using True assms(3) by (simp add: frame_def rate_inv_def)
next
  case False
  have e0: "0 \<le> a_elapsed a" using assms(2,3) by (simp add: bounds_inv_def)
  have dur: "a_duration a = d * (1 - a_from a)" and pr: "c_progress s = a_from a + a_elapsed a / d"
    using assms(1,3) by (simp_all add: rate_inv_def)
  have "0 < d * (1 - a_from a)" using False e0 assms(4) dur by linarith
  then have pos: "0 < 1 - a_from a" using assms(5) by (rule zero_less_mult_pos)
  have new: "a_from a + (1 - a_from a) * ((a_elapsed a + dt) / a_duration a) = a_from a + (a_elapsed a + dt) / d"
    using pos assms(5) by (simp add: dur field_simps)
  have "c_progress s + dt / d < 1"
  proof -
    have "(a_elapsed a + dt) / d < 1 - a_from a"
      using False dur assms(5) by (simp add: divide_less_eq mult.commute)
    then show ?thesis using pr by (simp add: add_divide_distrib)
  qed
  then show ?thesis using False assms(3) new pr
    by (simp add: frame_def Let_def rate_inv_def add_divide_distrib dur)
qed

lemma rate_inv_step:
  assumes "rate_inv (valid_duration p * 1000) s" "bounds_inv s"
  shows "rate_inv (valid_duration p * 1000) (fst (ct_step id fmt p s e))"
proof (cases e)
  case (Frame dt)
  show ?thesis
  proof (cases "c_anim s")
    case (Some a)
    then show ?thesis using Frame assms frame_linear [OF assms Some, of dt p] valid_duration_pos [of p] by simp
  qed (use Frame in \<open>simp add: frame_def rate_inv_def\<close>)
next
  case Deliver
  then show ?thesis using assms
    by (auto simp: rate_inv_def deliver_def split: list.splits js_call.splits option.splits)
next
  case Start
  then show ?thesis using assms by (cases "c_state s") (auto simp: rate_inv_def ct_handlers split: option.splits)
qed (use assms in \<open>auto simp: rate_inv_def ct_handlers split: option.splits\<close>)

lemma unit_interval_map_id: "unit_interval_map id"
  by (simp add: unit_interval_map_def)

lemma ct_reach_rate_inv: "ct_reach id fmt p s \<Longrightarrow> rate_inv (valid_duration p * 1000) s"
proof (induction rule: ct_reach.induct)
  case init
  then show ?case by (simp add: rate_inv_def ct_init_def)
next
  case (step s e)
  then show ?case using rate_inv_step ct_reach_bounds_inv [OF unit_interval_map_id] by blast
qed

lemmas ct_eval = ct_init_def frame_def deliver_def Let_def completion_calls_def valid_duration_def
  valid_target_def spec_counter_props_def ct_handlers

lemma reach_started: "ct_reach id default_format spec_counter_props started"
  unfolding started_def by (rule ct_reach.step [OF ct_reach.init])

lemma started_eval:
  "started = \<lparr>c_state = Running, c_progress = 0, c_anim = Some \<lparr>a_from = 0, a_duration = 10000, a_elapsed = 0\<rparr>,
     c_queue = [], c_display = ''0''\<rparr>"
  by (simp add: started_def ct_eval)

text \<open>The frame loop of a running animation stops after the remaining time
  over \<open>dt\<close> frames, rounded up (at least one), with the value at 1, no
  animation left and the completion calls posted.\<close>

lemma frames_until_done_count:
  assumes "0 < dt" and "c_anim s = Some a"
  shows "frames_until_done ease p dt s =
           (s\<lparr>c_progress := 1, c_anim := None, c_queue := c_queue s @ completion_calls p\<rparr>,
            max 1 (nat \<lceil>(a_duration a - a_elapsed a) / dt\<rceil>))"
  using assms
proof (induction ease p dt s arbitrary: a rule: frames_until_done.induct)
  case (1 ease p dt s)
  show ?case
  proof (cases "a_duration a \<le> a_elapsed a + dt")
    case True
    then have "(a_duration a - a_elapsed a) / dt \<le> 1" using "1.prems"(1) by (simp add: divide_le_eq)
    then have "nat \<lceil>(a_duration a - a_elapsed a) / dt\<rceil> \<le> 1" by linarith
    then show ?thesis using True "1.prems"
      by (simp add: frame_def Let_def max_def)
  next
    case False
    let ?a' = "a\<lparr>a_elapsed := a_elapsed a + dt\<rparr>"
    have f: "frame ease p dt s = s\<lparr>c_progress := a_from a + (1 - a_from a) * ease ((a_elapsed a + dt) / a_duration a),
                                   c_anim := Some ?a'\<rparr>"
      using False "1.prems"(2) by (simp add: frame_def Let_def)
    have ih: "frames_until_done ease p dt (frame ease p dt s) =
        ((frame ease p dt s)\<lparr>c_progress := 1, c_anim := None, c_queue := c_queue s @ completion_calls p\<rparr>,
         max 1 (nat \<lceil>(a_duration a - (a_elapsed a + dt)) / dt\<rceil>))"
      using "1.IH" [of ?a'] "1.prems" f by simp
    have "1 < (a_duration a - a_elapsed a) / dt" using False "1.prems"(1) by (simp add: less_divide_eq)
    then have c: "1 < \<lceil>(a_duration a - a_elapsed a) / dt\<rceil>" by linarith
    have "\<lceil>(a_duration a - (a_elapsed a + dt)) / dt\<rceil> = \<lceil>(a_duration a - a_elapsed a) / dt\<rceil> - 1"
      using ceiling_step [OF "1.prems"(1), of "a_duration a - a_elapsed a"] by (simp add: algebra_simps)
    then have "Suc (max 1 (nat \<lceil>(a_duration a - (a_elapsed a + dt)) / dt\<rceil>)) = max 1 (nat \<lceil>(a_duration a - a_elapsed a) / dt\<rceil>)"
      using suc_max_nat [OF c] by simp
    then show ?thesis using ih "1.prems" f
      by (subst frames_until_done.simps) simp
  qed
qed

lemma ct_reach_idle_inv: "ct_reach ease fmt p s \<Longrightarrow> idle_inv s"
proof (induction rule: ct_reach.induct)
  case init
  then show ?case by (simp add: idle_inv_def ct_init_def queue_ok_def)
next
  case (step s e)
  from step.IH show ?case by (rule idle_inv_step)
qed

lemma valid_duration_le: "valid_duration p \<le> 3600"
  by (simp add: valid_duration_def)

lemma dur_inv_step:
  assumes "dur_inv s" and "bounds_inv s"
  shows "dur_inv (fst (ct_step ease fmt p s e))"
proof (cases e)
  case Start
  have "valid_duration p * 1000 * (1 - c_progress s) \<le> valid_duration p * 1000"
    using assms(2) valid_duration_pos [of p] by (simp add: bounds_inv_def mult_left_le)
  then show ?thesis using Start valid_duration_le [of p] assms(1)
    by (auto simp: dur_inv_def ct_handlers)
next
  case (Frame dt)
  then show ?thesis using assms(1) by (auto simp: dur_inv_def frame_def Let_def split: option.splits)
next
  case Deliver
  then show ?thesis using assms(1) by (auto simp: dur_inv_def deliver_def split: list.splits js_call.splits)
qed (use assms valid_duration_le [of p] in \<open>auto simp: dur_inv_def ct_handlers\<close>)

lemma ct_reach_dur_inv:
  assumes "unit_interval_map ease" and "ct_reach ease fmt p s"
  shows "dur_inv s"
  using assms(2)
proof induction
  case init
  then show ?case by (simp add: dur_inv_def ct_init_def)
next
  case (step s e)
  then show ?case using dur_inv_step ct_reach_bounds_inv [OF assms(1)] by blast
qed

text \<open>Delivering every posted call: the completed state lands whenever the
  queue holds one, and \<^verbatim>\<open>onComplete\<close> fires once per queued call.\<close>

lemma deliver_all:
  "queue_ok q \<Longrightarrow> c_queue s = q \<Longrightarrow>
   ct_run ease fmt p s (replicate (length q) Deliver) =
     (s\<lparr>c_state := (if SetTimerState Completed \<in> set q then Completed else c_state s), c_queue := []\<rparr>,
      replicate (count_list q CallOnComplete) OnComplete)"
proof (induction q arbitrary: s)
  case Nil
  then show ?case by simp
next
  case (Cons x q)
  have q: "queue_ok q" using Cons.prems(1) by (simp add: queue_ok_def)
  show ?case
  proof (cases "x = SetTimerState Completed")
    case True
    then show ?thesis using Cons.IH [OF q, of "s\<lparr>c_state := Completed, c_queue := q\<rparr>"] Cons.prems
      by (simp add: deliver_def)
  next
    case False
    then have "x = CallOnComplete" using Cons.prems(1) by (simp add: queue_ok_def)
    then show ?thesis using Cons.IH [OF q, of "s\<lparr>c_queue := q\<rparr>"] Cons.prems
      by (simp add: deliver_def)
  qed
qed

subsection \<open>Properties\<close>

text \<open>C25: in every reachable state of the timer, the idle state has progress 0 and no running animation.\<close>

theorem ct_idle_progress_zero:
  assumes "ct_reach ease fmt p s" and "c_state s = Idle"
  shows "c_progress s = 0 \<and> c_anim s = None"
  using ct_reach_idle_inv [OF assms(1)] assms(2) by (simp add: idle_inv_def)

text \<open>C26: for an easing curve that maps the unit interval into itself, the progress stays within [0, 1] in every reachable state.\<close>

theorem ct_progress_bounds:
  assumes "unit_interval_map ease" and "ct_reach ease fmt p s"
  shows "0 \<le> c_progress s \<and> c_progress s \<le> 1"
  using ct_reach_bounds_inv [OF assms] by (simp add: bounds_inv_def)

text \<open>C27: with linear easing a frame of \<open>dt\<close> milliseconds advances the progress by \<open>dt\<close> over the full duration, up to 1, in every reachable state with a running animation, however often the timer was paused and resumed: a resumed run takes the remaining duration.\<close>

theorem frame_advances_linearly:
  assumes "ct_reach id fmt p s" and "c_anim s = Some a" and "0 \<le> dt"
  shows "c_progress (fst (ct_step id fmt p s (Frame dt))) = min 1 (c_progress s + dt / (valid_duration p * 1000))"
  using frame_linear [OF ct_reach_rate_inv [OF assms(1)] ct_reach_bounds_inv [OF unit_interval_map_id assms(1)]
      assms(2,3)] valid_duration_pos [of p] assms(3) by simp

text \<open>The specification's example: ten seconds, target 100, linear; after 5 s the display shows 50; Stop and Start resume over the remaining 5 s, after which the timer completes.\<close>

theorem counter_pause_resume_example:
  "c_display (fst (ct_run id default_format spec_counter_props ct_init [Start, Frame 5000, Tick])) = ''50'' \<and>
   c_anim (fst (ct_run id default_format spec_counter_props ct_init [Start, Frame 5000, Stop, Start])) =
     Some \<lparr>a_from = 1 / 2, a_duration = 5000, a_elapsed = 0\<rparr> \<and>
   c_state (fst (ct_run id default_format spec_counter_props ct_init
     [Start, Frame 5000, Stop, Start, Frame 5000, Deliver])) = Completed"
proof -
  have "default_format 50 = ''50''"
    by (simp add: default_format_def js_int_string_def js_nat_string.simps char_of_def bit_0)
  then show ?thesis by (simp add: ct_eval)
qed

text \<open>C29: Restart and Reset leave the posted calls of a finished run in
  the queue: from any reachable state, delivering them after a Restart marks
  the new run completed while it animates from 0, and after a Reset marks the
  idle timer completed, and \<^verbatim>\<open>onComplete\<close> fires once per queued call.\<close>

theorem restart_stale_completion:
  assumes "ct_reach ease fmt p s"
  shows "ct_run ease fmt p s (Restart # replicate (length (c_queue s)) Deliver) =
           (s\<lparr>c_state := (if SetTimerState Completed \<in> set (c_queue s) then Completed else Running), c_progress := 0,
               c_anim := Some \<lparr>a_from = 0, a_duration = valid_duration p * 1000, a_elapsed = 0\<rparr>, c_queue := []\<rparr>,
            replicate (count_list (c_queue s) CallOnComplete) OnComplete) \<and>
         ct_run ease fmt p s (Reset # replicate (length (c_queue s)) Deliver) =
           (s\<lparr>c_state := (if SetTimerState Completed \<in> set (c_queue s) then Completed else Idle), c_progress := 0,
               c_anim := None, c_queue := [], c_display := ''0''\<rparr>,
            replicate (count_list (c_queue s) CallOnComplete) OnComplete)"
proof -
  have q: "queue_ok (c_queue s)" using ct_reach_idle_inv [OF assms] by (simp add: idle_inv_def)
  have r: "c_queue (handle_restart p s) = c_queue s" "c_queue (handle_reset s) = c_queue s"
    by (simp_all add: ct_handlers)
  show ?thesis
    using deliver_all [OF q r(1), of ease fmt p] deliver_all [OF q r(2), of ease fmt p]
    by (simp add: ct_handlers)
qed

text \<open>C36: with linear easing, a running animation in any reachable state with no posted call pending completes: one frame of the full duration and one delivery bring the timer to completed with progress 1.\<close>

theorem running_completes:
  assumes r: "ct_reach id fmt p s" and a: "c_anim s = Some a" and q: "c_queue s = []"
  shows "c_state (fst (ct_run id fmt p s [Frame (valid_duration p * 1000), Deliver])) = Completed \<and>
         c_progress (fst (ct_run id fmt p s [Frame (valid_duration p * 1000), Deliver])) = 1"
proof -
  have ri: "rate_inv (valid_duration p * 1000) s" by (rule ct_reach_rate_inv [OF r])
  have bi: "bounds_inv s" by (rule ct_reach_bounds_inv [OF unit_interval_map_id r])
  have d0: "0 < valid_duration p * 1000" using valid_duration_pos [of p] by simp
  have "a_duration a = valid_duration p * 1000 * (1 - a_from a)" "0 \<le> a_from a" "0 \<le> a_elapsed a"
    using ri bi a by (simp_all add: rate_inv_def bounds_inv_def)
  moreover have "valid_duration p * 1000 * (1 - a_from a) \<le> valid_duration p * 1000"
    using d0 \<open>0 \<le> a_from a\<close> by (simp add: mult_left_le)
  ultimately have fin: "a_duration a \<le> a_elapsed a + valid_duration p * 1000" by linarith
  show ?thesis
    using fin a q d0 by (simp add: frame_def Let_def deliver_def completion_calls_def)
qed

text \<open>C28: the frame loop of the UI thread terminates in every reachable
  state, for an easing curve that maps the unit interval into itself: with
  frames of \<open>dt > 0\<close> milliseconds it ends with no animation running after at
  most an hour over \<open>dt\<close> frames, rounded up, since \<^verbatim>\<open>validDuration\<close> caps a
  run at 3600 s and a resumed run animates only the remaining part.\<close>

theorem animation_terminates:
  assumes "unit_interval_map ease" and "ct_reach ease fmt p s" and "0 < dt"
  shows "c_anim (fst (frames_until_done ease p dt s)) = None \<and>
         snd (frames_until_done ease p dt s) \<le> nat \<lceil>3600000 / dt\<rceil>"
proof (cases "c_anim s")
  case None
  then show ?thesis by (subst frames_until_done.simps) simp
next
  case (Some a)
  have "a_duration a \<le> 3600000" using ct_reach_dur_inv [OF assms(1,2)] Some by (simp add: dur_inv_def)
  moreover have "0 \<le> a_elapsed a" using ct_reach_bounds_inv [OF assms(1,2)] Some by (simp add: bounds_inv_def)
  ultimately have "(a_duration a - a_elapsed a) / dt \<le> 3600000 / dt" using assms(3) by (simp add: divide_right_mono)
  then have le: "\<lceil>(a_duration a - a_elapsed a) / dt\<rceil> \<le> \<lceil>3600000 / dt\<rceil>" by (rule ceiling_mono)
  have "0 < 3600000 / dt" using assms(3) by simp
  then have "1 \<le> \<lceil>3600000 / dt\<rceil>" by linarith
  then have one: "Suc 0 \<le> nat \<lceil>3600000 / dt\<rceil>" by linarith
  have fc: "frames_until_done ease p dt s =
      (s\<lparr>c_progress := 1, c_anim := None, c_queue := c_queue s @ completion_calls p\<rparr>,
       max 1 (nat \<lceil>(a_duration a - a_elapsed a) / dt\<rceil>))"
    by (rule frames_until_done_count [OF assms(3) Some])
  show ?thesis using one nat_mono [OF le] unfolding fc by simp
qed

subsection \<open>Witnesses\<close>

theorem animation_terminates_witness:
  "c_anim (fst (frames_until_done id spec_counter_props 16 started)) = None \<and>
   snd (frames_until_done id spec_counter_props 16 started) \<le> 225000"
  using animation_terminates [OF unit_interval_map_id reach_started, of 16] by simp

theorem restart_stale_completion_witness:
  "ct_run id default_format spec_counter_props (fst (ct_step id default_format spec_counter_props started (Frame 10000)))
     [Restart, Deliver] =
   ((fst (ct_step id default_format spec_counter_props started (Frame 10000)))\<lparr>c_state := Completed, c_progress := 0,
      c_anim := Some \<lparr>a_from = 0, a_duration = 10000, a_elapsed = 0\<rparr>, c_queue := []\<rparr>, [])"
proof -
  have r: "ct_reach id default_format spec_counter_props (fst (ct_step id default_format spec_counter_props started (Frame 10000)))"
    by (rule ct_reach.step [OF reach_started])
  have q: "c_queue (fst (ct_step id default_format spec_counter_props started (Frame 10000))) = [SetTimerState Completed]"
    by (simp add: started_eval frame_def Let_def completion_calls_def spec_counter_props_def)
  show ?thesis using conjunct1 [OF restart_stale_completion [OF r]] q
    by (simp add: valid_duration_def spec_counter_props_def)
qed

theorem ct_idle_progress_zero_witness:
  "c_state (fst (ct_step id default_format spec_counter_props started Reset)) = Idle \<and>
   c_progress (fst (ct_step id default_format spec_counter_props started Reset)) = 0 \<and>
   c_anim (fst (ct_step id default_format spec_counter_props started Reset)) = None"
proof -
  have r: "ct_reach id default_format spec_counter_props (fst (ct_step id default_format spec_counter_props started Reset))"
    by (rule ct_reach.step [OF reach_started])
  have i: "c_state (fst (ct_step id default_format spec_counter_props started Reset)) = Idle"
    by (simp add: ct_handlers)
  show ?thesis using ct_idle_progress_zero [OF r i] i by simp
qed

theorem ct_progress_bounds_witness:
  "c_progress (fst (ct_step id default_format spec_counter_props started (Frame 2500))) = 1 / 4 \<and>
   0 \<le> c_progress (fst (ct_step id default_format spec_counter_props started (Frame 2500))) \<and>
   c_progress (fst (ct_step id default_format spec_counter_props started (Frame 2500))) \<le> 1"
proof -
  have r: "ct_reach id default_format spec_counter_props (fst (ct_step id default_format spec_counter_props started (Frame 2500)))"
    by (rule ct_reach.step [OF reach_started])
  have "c_progress (fst (ct_step id default_format spec_counter_props started (Frame 2500))) = 1 / 4"
    by (simp add: started_eval frame_def Let_def)
  then show ?thesis using ct_progress_bounds [OF unit_interval_map_id r] by simp
qed

theorem frame_advances_linearly_witness:
  "c_progress (fst (ct_step id default_format spec_counter_props started (Frame 2500))) =
   min 1 (c_progress started + 2500 / (valid_duration spec_counter_props * 1000))"
  using frame_advances_linearly [OF reach_started, of _ 2500] by (simp add: started_eval)

theorem running_completes_witness:
  "c_state (fst (ct_run id default_format spec_counter_props started
      [Frame (valid_duration spec_counter_props * 1000), Deliver])) = Completed \<and>
   c_progress (fst (ct_run id default_format spec_counter_props started
      [Frame (valid_duration spec_counter_props * 1000), Deliver])) = 1"
  using running_completes [OF reach_started] by (simp add: started_eval)

end
