(* ===== verification/Submission.thy ===== *)
theory Submission
  imports Validation
begin

text \<open>The submission path: the client's check of the form
  (\<^verbatim>\<open>OnboardingService.validateOnboardingData\<close>, \<^verbatim>\<open>src/services/onboarding.service.ts\<close>),
  the JSON body the client posts, and the Cloudflare worker
  (\<^verbatim>\<open>src/backend/worker.js\<close>): its own check of the parsed body, the record it
  builds, the key-value store it writes, the lookup by id and the router of
  \<^verbatim>\<open>fetch\<close>.  JSON values are a datatype; an object is an association list in
  which, as with \<^verbatim>\<open>JSON.parse\<close>, the last binding of a key wins.  The store
  maps keys to the values \<^verbatim>\<open>put\<close> was given: a record (the text of
  \<^verbatim>\<open>JSON.stringify\<close>, which \<^verbatim>\<open>JSON.parse\<close> reads back) or a bare id (the
  text \<^verbatim>\<open>onboard_...\<close>, which \<^verbatim>\<open>JSON.parse\<close> rejects).  The id and the
  time stamp are inputs of the handler, as \<^verbatim>\<open>Date.now()\<close> and
  \<^verbatim>\<open>Math.random()\<close> are outside the model.\<close>

subsection \<open>JSON values\<close>

datatype json = JNull | JBool bool | JNum int | JStr js_string | JArr "json list"
  | JObj "(js_string \<times> json) list"

text \<open>Truthiness of a value (\<^verbatim>\<open>!x\<close>); \<open>None\<close> is \<^verbatim>\<open>undefined\<close>.\<close>

fun json_truthy :: "json \<Rightarrow> bool" where
  "json_truthy JNull = False"
| "json_truthy (JBool b) = b"
| "json_truthy (JNum n) = (n \<noteq> 0)"
| "json_truthy (JStr s) = (s \<noteq> [])"
| "json_truthy (JArr xs) = True"
| "json_truthy (JObj kvs) = True"

definition truthy :: "json option \<Rightarrow> bool" where
  "truthy v \<longleftrightarrow> (case v of Some j \<Rightarrow> json_truthy j | None \<Rightarrow> False)"

text \<open>A property read \<^verbatim>\<open>x.k\<close>: \<^verbatim>\<open>null.k\<close> throws a \<^verbatim>\<open>TypeError\<close>; a
  primitive or an array has no such own property here.\<close>

fun get_field :: "json \<Rightarrow> js_string \<Rightarrow> js_error + json option" where
  "get_field JNull k = Inl (TypeError (''Cannot read properties of null (reading '' @ k @ '')''))"
| "get_field (JObj kvs) k = Inr (map_of (rev kvs) k)"
| "get_field j k = Inr None"

subsection \<open>The client\<close>

record document_file =
  df_name :: js_string
  df_size :: nat
  df_mime :: "js_string option"
  df_uri :: js_string
  df_base64 :: "js_string option"

record submit_request =
  sr_name :: js_string
  sr_email :: js_string
  sr_start_date :: js_string
  sr_documents :: "document_file list"

definition client_validate :: "submit_request \<Rightarrow> js_string list" where
  "client_validate d =
     (if js_trim (sr_name d) = [] then [''Name is required''] else []) @
     (if js_trim (sr_email d) = [] then [''Email is required'']
      else if \<not> email_regex_test (sr_email d) then [''Invalid email format''] else []) @
     (if js_trim (sr_start_date d) = [] then [''Start date is required''] else []) @
     (if sr_documents d = [] then [''At least one document is required''] else [])"

text \<open>The body \<^verbatim>\<open>submitOnboarding\<close> posts: the request, its documents with
  the base64 text when reading the file succeeded, and \<^verbatim>\<open>submittedAt\<close>.
  \<^verbatim>\<open>JSON.stringify\<close> leaves out a property whose value is \<^verbatim>\<open>undefined\<close>.\<close>

definition opt_field :: "js_string \<Rightarrow> json option \<Rightarrow> (js_string \<times> json) list" where
  "opt_field k v = (case v of Some j \<Rightarrow> [(k, j)] | None \<Rightarrow> [])"

definition encode_document :: "document_file \<Rightarrow> json" where
  "encode_document doc =
     JObj ([(''name'', JStr (df_name doc)), (''size'', JNum (int (df_size doc)))] @
           opt_field ''mimeType'' (map_option JStr (df_mime doc)) @ [(''uri'', JStr (df_uri doc))] @
           opt_field ''base64'' (map_option JStr (df_base64 doc)))"

definition encode_payload :: "submit_request \<Rightarrow> js_string \<Rightarrow> json" where
  "encode_payload d now =
     JObj [(''name'', JStr (sr_name d)), (''email'', JStr (sr_email d)), (''startDate'', JStr (sr_start_date d)),
           (''documents'', JArr (map encode_document (sr_documents d))), (''submittedAt'', JStr now)]"

subsection \<open>The worker's check\<close>

definition is_js_string :: "json option \<Rightarrow> bool" where
  "is_js_string v \<longleftrightarrow> (case v of Some (JStr s) \<Rightarrow> True | _ \<Rightarrow> False)"

definition the_string :: "json option \<Rightarrow> js_string" where
  "the_string v = (case v of Some (JStr s) \<Rightarrow> s | _ \<Rightarrow> [])"

definition json_array_length :: "json option \<Rightarrow> nat option" where
  "json_array_length v = (case v of Some (JArr xs) \<Rightarrow> Some (length xs) | _ \<Rightarrow> None)"

definition worker_validate :: "json \<Rightarrow> js_error + js_string list" where
  "worker_validate data =
     (case (get_field data ''name'', get_field data ''email'', get_field data ''startDate'',
            get_field data ''documents'') of
        (Inr name, Inr email, Inr start, Inr docs) \<Rightarrow>
          Inr ((if \<not> truthy name \<or> \<not> is_js_string name \<or> js_trim (the_string name) = []
                then [''Name is required''] else []) @
               (if \<not> truthy email \<or> \<not> is_js_string email then [''Email is required'']
                else if \<not> email_regex_test (the_string email) then [''Invalid email format''] else []) @
               (if \<not> truthy start \<or> \<not> is_js_string start then [''Start date is required''] else []) @
               (if \<not> truthy docs \<or> json_array_length docs = None \<or> json_array_length docs = Some 0
                then [''At least one document is required''] else []))
      | (Inl e, _, _, _) \<Rightarrow> Inl e
      | (_, Inl e, _, _) \<Rightarrow> Inl e
      | (_, _, Inl e, _) \<Rightarrow> Inl e
      | (_, _, _, Inl e) \<Rightarrow> Inl e)"

subsection \<open>The stored record\<close>

record stored_document =
  sd_name :: "json option"
  sd_size :: "json option"
  sd_mime :: "json option"
  sd_base64 :: "js_string option"

record onboarding_record =
  or_id :: js_string
  or_name :: js_string
  or_email :: js_string
  or_start_date :: js_string
  or_documents :: "stored_document list"
  or_created_at :: js_string
  or_updated_at :: js_string
  or_submitted_at :: json

text \<open>One element of \<^verbatim>\<open>data.documents.map(doc => ...)\<close>: the base64 text
  is cut to 100 characters; a truthy \<^verbatim>\<open>base64\<close> that is not a string has no
  \<^verbatim>\<open>substring\<close> and throws.\<close>

definition store_document :: "json \<Rightarrow> js_error + stored_document" where
  "store_document doc =
     (case (get_field doc ''name'', get_field doc ''size'', get_field doc ''mimeType'', get_field doc ''base64'') of
        (Inr n, Inr sz, Inr mt, Inr b) \<Rightarrow>
          (if \<not> truthy b then Inr \<lparr>sd_name = n, sd_size = sz, sd_mime = mt, sd_base64 = None\<rparr>
           else case b of
             Some (JStr t) \<Rightarrow> Inr \<lparr>sd_name = n, sd_size = sz, sd_mime = mt,
                                   sd_base64 = Some (take 100 t @ ''...[truncated]'')\<rparr>
           | _ \<Rightarrow> Inl (TypeError ''doc.base64.substring is not a function''))
      | (Inl e, _, _, _) \<Rightarrow> Inl e
      | (_, Inl e, _, _) \<Rightarrow> Inl e
      | (_, _, Inl e, _) \<Rightarrow> Inl e
      | (_, _, _, Inl e) \<Rightarrow> Inl e)"

fun store_documents :: "json list \<Rightarrow> js_error + stored_document list" where
  "store_documents [] = Inr []"
| "store_documents (d # ds) =
     (case store_document d of
        Inl e \<Rightarrow> Inl e
      | Inr sd \<Rightarrow> (case store_documents ds of Inl e \<Rightarrow> Inl e | Inr sds \<Rightarrow> Inr (sd # sds)))"

definition build_record :: "js_string \<Rightarrow> js_string \<Rightarrow> json \<Rightarrow> js_error + onboarding_record" where
  "build_record oid now data =
     (case (get_field data ''name'', get_field data ''email'', get_field data ''startDate'',
            get_field data ''documents'', get_field data ''submittedAt'') of
        (Inr name, Inr email, Inr start, Inr (Some (JArr docs)), Inr submitted) \<Rightarrow>
          (case store_documents docs of
             Inl e \<Rightarrow> Inl e
           | Inr sds \<Rightarrow>
               Inr \<lparr>or_id = oid, or_name = the_string name, or_email = the_string email,
                    or_start_date = the_string start, or_documents = sds, or_created_at = now,
                    or_updated_at = now,
                    or_submitted_at = (if truthy submitted then the submitted else JStr now)\<rparr>)
      | _ \<Rightarrow> Inl (TypeError ''data.documents.map is not a function''))"

subsection \<open>The store and the handlers\<close>

datatype kv_value = KvRecord onboarding_record | KvId js_string

type_synonym kv_store = "js_string \<Rightarrow> kv_value option"

datatype response_body = RError js_string | RData onboarding_record | RHealth | RNoBody

datatype http_response = Response nat response_body

definition internal_error :: http_response where
  "internal_error = Response 500 (RError ''Internal server error'')"

text \<open>\<^verbatim>\<open>handleSubmitOnboarding\<close> on the parsed body (\<open>None\<close> when
  \<^verbatim>\<open>request.json()\<close> rejects), the generated id and the current time.  The
  log line before the check reads \<^verbatim>\<open>data.name\<close>, which throws for a
  \<^verbatim>\<open>null\<close> body.\<close>

definition handle_submit ::
  "kv_store \<Rightarrow> js_string \<Rightarrow> js_string \<Rightarrow> json option \<Rightarrow> kv_store \<times> http_response" where
  "handle_submit kv oid now body =
     (case body of
        None \<Rightarrow> (kv, internal_error)
      | Some data \<Rightarrow>
          (case get_field data ''name'' of
             Inl e \<Rightarrow> (kv, internal_error)
           | Inr _ \<Rightarrow>
               (case worker_validate data of
                  Inl e \<Rightarrow> (kv, internal_error)
                | Inr errs \<Rightarrow>
                    if errs \<noteq> [] then (kv, Response 400 (RError (js_join_str '', '' errs)))
                    else
                      (case build_record oid now data of
                         Inl e \<Rightarrow> (kv, internal_error)
                       | Inr r \<Rightarrow>
                           (kv(oid \<mapsto> KvRecord r, (''email:'' @ or_email r) \<mapsto> KvId oid),
                            Response 201 (RData r))))))"

text \<open>\<^verbatim>\<open>handleGetOnboarding\<close>: \<^verbatim>\<open>JSON.parse\<close> of a bare id throws.\<close>

definition handle_get :: "kv_store \<Rightarrow> js_string \<Rightarrow> http_response" where
  "handle_get kv key =
     (case kv key of
        None \<Rightarrow> Response 404 (RError ''Onboarding data not found'')
      | Some (KvRecord r) \<Rightarrow> Response 200 (RData r)
      | Some (KvId t) \<Rightarrow> internal_error)"

datatype http_method = GET | POST | PUT | DELETE | OPTIONS

text \<open>The router of \<^verbatim>\<open>fetch\<close>; the id is the last segment of the path
  (\<^verbatim>\<open>path.split('/').pop()\<close>).\<close>

definition worker_fetch ::
  "kv_store \<Rightarrow> js_string \<Rightarrow> js_string \<Rightarrow> http_method \<Rightarrow> js_string \<Rightarrow> json option \<Rightarrow> kv_store \<times> http_response" where
  "worker_fetch kv oid now m path body =
     (if m = OPTIONS then (kv, Response 200 RNoBody)
      else if path = ''/api/onboard'' \<and> m = POST then handle_submit kv oid now body
      else if js_starts_with path ''/api/onboard/'' \<and> m = GET then (kv, handle_get kv (last (js_split CHR ''/'' path)))
      else if path = ''/health'' \<or> path = ''/'' then (kv, Response 200 RHealth)
      else (kv, Response 404 (RError ''Not found'')))"

subsection \<open>Identifiers, headers and response bodies\<close>

text \<open>\<^verbatim>\<open>generateId\<close>: the current time in milliseconds and the text of
  \<^verbatim>\<open>Math.random().toString(36)\<close> (\<^verbatim>\<open>0.\<close> and the base-36 digits) are inputs.\<close>

definition generate_id :: "int \<Rightarrow> js_string \<Rightarrow> js_string" where
  "generate_id now rnd = ''onboard_'' @ js_int_string now @ CHR ''_'' # js_substring rnd 2 15"

definition cors_headers :: "(js_string \<times> js_string) list" where
  "cors_headers =
     [(''Access-Control-Allow-Origin'', ''*''), (''Access-Control-Allow-Methods'', ''GET, POST, PUT, DELETE, OPTIONS''),
      (''Access-Control-Allow-Headers'', ''Content-Type, X-Session-ID''), (''Access-Control-Max-Age'', ''86400'')]"

text \<open>\<^verbatim>\<open>JSON.stringify\<close> of a stored record; a property whose value is
  \<^verbatim>\<open>undefined\<close> is left out.\<close>

definition stored_document_json :: "stored_document \<Rightarrow> json" where
  "stored_document_json sd =
     JObj (opt_field ''name'' (sd_name sd) @ opt_field ''size'' (sd_size sd) @ opt_field ''mimeType'' (sd_mime sd) @
           opt_field ''base64'' (map_option JStr (sd_base64 sd)))"

definition record_json :: "onboarding_record \<Rightarrow> json" where
  "record_json r =
     JObj [(''id'', JStr (or_id r)), (''name'', JStr (or_name r)), (''email'', JStr (or_email r)),
           (''startDate'', JStr (or_start_date r)), (''documents'', JArr (map stored_document_json (or_documents r))),
           (''createdAt'', JStr (or_created_at r)), (''updatedAt'', JStr (or_updated_at r)),
           (''submittedAt'', or_submitted_at r)]"

text \<open>The JSON body of each answer of the worker: the record with the success
  message after a submission (201), the record alone after a lookup (200),
  the health report with the current time, and no body for the preflight.\<close>

definition http_body_json :: "js_string \<Rightarrow> http_response \<Rightarrow> json option" where
  "http_body_json now resp =
     (case resp of
        Response st (RError e) \<Rightarrow> Some (JObj [(''success'', JBool False), (''error'', JStr e)])
      | Response st (RData r) \<Rightarrow>
          Some (JObj ([(''success'', JBool True), (''data'', record_json r)] @
                      (if st = 201 then [(''message'', JStr ''Onboarding submitted successfully'')] else [])))
      | Response st RHealth \<Rightarrow>
          Some (JObj [(''status'', JStr ''ok''), (''service'', JStr ''Onboarding Platform API''),
                      (''version'', JStr ''1.0.0''), (''timestamp'', JStr now)])
      | Response st RNoBody \<Rightarrow> None)"

subsection \<open>An example body\<close>

text \<open>A body whose fields pass the worker's check and whose list of documents holds \<^verbatim>\<open>null\<close>.\<close>

definition null_document_body :: json where
  "null_document_body =
     JObj [(''name'', JStr ''Ann Lee''), (''email'', JStr ''ann@example.com''), (''startDate'', JStr ''01/06/2026''),
           (''documents'', JArr [JNull])]"

text \<open>A request as the screen sends it.\<close>

definition example_request :: submit_request where
  "example_request =
     \<lparr>sr_name = ''Ann Lee'', sr_email = ''ann@example.com'', sr_start_date = ''01/06/2026'',
      sr_documents = [\<lparr>df_name = ''id.pdf'', df_size = 1000, df_mime = Some ''application/pdf'',
                        df_uri = ''file:///id.pdf'', df_base64 = None\<rparr>]\<rparr>"

text \<open>The stored form of a document the client encodes: the base64 text,
  when there is one, cut to 100 characters.\<close>

definition stored_of_document :: "document_file \<Rightarrow> stored_document" where
  "stored_of_document doc =
     \<lparr>sd_name = Some (JStr (df_name doc)), sd_size = Some (JNum (int (df_size doc))),
      sd_mime = map_option JStr (df_mime doc),
      sd_base64 = (case df_base64 doc of None \<Rightarrow> None
                   | Some t \<Rightarrow> if t = [] then None else Some (take 100 t @ ''...[truncated]''))\<rparr>"

subsection \<open>Lemmas\<close>

lemma payload_fields:
  "get_field (encode_payload d now) ''name'' = Inr (Some (JStr (sr_name d)))"
  "get_field (encode_payload d now) ''email'' = Inr (Some (JStr (sr_email d)))"
  "get_field (encode_payload d now) ''startDate'' = Inr (Some (JStr (sr_start_date d)))"
  "get_field (encode_payload d now) ''documents'' = Inr (Some (JArr (map encode_document (sr_documents d))))"
  "get_field (encode_payload d now) ''submittedAt'' = Inr (Some (JStr now))"
  by (simp_all add: encode_payload_def)

lemma js_trim_Nil [simp]: "js_trim [] = []"
  by (simp add: js_trim_def)

theorem client_valid_worker_valid:
  assumes "client_validate d = []"
  shows "worker_validate (encode_payload d now) = Inr []"
proof -
  have n: "js_trim (sr_name d) \<noteq> []" and e: "js_trim (sr_email d) \<noteq> []" "email_regex_test (sr_email d)"
    and s: "js_trim (sr_start_date d) \<noteq> []" and ds: "sr_documents d \<noteq> []"
    using assms by (auto simp: client_validate_def split: if_splits)
  have "sr_name d \<noteq> []" "sr_email d \<noteq> []" "sr_start_date d \<noteq> []" using n e s by auto
  then show ?thesis using n e s ds
    by (simp add: worker_validate_def payload_fields truthy_def is_js_string_def the_string_def
        json_array_length_def)
qed

lemma store_document_encoded: "store_document (encode_document doc) = Inr (stored_of_document doc)"
  by (cases "df_base64 doc"; cases "df_mime doc")
     (auto simp: store_document_def encode_document_def opt_field_def truthy_def stored_of_document_def)

lemma store_documents_encoded: "store_documents (map encode_document docs) = Inr (map stored_of_document docs)"
  by (induction docs) (simp_all add: store_document_encoded)

lemma onboard_not_email_key: "js_starts_with oid ''onboard_'' \<Longrightarrow> oid \<noteq> ''email:'' @ x"
  by (auto simp: js_starts_with_def)

lemma submit_encoded:
  assumes ok: "client_validate d = []"
  shows "\<exists>r. handle_submit kv oid now (Some (encode_payload d sub)) =
              (kv(oid \<mapsto> KvRecord r, (''email:'' @ sr_email d) \<mapsto> KvId oid), Response 201 (RData r)) \<and>
            or_id r = oid \<and> or_name r = sr_name d \<and> or_email r = sr_email d \<and>
            or_start_date r = sr_start_date d \<and> length (or_documents r) = length (sr_documents d) \<and>
            or_documents r = map stored_of_document (sr_documents d) \<and> or_created_at r = now"
proof -
  define r where "r = \<lparr>or_id = oid, or_name = sr_name d, or_email = sr_email d,
    or_start_date = sr_start_date d, or_documents = map stored_of_document (sr_documents d), or_created_at = now,
    or_updated_at = now, or_submitted_at = (if sub = [] then JStr now else JStr sub)\<rparr>"
  have br: "build_record oid now (encode_payload d sub) = Inr r"
    by (simp add: build_record_def payload_fields r_def the_string_def truthy_def store_documents_encoded)
  have "handle_submit kv oid now (Some (encode_payload d sub)) =
      (kv(oid \<mapsto> KvRecord r, (''email:'' @ sr_email d) \<mapsto> KvId oid), Response 201 (RData r))"
    using client_valid_worker_valid [OF ok] br by (simp add: handle_submit_def payload_fields r_def)
  then show ?thesis by (intro exI [of _ r]) (simp add: r_def)
qed

lemma last_split_email_path:
  "CHR ''/'' \<notin> set e \<Longrightarrow> last (js_split CHR ''/'' (''/api/onboard/email:'' @ e)) = ''email:'' @ e"
  by (simp add: js_split_no_sep)

lemma worker_get_route:
  "CHR ''/'' \<notin> set oid \<Longrightarrow> worker_fetch kv oid' now GET (''/api/onboard/'' @ oid) body = (kv, handle_get kv oid)"
  by (simp add: worker_fetch_def js_starts_with_def js_split_no_sep)

text \<open>An id from \<^verbatim>\<open>generateId\<close> begins with \<^verbatim>\<open>onboard_\<close> and, as the
  random text holds base-36 digits and a dot, has no slash, question mark or
  hash.\<close>

lemma generate_id_prefix: "js_starts_with (generate_id now rnd) ''onboard_''"
  by (simp add: generate_id_def js_starts_with_def)

lemma set_js_substring: "set (js_substring s a b) \<subseteq> set s"
  unfolding js_substring_def Let_def by (meson in_set_dropD in_set_takeD subsetI)

lemma int_string_no_sep: "c \<in> set (js_int_string i) \<Longrightarrow> c \<notin> {CHR ''/'', CHR ''?'', CHR ''#''}"
proof -
  assume "c \<in> set (js_int_string i)"
  then have "is_digit c \<or> c = CHR ''-''" by (rule js_int_string_chars)
  then show ?thesis by (auto simp: is_digit_def)
qed

lemma generate_id_chars:
  assumes "\<forall>c\<in>set rnd. c \<notin> {CHR ''/'', CHR ''?'', CHR ''#''}"
  shows "\<forall>c\<in>set (generate_id now rnd). c \<notin> {CHR ''/'', CHR ''?'', CHR ''#''}"
  using assms set_js_substring [of rnd 2 15] int_string_no_sep [of _ now]
  unfolding generate_id_def by auto

lemma example_request_valid: "client_validate example_request = []"
  by (simp add: example_request_def client_validate_def email_regex_test_def js_trim_def is_js_space_def)

lemma build_record_id: "build_record oid now data = Inr r \<Longrightarrow> or_id r = oid"
  by (auto simp: build_record_def split: prod.splits sum.splits option.splits json.splits)

lemma handle_submit_store:
  "fst (handle_submit kv oid now body) = kv \<or>
   (\<exists>r. fst (handle_submit kv oid now body) = kv(oid \<mapsto> KvRecord r, (''email:'' @ or_email r) \<mapsto> KvId oid) \<and>
        or_id r = oid)"
  by (auto simp: handle_submit_def dest: build_record_id split: option.splits sum.splits)

subsection \<open>Properties\<close>

text \<open>C30: a request that passes the client's check, posted as the client encodes it, is stored by the worker under the generated id (which begins with \<^verbatim>\<open>onboard_\<close>) with the email index beside it, answered with 201, and read back by \<^verbatim>\<open>GET\<close> with the same name, email, start date and number of documents.\<close>

theorem submit_then_get:
  assumes ok: "client_validate d = []" and oid: "js_starts_with oid ''onboard_''"
  shows "\<exists>r. handle_submit kv oid now (Some (encode_payload d sub)) =
              (kv(oid \<mapsto> KvRecord r, (''email:'' @ sr_email d) \<mapsto> KvId oid), Response 201 (RData r)) \<and>
            handle_get (fst (handle_submit kv oid now (Some (encode_payload d sub)))) oid = Response 200 (RData r) \<and>
            or_id r = oid \<and> or_name r = sr_name d \<and> or_email r = sr_email d \<and>
            or_start_date r = sr_start_date d \<and> length (or_documents r) = length (sr_documents d)"
proof -
  obtain r where r: "handle_submit kv oid now (Some (encode_payload d sub)) =
      (kv(oid \<mapsto> KvRecord r, (''email:'' @ sr_email d) \<mapsto> KvId oid), Response 201 (RData r))"
    "or_id r = oid" "or_name r = sr_name d" "or_email r = sr_email d"
    "or_start_date r = sr_start_date d" "length (or_documents r) = length (sr_documents d)"
    using submit_encoded [OF ok] by blast
  have "handle_get (fst (handle_submit kv oid now (Some (encode_payload d sub)))) oid = Response 200 (RData r)"
    using onboard_not_email_key [OF oid, of "sr_email d"] by (simp add: r(1) handle_get_def)
  with r show ?thesis by blast
qed

text \<open>C31: the email index shares the key space of the records: after a submission, \<^verbatim>\<open>GET /api/onboard/email:<address>\<close> finds the bare id, which \<^verbatim>\<open>JSON.parse\<close> rejects, and answers 500 instead of 404.\<close>

theorem get_email_key_internal_error:
  assumes ok: "client_validate d = []" and slash: "CHR ''/'' \<notin> set (sr_email d)"
  shows "snd (worker_fetch (fst (handle_submit kv oid now (Some (encode_payload d sub)))) oid' now' GET
           (''/api/onboard/email:'' @ sr_email d) None) = internal_error"
proof -
  obtain r where r: "handle_submit kv oid now (Some (encode_payload d sub)) =
      (kv(oid \<mapsto> KvRecord r, (''email:'' @ sr_email d) \<mapsto> KvId oid), Response 201 (RData r))"
    using submit_encoded [OF ok] by blast
  show ?thesis
    using last_split_email_path [OF slash]
    by (simp add: r worker_fetch_def handle_get_def js_starts_with_def)
qed

text \<open>A \<^verbatim>\<open>null\<close> element of the documents makes \<^verbatim>\<open>doc.name\<close> throw, whatever
  comes before or after it; a body whose documents property can be read is
  an object, so every other property can be read too.\<close>

lemma store_documents_null: "JNull \<in> set ds \<Longrightarrow> \<exists>e. store_documents ds = Inl e"
  by (induction ds) (auto simp: store_document_def split: sum.splits)

lemma get_field_object: "get_field data k = Inr v \<Longrightarrow> \<exists>w. get_field data k' = Inr w"
  by (cases data) simp_all

text \<open>C32: a body whose fields pass the worker's check but whose documents
  hold \<^verbatim>\<open>null\<close> anywhere makes \<^verbatim>\<open>data.documents.map\<close> throw: the worker
  answers 500 and stores nothing.\<close>

theorem null_document_crashes:
  assumes "worker_validate data = Inr []" and "get_field data ''documents'' = Inr (Some (JArr docs))"
    and "JNull \<in> set docs"
  shows "handle_submit kv oid now (Some data) = (kv, internal_error)"
proof -
  obtain e where e: "store_documents docs = Inl e" using store_documents_null [OF assms(3)] by blast
  obtain n where n: "get_field data ''name'' = Inr n" using get_field_object [OF assms(2)] by blast
  obtain m where m: "get_field data ''email'' = Inr m" using get_field_object [OF assms(2)] by blast
  obtain st where st: "get_field data ''startDate'' = Inr st" using get_field_object [OF assms(2)] by blast
  obtain sub where sub: "get_field data ''submittedAt'' = Inr sub" using get_field_object [OF assms(2)] by blast
  have "\<exists>e'. build_record oid now data = Inl e'"
    using n m st sub assms(2) e by (simp add: build_record_def)
  then show ?thesis using assms(1) n by (auto simp: handle_submit_def)
qed

text \<open>C33: only \<^verbatim>\<open>POST /api/onboard\<close> changes the store, and it writes exactly the record under the generated id and the email index that points to it.\<close>

theorem worker_fetch_store_frame:
  "fst (worker_fetch kv oid now m path body) = kv \<or>
   (m = POST \<and> path = ''/api/onboard'' \<and>
    (\<exists>r. fst (worker_fetch kv oid now m path body) = kv(oid \<mapsto> KvRecord r, (''email:'' @ or_email r) \<mapsto> KvId oid) \<and>
         or_id r = oid))"
  using handle_submit_store [of kv oid now body] by (auto simp: worker_fetch_def)

subsection \<open>Witnesses\<close>

theorem submit_then_get_witness:
  "\<exists>r. handle_submit Map.empty ''onboard_1_a'' ''2026-01-01T00:00:00.000Z''
          (Some (encode_payload example_request ''2026-01-01T00:00:00.000Z'')) =
        (Map.empty(''onboard_1_a'' \<mapsto> KvRecord r, ''email:ann@example.com'' \<mapsto> KvId ''onboard_1_a''),
         Response 201 (RData r)) \<and>
       handle_get (fst (handle_submit Map.empty ''onboard_1_a'' ''2026-01-01T00:00:00.000Z''
          (Some (encode_payload example_request ''2026-01-01T00:00:00.000Z'')))) ''onboard_1_a'' =
         Response 200 (RData r) \<and>
       or_id r = ''onboard_1_a'' \<and> or_name r = ''Ann Lee'' \<and> or_email r = ''ann@example.com'' \<and>
       or_start_date r = ''01/06/2026'' \<and> length (or_documents r) = 1"
  using submit_then_get [OF example_request_valid, of "''onboard_1_a''" "Map.empty"
      "''2026-01-01T00:00:00.000Z''" "''2026-01-01T00:00:00.000Z''"]
  by (simp add: js_starts_with_def example_request_def)

theorem get_email_key_internal_error_witness:
  "snd (worker_fetch (fst (handle_submit Map.empty ''onboard_1_a'' ''2026-01-01T00:00:00.000Z''
          (Some (encode_payload example_request ''2026-01-01T00:00:00.000Z'')))) ''onboard_2_b'' ''2026-01-02T00:00:00.000Z'' GET
      ''/api/onboard/email:ann@example.com'' None) = internal_error"
  using get_email_key_internal_error [OF example_request_valid, of "Map.empty" "''onboard_1_a''"
      "''2026-01-01T00:00:00.000Z''" "''2026-01-01T00:00:00.000Z''" "''onboard_2_b''" "''2026-01-02T00:00:00.000Z''"]
  by (simp add: example_request_def)

theorem null_document_crashes_witness:
  "worker_validate null_document_body = Inr [] \<and>
   handle_submit Map.empty ''onboard_1_a'' ''2026-01-01T00:00:00.000Z'' (Some null_document_body) = (Map.empty, internal_error)"
proof -
  have v: "worker_validate null_document_body = Inr []"
    by (simp add: null_document_body_def worker_validate_def truthy_def is_js_string_def the_string_def
        json_array_length_def email_regex_test_def js_trim_def is_js_space_def)
  have d: "get_field null_document_body ''documents'' = Inr (Some (JArr [JNull]))"
    by (simp add: null_document_body_def)
  show ?thesis using null_document_crashes [OF v d, of Map.empty "''onboard_1_a''" "''2026-01-01T00:00:00.000Z''"] v by simp
qed

end
