(* ===== verification/ApiClient.thy ===== *)
theory ApiClient
  imports Submission "HOL-Library.AList"
begin

text \<open>The HTTP client of \<^verbatim>\<open>src/utils/api.ts\<close>: the class \<^verbatim>\<open>ApiClient\<close>
  and its singleton \<^verbatim>\<open>apiClient\<close>.  The constructor fixes the base URL, the
  time-out, the default headers and an ephemeral session id; the request
  interceptor stamps every request with the header \<^verbatim>\<open>X-Session-ID\<close>; the
  response interceptor turns every failure into an \<^verbatim>\<open>ApiError\<close> through
  \<^verbatim>\<open>handleError\<close>; the verbs return \<^verbatim>\<open>response.data\<close>.  The network is an
  input: a function from the request the adapter sends to its outcome (an
  answer with a status and a JSON body, no answer, or a failure to set the
  request up).  The URL the adapter sends to is axios' \<^verbatim>\<open>buildFullPath\<close> of
  the base URL and the path, and the worker routes on its path name.\<close>

subsection \<open>Errors\<close>

datatype axios_failure = HttpStatus nat json | NoResponse js_string | RequestSetup js_string

record api_error =
  ae_message :: json
  ae_code :: js_string

text \<open>\<^verbatim>\<open>data?.message\<close>: optional chaining reads a field of an object and
  gives \<^verbatim>\<open>undefined\<close> for anything else.\<close>

definition read_opt :: "json \<Rightarrow> js_string \<Rightarrow> json option" where
  "read_opt j k = (case j of JObj kvs \<Rightarrow> map_of (rev kvs) k | _ \<Rightarrow> None)"

definition handle_error :: "axios_failure \<Rightarrow> api_error" where
  "handle_error f =
     (case f of
        HttpStatus st data \<Rightarrow>
          \<lparr>ae_message =
             (if truthy (read_opt data ''message'') then the (read_opt data ''message'')
              else if truthy (read_opt data ''error'') then the (read_opt data ''error'')
              else JStr ''Server error occurred''),
           ae_code = ''HTTP_'' @ js_int_string (int st)\<rparr>
      | NoResponse msg \<Rightarrow>
          \<lparr>ae_message = JStr ''No response from server. Please check your internet connection.'',
           ae_code = ''NETWORK_ERROR''\<rparr>
      | RequestSetup msg \<Rightarrow>
          \<lparr>ae_message = JStr (if msg \<noteq> [] then msg else ''An unexpected error occurred''),
           ae_code = ''UNKNOWN_ERROR''\<rparr>)"

text \<open>The JSON body of a response of the worker.\<close>

definition response_json :: "response_body \<Rightarrow> json" where
  "response_json b =
     (case b of
        RError e \<Rightarrow> JObj [(''success'', JBool False), (''error'', JStr e)]
      | RData r \<Rightarrow> JObj [(''success'', JBool True), (''message'', JStr ''Onboarding submitted successfully'')]
      | RHealth \<Rightarrow> JObj [(''status'', JStr ''ok'')]
      | RNoBody \<Rightarrow> JNull)"

subsection \<open>The client\<close>

text \<open>\<^verbatim>\<open>process.env.EXPO_PUBLIC_API_URL || 'https://your-backend-url.workers.dev'\<close>:
  an unset or empty variable gives the placeholder.\<close>

definition default_api_url :: js_string where
  "default_api_url = ''https://your-backend-url.workers.dev''"

definition api_base_url :: "js_string option \<Rightarrow> js_string" where
  "api_base_url env = (case env of Some u \<Rightarrow> if u \<noteq> [] then u else default_api_url | None \<Rightarrow> default_api_url)"

text \<open>\<^verbatim>\<open>generateSessionId\<close>, with \<^verbatim>\<open>Date.now()\<close> and the text of
  \<^verbatim>\<open>Math.random().toString(36)\<close> as inputs.\<close>

definition generate_session_id :: "int \<Rightarrow> js_string \<Rightarrow> js_string" where
  "generate_session_id now rnd = ''session_'' @ js_int_string now @ CHR ''_'' # js_substring rnd 2 15"

type_synonym headers = "(js_string \<times> js_string) list"

record api_client =
  ac_base_url :: js_string
  ac_timeout :: nat
  ac_headers :: headers
  ac_session_id :: js_string

definition api_client_new :: "js_string option \<Rightarrow> int \<Rightarrow> js_string \<Rightarrow> api_client" where
  "api_client_new env now rnd =
     \<lparr>ac_base_url = api_base_url env, ac_timeout = 30000, ac_headers = [(''Content-Type'', ''application/json'')],
      ac_session_id = generate_session_id now rnd\<rparr>"

definition get_session_id :: "api_client \<Rightarrow> js_string" where
  "get_session_id ac = ac_session_id ac"

record request_config =
  rc_method :: http_method
  rc_url :: js_string
  rc_data :: "json option"
  rc_headers :: headers

text \<open>axios' \<^verbatim>\<open>isAbsoluteURL\<close> (\<^verbatim>\<open>/^([a-z][a-z\d+\-.]*:)?\/\//i\<close>) and
  \<^verbatim>\<open>combineURLs\<close>, which drops at most two slashes at the end of the base
  and every slash at the start of the path.\<close>

definition is_alpha :: "char \<Rightarrow> bool" where
  "is_alpha c \<longleftrightarrow> (97 \<le> (of_char c :: nat) \<and> (of_char c :: nat) \<le> 122) \<or> (65 \<le> (of_char c :: nat) \<and> (of_char c :: nat) \<le> 90)"

definition is_scheme_char :: "char \<Rightarrow> bool" where
  "is_scheme_char c \<longleftrightarrow> is_alpha c \<or> is_digit c \<or> c \<in> {CHR ''+'', CHR ''-'', CHR ''.''}"

definition is_absolute_url :: "js_string \<Rightarrow> bool" where
  "is_absolute_url u \<longleftrightarrow>
     js_starts_with u ''//'' \<or>
     (case u of [] \<Rightarrow> False
      | c # r \<Rightarrow> is_alpha c \<and> js_starts_with (dropWhile is_scheme_char r) ''://'')"

definition combine_urls :: "js_string \<Rightarrow> js_string \<Rightarrow> js_string" where
  "combine_urls base rel =
     (if rel = [] then base
      else (if js_ends_with base ''//'' then take (length base - 2) base
            else if js_ends_with base ''/'' then butlast base else base) @
           CHR ''/'' # dropWhile (\<lambda>c. c = CHR ''/'') rel)"

definition build_full_path :: "js_string \<Rightarrow> js_string \<Rightarrow> js_string" where
  "build_full_path base url = (if base \<noteq> [] \<and> \<not> is_absolute_url url then combine_urls base url else url)"

text \<open>The outcome of sending a request: axios resolves a status in 200..299
  and rejects any other status, a request that got no answer, and a request
  that could not be set up.\<close>

datatype wire_outcome = WireAnswer nat json | WireNoAnswer js_string | WireSetupError js_string

text \<open>The request the adapter sends: the instance's headers merged with the
  call's, then the request interceptor sets \<^verbatim>\<open>X-Session-ID\<close>.\<close>

definition request_interceptor :: "api_client \<Rightarrow> request_config \<Rightarrow> request_config" where
  "request_interceptor ac cfg = cfg\<lparr>rc_headers := AList.update ''X-Session-ID'' (ac_session_id ac) (rc_headers cfg)\<rparr>"

definition sent_config ::
  "api_client \<Rightarrow> http_method \<Rightarrow> js_string \<Rightarrow> json option \<Rightarrow> headers \<Rightarrow> request_config" where
  "sent_config ac m url data extra =
     request_interceptor ac
       \<lparr>rc_method = m, rc_url = build_full_path (ac_base_url ac) url, rc_data = data,
        rc_headers = AList.merge (ac_headers ac) extra\<rparr>"

definition response_interceptor :: "wire_outcome \<Rightarrow> api_error + json" where
  "response_interceptor w =
     (case w of
        WireAnswer st body \<Rightarrow> if 200 \<le> st \<and> st < 300 then Inr body else Inl (handle_error (HttpStatus st body))
      | WireNoAnswer msg \<Rightarrow> Inl (handle_error (NoResponse msg))
      | WireSetupError msg \<Rightarrow> Inl (handle_error (RequestSetup msg)))"

text \<open>\<^verbatim>\<open>get\<close>, \<^verbatim>\<open>post\<close>, \<^verbatim>\<open>put\<close> and \<^verbatim>\<open>delete\<close>: \<^verbatim>\<open>Inr\<close> is
  \<^verbatim>\<open>response.data\<close>, \<^verbatim>\<open>Inl\<close> the \<^verbatim>\<open>ApiError\<close> the promise rejects with.\<close>

definition api_request ::
  "api_client \<Rightarrow> (request_config \<Rightarrow> wire_outcome) \<Rightarrow> http_method \<Rightarrow> js_string \<Rightarrow> json option \<Rightarrow> headers \<Rightarrow>
   api_error + json" where
  "api_request ac send m url data extra = response_interceptor (send (sent_config ac m url data extra))"

definition api_get :: "api_client \<Rightarrow> (request_config \<Rightarrow> wire_outcome) \<Rightarrow> js_string \<Rightarrow> headers \<Rightarrow> api_error + json" where
  "api_get ac send url extra = api_request ac send GET url None extra"

definition api_post ::
  "api_client \<Rightarrow> (request_config \<Rightarrow> wire_outcome) \<Rightarrow> js_string \<Rightarrow> json option \<Rightarrow> headers \<Rightarrow> api_error + json" where
  "api_post ac send url data extra = api_request ac send POST url data extra"

definition api_put ::
  "api_client \<Rightarrow> (request_config \<Rightarrow> wire_outcome) \<Rightarrow> js_string \<Rightarrow> json option \<Rightarrow> headers \<Rightarrow> api_error + json" where
  "api_put ac send url data extra = api_request ac send PUT url data extra"

definition api_delete :: "api_client \<Rightarrow> (request_config \<Rightarrow> wire_outcome) \<Rightarrow> js_string \<Rightarrow> headers \<Rightarrow> api_error + json" where
  "api_delete ac send url extra = api_request ac send DELETE url None extra"

subsection \<open>The path the worker sees\<close>

text \<open>The path name of an absolute URL \<^verbatim>\<open>scheme://host/path?query#fragment\<close>
  (\<^verbatim>\<open>new URL(request.url).pathname\<close>) for URLs without percent-escapes or
  dot segments: the text after the host up to a query or a fragment, and
  \<^verbatim>\<open>/\<close> when it is empty.\<close>

definition url_pathname :: "js_string \<Rightarrow> js_string" where
  "url_pathname u =
     (let after_scheme = drop 2 (dropWhile (\<lambda>c. c \<noteq> CHR ''/'') u);
          after_host = dropWhile (\<lambda>c. c \<notin> {CHR ''/'', CHR ''?'', CHR ''#''}) after_scheme;
          p = takeWhile (\<lambda>c. c \<notin> {CHR ''?'', CHR ''#''}) after_host
      in if p = [] then ''/'' else p)"

text \<open>A host name: letters, digits, dots and dashes.\<close>

definition host_char :: "char \<Rightarrow> bool" where
  "host_char c \<longleftrightarrow> is_alpha c \<or> is_digit c \<or> c = CHR ''.'' \<or> c = CHR ''-''"

subsection \<open>Lemmas\<close>

text \<open>Whatever headers a call passes, the request the adapter sends carries
  the instance's session id.\<close>

lemma sent_config_session:
  "map_of (rc_headers (sent_config ac m url data extra)) ''X-Session-ID'' = Some (ac_session_id ac)"
  by (simp add: sent_config_def request_interceptor_def update_conv')

text \<open>The headers the client sends on its own are among those the worker's
  CORS answer allows.\<close>

lemma sent_headers_allowed:
  "\<forall>h\<in>set (map fst (rc_headers (sent_config (api_client_new env now rnd) m url data []))).
     h \<in> set (map js_trim (js_split CHR '','' (the (map_of cors_headers ''Access-Control-Allow-Headers''))))"
  by (simp add: sent_config_def request_interceptor_def api_client_new_def cors_headers_def js_trim_def
      is_js_space_def)

lemma host_char_not_sep: "host_char c \<Longrightarrow> c \<notin> {CHR ''/'', CHR ''?'', CHR ''#''}"
  by (auto simp: host_char_def is_alpha_def is_digit_def)

text \<open>A relative path under a base \<^verbatim>\<open>https://host\<close> reaches the worker as
  the same path.\<close>

lemma full_path_pathname:
  assumes host: "host \<noteq> []" "\<forall>c\<in>set host. host_char c"
    and p: "\<forall>c\<in>set p. c \<notin> {CHR ''?'', CHR ''#''}"
  shows "url_pathname (build_full_path (''https://'' @ host) (CHR ''/'' # CHR ''a'' # p)) = CHR ''/'' # CHR ''a'' # p"
proof -
  have nabs: "\<not> is_absolute_url (CHR ''/'' # CHR ''a'' # p)"
    by (simp add: is_absolute_url_def js_starts_with_def is_alpha_def)
  have hl: "last host \<noteq> CHR ''/''" using host last_in_set host_char_not_sep by blast
  have ne: "\<not> js_ends_with (''https://'' @ host) ''/''" "\<not> js_ends_with (''https://'' @ host) ''//''"
    using hl host(1) js_ends_with_last [of "''https://'' @ host" "''/''"]
      js_ends_with_last [of "''https://'' @ host" "''//''"] by auto
  have full: "build_full_path (''https://'' @ host) (CHR ''/'' # CHR ''a'' # p) = ''https://'' @ host @ CHR ''/'' # CHR ''a'' # p"
    using nabs ne by (simp add: build_full_path_def combine_urls_def)
  have h1: "\<forall>c\<in>set host. c \<notin> {CHR ''/'', CHR ''?'', CHR ''#''}"
    using host(2) host_char_not_sep by blast
  have "dropWhile (\<lambda>c. c \<notin> {CHR ''/'', CHR ''?'', CHR ''#''}) (host @ CHR ''/'' # CHR ''a'' # p) = CHR ''/'' # CHR ''a'' # p"
    using h1 by (simp add: dropWhile_append2)
  moreover have "takeWhile (\<lambda>c. c \<notin> {CHR ''?'', CHR ''#''}) (CHR ''/'' # CHR ''a'' # p) = CHR ''/'' # CHR ''a'' # p"
    using p by (simp add: takeWhile_eq_all_conv)
  ultimately show ?thesis unfolding url_pathname_def full Let_def by simp
qed

end
