(* ===== verification/Service.thy ===== *)
theory Service
  imports ApiClient
begin

text \<open>\<^verbatim>\<open>OnboardingService\<close> (the first part of
  \<^verbatim>\<open>src/services/onboarding.service.ts\<close>) and the interfaces of
  \<^verbatim>\<open>src/types/onboarding.ts\<close> the answers are declared with.  The service
  reads each document as base64 (the outcome of reading a file is an input),
  posts the request through the client and turns a rejection into
  \<^verbatim>\<open>{success: false, error}\<close>; the lookup by id goes through the client to
  the worker's route \<^verbatim>\<open>GET /api/onboard/:id\<close>; the mock answers from the
  request itself.  The interfaces are predicates on JSON values: an object
  conforms when each declared property has its type, an optional one
  (\<^verbatim>\<open>?\<close>) may be absent, and further properties are allowed.\<close>

subsection \<open>End points and files\<close>

definition endpoint_submit :: js_string where
  "endpoint_submit = ''/api/onboard''"

definition endpoint_get_by_id :: "js_string \<Rightarrow> js_string" where
  "endpoint_get_by_id oid = ''/api/onboard/'' @ oid"

text \<open>\<^verbatim>\<open>fileToBase64\<close>: \<^verbatim>\<open>FileSystem.readAsStringAsync\<close> gives the
  base64 text or fails; a failure becomes \<^verbatim>\<open>Error('Failed to process file')\<close>.\<close>

definition file_to_base64 :: "(js_string \<Rightarrow> js_string option) \<Rightarrow> js_string \<Rightarrow> js_error + js_string" where
  "file_to_base64 read uri = (case read uri of Some b \<Rightarrow> Inr b | None \<Rightarrow> Inl (PlainError ''Failed to process file''))"

text \<open>The \<^verbatim>\<open>Promise.all\<close> over the documents: each \<^verbatim>\<open>try\<close> gives the base64
  text or, in its \<^verbatim>\<open>catch\<close>, nothing.\<close>

definition document_reads :: "(js_string \<Rightarrow> js_string option) \<Rightarrow> document_file list \<Rightarrow> js_string option list" where
  "document_reads read docs =
     map (\<lambda>doc. case file_to_base64 read (df_uri doc) of Inr b \<Rightarrow> Some b | Inl e \<Rightarrow> None) docs"

subsection \<open>Submission\<close>

text \<open>Each document gets its base64 text when \<^verbatim>\<open>fileToBase64\<close> succeeds
  and is sent unchanged when it fails.\<close>

definition attach_base64 :: "document_file \<Rightarrow> js_string option \<Rightarrow> document_file" where
  "attach_base64 doc r = (case r of Some b \<Rightarrow> doc\<lparr>df_base64 := Some b\<rparr> | None \<Rightarrow> doc)"

definition service_payload :: "submit_request \<Rightarrow> js_string option list \<Rightarrow> js_string \<Rightarrow> json" where
  "service_payload d reads now =
     encode_payload (d\<lparr>sr_documents := map2 attach_base64 (sr_documents d) reads\<rparr>) now"

record ob_response =
  resp_success :: bool
  resp_data :: "onboarding_record option"
  resp_message :: "js_string option"
  resp_error :: "json option"

datatype net_outcome = Delivered http_response | NoAnswer js_string

text \<open>\<^verbatim>\<open>submitOnboarding\<close> after the post: axios resolves a 2xx answer with
  its body and rejects any other with \<^verbatim>\<open>handleError\<close>; the \<^verbatim>\<open>catch\<close> turns
  the rejection into \<^verbatim>\<open>{success: false, error: apiError.message}\<close>.\<close>

definition service_result :: "net_outcome \<Rightarrow> ob_response" where
  "service_result outc =
     (case outc of
        Delivered (Response st body) \<Rightarrow>
          if 200 \<le> st \<and> st < 300
          then (case body of
                  RData r \<Rightarrow> \<lparr>resp_success = True, resp_data = Some r,
                              resp_message = Some ''Onboarding submitted successfully'', resp_error = None\<rparr>
                | RError e \<Rightarrow> \<lparr>resp_success = False, resp_data = None, resp_message = None,
                               resp_error = Some (JStr e)\<rparr>
                | _ \<Rightarrow> \<lparr>resp_success = False, resp_data = None, resp_message = None, resp_error = None\<rparr>)
          else \<lparr>resp_success = False, resp_data = None, resp_message = None,
                resp_error = Some (ae_message (handle_error (HttpStatus st (response_json body))))\<rparr>
      | NoAnswer msg \<Rightarrow>
          \<lparr>resp_success = False, resp_data = None, resp_message = None,
           resp_error = Some (ae_message (handle_error (NoResponse msg)))\<rparr>)"

subsection \<open>Lookup and mock\<close>

text \<open>The \<^verbatim>\<open>catch\<close> of the service: \<^verbatim>\<open>{success: false, error: apiError.message}\<close>.\<close>

definition failure_json :: "api_error \<Rightarrow> json" where
  "failure_json err = JObj [(''success'', JBool False), (''error'', ae_message err)]"

definition get_onboarding_by_id ::
  "api_client \<Rightarrow> (request_config \<Rightarrow> wire_outcome) \<Rightarrow> js_string \<Rightarrow> json" where
  "get_onboarding_by_id ac send oid =
     (case api_get ac send (endpoint_get_by_id oid) [] of Inr body \<Rightarrow> body | Inl err \<Rightarrow> failure_json err)"

text \<open>\<^verbatim>\<open>mockSubmitOnboarding\<close>: the id from \<^verbatim>\<open>Date.now()\<close>, the request
  spread into the data, and two readings of the clock for
  \<^verbatim>\<open>createdAt\<close> and \<^verbatim>\<open>updatedAt\<close>.\<close>

definition mock_submit_onboarding :: "int \<Rightarrow> js_string \<Rightarrow> js_string \<Rightarrow> submit_request \<Rightarrow> json" where
  "mock_submit_onboarding now created updated d =
     JObj [(''success'', JBool True),
           (''data'', JObj [(''id'', JStr (''onboard_'' @ js_int_string now)), (''name'', JStr (sr_name d)),
                           (''email'', JStr (sr_email d)), (''startDate'', JStr (sr_start_date d)),
                           (''documents'', JArr (map encode_document (sr_documents d))),
                           (''createdAt'', JStr created), (''updatedAt'', JStr updated)]),
           (''message'', JStr ''Onboarding submitted successfully (MOCK)'')]"

subsection \<open>The interfaces\<close>

definition json_is_string :: "json \<Rightarrow> bool" where
  "json_is_string j \<longleftrightarrow> (case j of JStr s \<Rightarrow> True | _ \<Rightarrow> False)"

definition json_is_number :: "json \<Rightarrow> bool" where
  "json_is_number j \<longleftrightarrow> (case j of JNum n \<Rightarrow> True | _ \<Rightarrow> False)"

definition json_is_bool :: "json \<Rightarrow> bool" where
  "json_is_bool j \<longleftrightarrow> (case j of JBool b \<Rightarrow> True | _ \<Rightarrow> False)"

text \<open>A required property \<^verbatim>\<open>k: T\<close> and an optional one \<^verbatim>\<open>k?: T\<close> of an object.\<close>

definition req_prop :: "(json \<Rightarrow> bool) \<Rightarrow> json \<Rightarrow> js_string \<Rightarrow> bool" where
  "req_prop ty j k \<longleftrightarrow> (case read_opt j k of Some v \<Rightarrow> ty v | None \<Rightarrow> False)"

definition opt_prop :: "(json \<Rightarrow> bool) \<Rightarrow> json \<Rightarrow> js_string \<Rightarrow> bool" where
  "opt_prop ty j k \<longleftrightarrow> (case read_opt j k of Some v \<Rightarrow> ty v | None \<Rightarrow> True)"

definition is_document_file :: "json \<Rightarrow> bool" where
  "is_document_file j \<longleftrightarrow>
     req_prop json_is_string j ''name'' \<and> req_prop json_is_number j ''size'' \<and>
     opt_prop json_is_string j ''mimeType'' \<and> req_prop json_is_string j ''uri'' \<and>
     opt_prop json_is_string j ''base64''"

definition json_array_of :: "(json \<Rightarrow> bool) \<Rightarrow> json \<Rightarrow> bool" where
  "json_array_of ty j \<longleftrightarrow> (case j of JArr xs \<Rightarrow> list_all ty xs | _ \<Rightarrow> False)"

definition is_onboarding_data :: "json \<Rightarrow> bool" where
  "is_onboarding_data j \<longleftrightarrow>
     opt_prop json_is_string j ''id'' \<and> req_prop json_is_string j ''name'' \<and>
     req_prop json_is_string j ''email'' \<and> req_prop json_is_string j ''startDate'' \<and>
     req_prop (json_array_of is_document_file) j ''documents'' \<and>
     opt_prop json_is_string j ''createdAt'' \<and> opt_prop json_is_string j ''updatedAt''"

definition is_onboarding_response :: "json \<Rightarrow> bool" where
  "is_onboarding_response j \<longleftrightarrow>
     req_prop json_is_bool j ''success'' \<and> opt_prop is_onboarding_data j ''data'' \<and>
     opt_prop json_is_string j ''message'' \<and> opt_prop json_is_string j ''error''"

subsection \<open>Lemmas\<close>

lemma get_path_roundtrip:
  assumes "host \<noteq> []" "\<forall>c\<in>set host. host_char c" and "\<forall>c\<in>set oid. c \<notin> {CHR ''?'', CHR ''#''}"
  shows "url_pathname (build_full_path (''https://'' @ host) (endpoint_get_by_id oid)) = ''/api/onboard/'' @ oid"
  using full_path_pathname [OF assms(1,2), of "''pi/onboard/'' @ oid"] assms(3)
  by (simp add: endpoint_get_by_id_def)

lemma submit_path:
  assumes "host \<noteq> []" "\<forall>c\<in>set host. host_char c"
  shows "url_pathname (build_full_path (''https://'' @ host) endpoint_submit) = ''/api/onboard''"
  using full_path_pathname [OF assms, of "''pi/onboard''"] by (simp add: endpoint_submit_def)

text \<open>The mock's answer is an \<^verbatim>\<open>OnboardingResponse\<close> for every request.\<close>

lemma mock_submit_conforms: "is_onboarding_response (mock_submit_onboarding now c u d)"
  by (auto simp: mock_submit_onboarding_def is_onboarding_response_def is_onboarding_data_def req_prop_def
      opt_prop_def read_opt_def json_is_string_def json_is_bool_def json_array_of_def list_all_iff
      is_document_file_def encode_document_def opt_field_def json_is_number_def
      split: option.splits)

lemma stored_document_json_conv:
  "stored_document_json (stored_of_document doc) =
     JObj ([(''name'', JStr (df_name doc)), (''size'', JNum (int (df_size doc)))] @
           opt_field ''mimeType'' (map_option JStr (df_mime doc)) @
           opt_field ''base64'' (map_option JStr (sd_base64 (stored_of_document doc))))"
  by (simp add: stored_document_json_def stored_of_document_def opt_field_def)

text \<open>A stored document has every property of \<^verbatim>\<open>DocumentFile\<close> but
  \<^verbatim>\<open>uri\<close>.\<close>

lemma stored_document_no_uri:
  "\<exists>kvs. stored_document_json (stored_of_document doc) = JObj kvs \<and> map_of kvs ''uri'' = None \<and>
     (\<forall>u. is_document_file (JObj (kvs @ [(''uri'', JStr u)])))"
  by (cases "df_mime doc"; cases "sd_base64 (stored_of_document doc)")
     (auto simp: stored_document_json_conv opt_field_def is_document_file_def req_prop_def opt_prop_def
        read_opt_def json_is_string_def json_is_number_def map_of_eq_None_iff)

lemma not_document_file_no_uri: "read_opt j ''uri'' = None \<Longrightarrow> \<not> is_document_file j"
  by (simp add: is_document_file_def req_prop_def)

subsection \<open>Properties\<close>

text \<open>C39: the worker's answer to a submission is not the
  \<^verbatim>\<open>OnboardingResponse\<close> the client declares it to be: for every request that
  passes the client's check, the 201 body holds documents without the
  property \<^verbatim>\<open>uri\<close> that \<^verbatim>\<open>DocumentFile\<close> requires, and each of them
  becomes a \<^verbatim>\<open>DocumentFile\<close> once a \<^verbatim>\<open>uri\<close> is added.\<close>

theorem worker_answer_lacks_uri:
  assumes ok: "client_validate d = []"
  shows "\<exists>r j. handle_submit kv oid now (Some (encode_payload d sub)) =
             (kv(oid \<mapsto> KvRecord r, (''email:'' @ sr_email d) \<mapsto> KvId oid), Response 201 (RData r)) \<and>
           http_body_json now' (Response 201 (RData r)) = Some j \<and> \<not> is_onboarding_response j \<and>
           (\<forall>sd\<in>set (or_documents r). \<exists>kvs. stored_document_json sd = JObj kvs \<and> map_of kvs ''uri'' = None \<and>
              (\<forall>u. is_document_file (JObj (kvs @ [(''uri'', JStr u)]))))"
proof -
  obtain r where r: "handle_submit kv oid now (Some (encode_payload d sub)) =
      (kv(oid \<mapsto> KvRecord r, (''email:'' @ sr_email d) \<mapsto> KvId oid), Response 201 (RData r))"
    "or_documents r = map stored_of_document (sr_documents d)"
    using submit_encoded [OF ok] by blast
  obtain doc where doc: "doc \<in> set (sr_documents d)"
    using ok by (cases "sr_documents d") (auto simp: client_validate_def)
  obtain kvs where kvs: "stored_document_json (stored_of_document doc) = JObj kvs" "map_of kvs ''uri'' = None"
    using stored_document_no_uri by blast
  have "\<not> is_document_file (stored_document_json (stored_of_document doc))"
    using kvs by (intro not_document_file_no_uri) (simp add: read_opt_def map_of_eq_None_iff)
  then have "\<not> json_array_of is_document_file (JArr (map stored_document_json (or_documents r)))"
    using doc r(2) by (auto simp: json_array_of_def list_all_iff)
  then have "\<not> is_onboarding_response (the (http_body_json now' (Response 201 (RData r))))"
    by (simp add: http_body_json_def is_onboarding_response_def opt_prop_def read_opt_def record_json_def
        is_onboarding_data_def req_prop_def)
  then show ?thesis using r stored_document_no_uri
    by (intro exI [of _ r]) (auto simp: http_body_json_def)
qed

subsection \<open>Witnesses\<close>

theorem worker_answer_lacks_uri_witness:
  "\<exists>r j. handle_submit Map.empty ''onboard_1_a'' ''2026-01-01T00:00:00.000Z''
           (Some (encode_payload example_request ''2026-01-01T00:00:00.000Z'')) =
         (Map.empty(''onboard_1_a'' \<mapsto> KvRecord r, ''email:ann@example.com'' \<mapsto> KvId ''onboard_1_a''),
          Response 201 (RData r)) \<and>
         http_body_json ''2026-01-01T00:00:00.000Z'' (Response 201 (RData r)) = Some j \<and> \<not> is_onboarding_response j"
  using worker_answer_lacks_uri [OF example_request_valid, of Map.empty "''onboard_1_a''"
      "''2026-01-01T00:00:00.000Z''" "''2026-01-01T00:00:00.000Z''" "''2026-01-01T00:00:00.000Z''"]
  by (auto simp: example_request_def)

end
