(* ===== verification/FileSet.thy ===== *)
theory FileSet
  imports Prelude "HOL-Library.Word"
begin

text \<open>The file picker of \<^verbatim>\<open>src/unnamed/part_001\<close> (\<^verbatim>\<open>FilePicker\<close>): the
  selected files, the type test with the extension computed through a 32-bit
  unsigned shift, the validation of a list of files, and the handlers that add
  the documents a picker returns, remove one file, and clear the list.
  The handlers take \<^verbatim>\<open>formatFileSize\<close> as the parameter \<open>fmt\<close> (only the
  texts of messages depend on it); \<open>format_file_size\<close> below is its exact
  reading, and \<open>fp_view\<close> what the picker renders.\<close>

subsection \<open>Files, props and state\<close>

record selected_file =
  sf_uri :: js_string
  sf_name :: js_string
  sf_size :: nat
  sf_mime :: "js_string option"

record file_props =
  max_files :: nat
  max_size_per_file :: nat
  max_total_size :: nat
  allowed_types :: "js_string list"
  fp_disabled :: bool
  fp_required :: bool

record file_picker =
  fp_files :: "selected_file list"
  fp_error :: js_string
  fp_touched :: bool

text \<open>What \<^verbatim>\<open>DocumentPicker.getDocumentAsync\<close> resolves to: a cancellation,
  a list of assets (whose \<^verbatim>\<open>size\<close> may be missing), or a rejection, which the
  \<^verbatim>\<open>catch\<close> of the handler receives.\<close>

record asset =
  as_uri :: js_string
  as_name :: js_string
  as_size :: "nat option"
  as_mime :: "js_string option"

datatype pick_result = Canceled | Assets "asset list" | PickerFailure

datatype fp_output = FilesOnChange "selected_file list" | AlertBox js_string js_string

subsection \<open>File types\<close>

text \<open>\<^verbatim>\<open>filename.slice(((filename.lastIndexOf('.') - 1) >>> 0) + 2)\<close>: the
  shift converts to an unsigned 32-bit integer, so an absent dot (index -1)
  and a dot in front (index 0) give a start past the end of the name.\<close>

definition get_file_extension :: "js_string \<Rightarrow> js_string" where
  "get_file_extension filename =
     js_lower (drop (unat (word_of_int (js_last_index_of CHR ''.'' filename - 1) :: 32 word) + 2) filename)"

definition js_truthy_string :: "js_string option \<Rightarrow> bool" where
  "js_truthy_string s \<longleftrightarrow> (case s of Some v \<Rightarrow> v \<noteq> [] | None \<Rightarrow> False)"

definition mime_matches :: "js_string \<Rightarrow> js_string \<Rightarrow> bool" where
  "mime_matches mime allowed \<longleftrightarrow>
     allowed = mime \<or>
     (js_ends_with allowed ''/*'' \<and> js_starts_with mime (hd (js_split CHR ''/'' allowed) @ ''/''))"

definition extension_matches :: "js_string \<Rightarrow> js_string \<Rightarrow> bool" where
  "extension_matches ext allowed \<longleftrightarrow> js_starts_with allowed ''.'' \<and> drop 1 allowed = ext"

definition is_file_type_allowed :: "js_string list \<Rightarrow> js_string option \<Rightarrow> js_string option \<Rightarrow> bool" where
  "is_file_type_allowed allowed mime filename \<longleftrightarrow>
     ''*/*'' \<in> set allowed \<or>
     (js_truthy_string mime \<and> list_ex (mime_matches (the mime)) allowed) \<or>
     (js_truthy_string filename \<and> list_ex (extension_matches (get_file_extension (the filename))) allowed)"

subsection \<open>Validation of a list of files\<close>

definition total_size :: "selected_file list \<Rightarrow> nat" where
  "total_size fs = sum_list (map sf_size fs)"

definition validate_files :: "(nat \<Rightarrow> js_string) \<Rightarrow> file_props \<Rightarrow> selected_file list \<Rightarrow> js_string" where
  "validate_files fmt p fs =
     (if fp_required p \<and> fs = [] then ''At least one file is required''
      else if max_files p < length fs then ''Maximum '' @ js_int_string (int (max_files p)) @ '' file(s) allowed''
      else case find (\<lambda>f. max_size_per_file p < sf_size f) fs of
        Some f \<Rightarrow> sf_name f @ '' exceeds maximum size of '' @ fmt (max_size_per_file p)
      | None \<Rightarrow>
          if max_total_size p < total_size fs
          then ''Total size '' @ fmt (total_size fs) @ '' exceeds maximum of '' @ fmt (max_total_size p)
          else [])"

subsection \<open>The handlers\<close>

definition asset_file :: "asset \<Rightarrow> selected_file" where
  "asset_file a =
     \<lparr>sf_uri = as_uri a, sf_name = as_name a, sf_size = (case as_size a of Some n \<Rightarrow> n | None \<Rightarrow> 0),
      sf_mime = as_mime a\<rparr>"

definition asset_too_large :: "file_props \<Rightarrow> asset \<Rightarrow> bool" where
  "asset_too_large p a \<longleftrightarrow> (case as_size a of Some n \<Rightarrow> n \<noteq> 0 \<and> max_size_per_file p < n | None \<Rightarrow> False)"

text \<open>The \<^verbatim>\<open>for\<close> loop over \<^verbatim>\<open>result.assets\<close>: an asset of a type not allowed,
  or too large, raises an alert and is skipped (\<^verbatim>\<open>continue\<close>); the others
  become \<^verbatim>\<open>newFiles\<close>, in order.\<close>

fun filter_assets ::
  "(nat \<Rightarrow> js_string) \<Rightarrow> file_props \<Rightarrow> asset list \<Rightarrow> selected_file list \<times> fp_output list" where
  "filter_assets fmt p [] = ([], [])"
| "filter_assets fmt p (a # as) =
     (let (nf, al) = filter_assets fmt p as
      in if \<not> is_file_type_allowed (allowed_types p) (as_mime a) (Some (as_name a))
         then (nf, AlertBox ''Invalid File Type''
                  (as_name a @ '' is not an allowed file type.'' @ CHR 10 # ''Allowed: '' @
                   js_join_str '', '' (allowed_types p)) # al)
         else if asset_too_large p a
         then (nf, AlertBox ''File Too Large''
                  (as_name a @ '' ('' @ fmt (the (as_size a)) @ '') exceeds maximum size of '' @
                   fmt (max_size_per_file p)) # al)
         else (asset_file a # nf, al))"

text \<open>\<^verbatim>\<open>handlePickFiles\<close>, from the press of the button to the end of the
  handler, with the picker's answer as input.\<close>

definition handle_pick_files ::
  "(nat \<Rightarrow> js_string) \<Rightarrow> file_props \<Rightarrow> file_picker \<Rightarrow> pick_result \<Rightarrow> file_picker \<times> fp_output list" where
  "handle_pick_files fmt p s res =
     (let s1 = s\<lparr>fp_touched := True\<rparr>
      in if max_files p \<le> length (fp_files s)
         then (s1\<lparr>fp_error := ''Maximum '' @ js_int_string (int (max_files p)) @ '' file(s) allowed''\<rparr>,
               [AlertBox ''Limit Reached''
                  (''You can only select up to '' @ js_int_string (int (max_files p)) @ '' file(s)'')])
         else case res of
           Canceled \<Rightarrow> (s1, [])
         | PickerFailure \<Rightarrow> (s1, [AlertBox ''Error'' ''Failed to pick files. Please try again.''])
         | Assets as \<Rightarrow>
             (let (nf, al) = filter_assets fmt p as
              in if nf = [] then (s1, al)
                 else
                   (let updated = take (max_files p) (fp_files s @ nf);
                        e = validate_files fmt p updated
                    in if e = [] then (s1\<lparr>fp_error := e, fp_files := updated\<rparr>, al @ [FilesOnChange updated])
                       else (s1\<lparr>fp_error := e\<rparr>, al))))"

text \<open>\<^verbatim>\<open>files.filter((_, i) => i !== index)\<close>.\<close>

definition remove_index :: "nat \<Rightarrow> 'a list \<Rightarrow> 'a list" where
  "remove_index i xs = map fst (filter (\<lambda>(x, j). j \<noteq> i) (zip xs [0..<length xs]))"

definition handle_remove_file ::
  "(nat \<Rightarrow> js_string) \<Rightarrow> file_props \<Rightarrow> file_picker \<Rightarrow> nat \<Rightarrow> file_picker \<times> fp_output list" where
  "handle_remove_file fmt p s i =
     (let updated = remove_index i (fp_files s)
      in (s\<lparr>fp_files := updated, fp_error := validate_files fmt p updated\<rparr>, [FilesOnChange updated]))"

definition handle_clear_all :: "file_picker \<Rightarrow> file_picker \<times> fp_output list" where
  "handle_clear_all s = (s\<lparr>fp_files := [], fp_error := []\<rparr>, [FilesOnChange []])"

definition fp_has_error :: "file_picker \<Rightarrow> bool" where
  "fp_has_error s \<longleftrightarrow> fp_touched s \<and> fp_error s \<noteq> []"

definition fp_init :: "selected_file list \<Rightarrow> file_picker" where
  "fp_init v = \<lparr>fp_files = v, fp_error = [], fp_touched = False\<rparr>"

text \<open>The buttons that raise the events: the pick button is disabled when the
  picker is disabled or full, the remove buttons and \<^verbatim>\<open>Clear All\<close> when it is
  disabled; \<^verbatim>\<open>Clear All\<close> is shown only when there are files.\<close>

datatype fp_event = Pick pick_result | Remove nat | ClearAll

fun fp_step ::
  "(nat \<Rightarrow> js_string) \<Rightarrow> file_props \<Rightarrow> file_picker \<Rightarrow> fp_event \<Rightarrow> file_picker \<times> fp_output list" where
  "fp_step fmt p s (Pick r) =
     (if fp_disabled p \<or> max_files p \<le> length (fp_files s) then (s, []) else handle_pick_files fmt p s r)"
| "fp_step fmt p s (Remove i) =
     (if fp_disabled p \<or> length (fp_files s) \<le> i then (s, []) else handle_remove_file fmt p s i)"
| "fp_step fmt p s ClearAll =
     (if fp_disabled p \<or> fp_files s = [] then (s, []) else handle_clear_all s)"

fun fp_run ::
  "(nat \<Rightarrow> js_string) \<Rightarrow> file_props \<Rightarrow> file_picker \<Rightarrow> fp_event list \<Rightarrow> file_picker \<times> fp_output list" where
  "fp_run fmt p s [] = (s, [])"
| "fp_run fmt p s (e # es) =
     (let (s', out) = fp_step fmt p s e; (s'', out') = fp_run fmt p s' es in (s'', out @ out'))"

subsection \<open>Sizes and the display\<close>

text \<open>\<^verbatim>\<open>formatFileSize\<close>: the unit \<^verbatim>\<open>Math.floor(Math.log(bytes) / Math.log(1024))\<close>
  is the largest \<open>i\<close> with \<open>1024 ^ i \<le> bytes\<close>, and the number
  \<^verbatim>\<open>Math.round(bytes / 1024 ** i * 100) / 100\<close> is \<open>bytes * 100 / 1024 ^ i\<close>
  rounded half up, printed by \<^verbatim>\<open>String\<close> with at most two decimals.  The
  model computes exactly; below one tebibyte the quotient and the product are
  exact in double precision.  A unit past \<^verbatim>\<open>GB\<close> is \<^verbatim>\<open>sizes[4]\<close>, which is
  \<^verbatim>\<open>undefined\<close>.\<close>

function log1024 :: "nat \<Rightarrow> nat" where
  "log1024 b = (if b < 1024 then 0 else Suc (log1024 (b div 1024)))"
  by pat_completeness auto
termination by (relation "measure id") auto

declare log1024.simps [simp del]

definition centi_string :: "nat \<Rightarrow> js_string" where
  "centi_string n =
     (let q = n div 100; r = n mod 100
      in js_nat_string q @
         (if r = 0 then []
          else CHR ''.'' # (if r mod 10 = 0 then js_nat_string (r div 10) else js_pad_start 2 CHR ''0'' (js_nat_string r))))"

definition size_units :: "js_string list" where
  "size_units = [''Bytes'', ''KB'', ''MB'', ''GB'']"

definition format_file_size :: "nat \<Rightarrow> js_string" where
  "format_file_size b =
     (if b = 0 then ''0 Bytes''
      else let i = log1024 b; k = 1024 ^ i
           in centi_string ((200 * b + k) div (2 * k)) @ CHR '' '' #
              (if i < length size_units then size_units ! i else ''undefined''))"

text \<open>What the picker renders: the label with the required mark, the
  \<^verbatim>\<open>Clear All\<close> button (shown with files, enabled unless disabled), the helper
  text, the pick button (enabled, error style, label), the list of files with
  its title, one row per file (name, size, upper-cased MIME subtype after a
  bullet) and the total, the error, and the bullet items of the constraints.\<close>

record fp_display =
  fd_label :: js_string
  fd_helper :: "js_string option"

record file_row =
  fr_name :: js_string
  fr_size :: js_string
  fr_mime :: "js_string option"
  fr_remove_enabled :: bool

record fp_view =
  fv_label :: js_string
  fv_required_mark :: bool
  fv_clear_all :: "bool option"
  fv_helper :: "js_string option"
  fv_pick_enabled :: bool
  fv_pick_error_style :: bool
  fv_pick_label :: js_string
  fv_list :: "(js_string \<times> file_row list \<times> js_string) option"
  fv_error :: "js_string option"
  fv_constraints :: "js_string list"

definition mime_subtype :: "js_string option \<Rightarrow> js_string option" where
  "mime_subtype m =
     (case m of None \<Rightarrow> None
      | Some t \<Rightarrow> if t = [] then None
                  else Some (case js_split CHR ''/'' t of _ # x # _ \<Rightarrow> js_upper x | _ \<Rightarrow> ''undefined''))"

definition fp_view :: "(nat \<Rightarrow> js_string) \<Rightarrow> file_props \<Rightarrow> fp_display \<Rightarrow> file_picker \<Rightarrow> fp_view" where
  "fp_view fmt p d s =
     (let fs = fp_files s; has_error = fp_has_error s
      in \<lparr>fv_label = fd_label d, fv_required_mark = fp_required p,
          fv_clear_all = (if fs \<noteq> [] then Some (\<not> fp_disabled p) else None),
          fv_helper = (case fd_helper d of Some h \<Rightarrow> if h \<noteq> [] then Some h else None | None \<Rightarrow> None),
          fv_pick_enabled = (\<not> (fp_disabled p \<or> max_files p \<le> length fs)),
          fv_pick_error_style = has_error,
          fv_pick_label = (if fs = [] then ''Select Files''
                           else if max_files p \<le> length fs then ''Maximum Files Reached'' else ''Add More Files''),
          fv_list = (if fs = [] then None
                     else Some (''Selected Files ('' @ js_int_string (int (length fs)) @ CHR ''/'' #
                                  js_int_string (int (max_files p)) @ '')'',
                                map (\<lambda>f. \<lparr>fr_name = sf_name f, fr_size = fmt (sf_size f), fr_mime = mime_subtype (sf_mime f),
                                          fr_remove_enabled = \<not> fp_disabled p\<rparr>) fs,
                                ''Total: '' @ fmt (total_size fs) @ '' / '' @ fmt (max_total_size p))),
          fv_error = (if has_error then Some (fp_error s) else None),
          fv_constraints =
            [''Max '' @ js_int_string (int (max_files p)) @ '' file(s)'', ''Up to '' @ fmt (max_size_per_file p) @ '' each''] @
            (if allowed_types p \<noteq> [] \<and> ''*/*'' \<notin> set (allowed_types p)
             then [''Allowed: '' @ js_join_str '', '' (allowed_types p)] else [])\<rparr>)"

subsection \<open>The invariant, the reference extension and examples\<close>

text \<open>The specification's invariant of the file set: at most \<open>max_files\<close> files, each within the per-file limit, the total within the total limit.\<close>

definition fp_inv :: "file_props \<Rightarrow> file_picker \<Rightarrow> bool" where
  "fp_inv p s \<longleftrightarrow>
     length (fp_files s) \<le> max_files p \<and> list_all (\<lambda>f. sf_size f \<le> max_size_per_file p) (fp_files s) \<and>
     total_size (fp_files s) \<le> max_total_size p"

text \<open>An asset that the loop of \<^verbatim>\<open>handlePickFiles\<close> keeps.\<close>

definition asset_accepted :: "file_props \<Rightarrow> asset \<Rightarrow> bool" where
  "asset_accepted p a \<longleftrightarrow> is_file_type_allowed (allowed_types p) (as_mime a) (Some (as_name a)) \<and> \<not> asset_too_large p a"

text \<open>The extension as the specification describes it: the text after the last dot, when a dot occurs after the first character.\<close>

definition file_extension_spec :: "js_string \<Rightarrow> js_string" where
  "file_extension_spec f =
     (if CHR ''.'' \<in> set (drop 1 f) then js_lower (rev (takeWhile (\<lambda>x. x \<noteq> CHR ''.'') (rev f))) else [])"

text \<open>The default props of \<^verbatim>\<open>FilePicker\<close>, and two assets for the examples.\<close>

definition default_file_props :: file_props where
  "default_file_props =
     \<lparr>max_files = 3, max_size_per_file = 5 * 1024 * 1024, max_total_size = 15 * 1024 * 1024,
      allowed_types = [''*/*''], fp_disabled = False, fp_required = False\<rparr>"

definition pdf_asset :: "js_string \<Rightarrow> asset" where
  "pdf_asset n = \<lparr>as_uri = ''file:///'' @ n, as_name = n, as_size = Some 1000, as_mime = Some ''application/pdf''\<rparr>"

definition big_asset :: "js_string \<Rightarrow> asset" where
  "big_asset n = \<lparr>as_uri = ''file:///'' @ n, as_name = n, as_size = Some 6000000, as_mime = Some ''application/pdf''\<rparr>"

subsection \<open>Lemmas\<close>

lemma log1024_small: "b < 1024 \<Longrightarrow> log1024 b = 0"
  by (simp add: log1024.simps)

lemma log1024_big: "1024 \<le> b \<Longrightarrow> log1024 b = Suc (log1024 (b div 1024))"
  by (simp add: log1024.simps)

lemma log1024_bounds: "0 < b \<Longrightarrow> 1024 ^ log1024 b \<le> b \<and> b < 1024 ^ Suc (log1024 b)"
proof (induction b rule: log1024.induct)
  case (1 b)
  show ?case
  proof (cases "b < 1024")
    case True
    then show ?thesis using "1.prems" by (simp add: log1024.simps)
  next
    case False
    then have ih: "1024 ^ log1024 (b div 1024) \<le> b div 1024 \<and> b div 1024 < 1024 ^ Suc (log1024 (b div 1024))"
      using "1.IH" by simp
    have "1024 ^ log1024 (b div 1024) * 1024 \<le> b div 1024 * 1024"
      using ih by (intro mult_right_mono) simp_all
    also have "\<dots> \<le> b" by (rule div_times_less_eq_dividend)
    finally have lo: "1024 * 1024 ^ log1024 (b div 1024) \<le> b" by (simp add: mult.commute)
    have "b < 1024 ^ Suc (log1024 (b div 1024)) * 1024"
      using ih div_less_iff_less_mult [of 1024 b] by simp
    then have hi: "b < 1024 * 1024 ^ Suc (log1024 (b div 1024))" by (simp add: mult.commute)
    show ?thesis using False lo hi by (simp add: log1024.simps)
  qed
qed



lemma format_file_size_examples:
  "format_file_size 5242880 = ''5 MB''" "format_file_size 15728640 = ''15 MB''"
  "format_file_size 1000 = ''1000 Bytes''" "format_file_size 1048575 = ''1024 KB''"
  "format_file_size 1099511627776 = ''1 undefined''"
  by (simp_all add: format_file_size_def log1024_small log1024_big centi_string_def size_units_def
      js_nat_string.simps char_of_def bit_0)
lemma format_file_size_number:
  assumes "0 < b"
  shows "100 \<le> (200 * b + 1024 ^ log1024 b) div (2 * 1024 ^ log1024 b) \<and>
         (200 * b + 1024 ^ log1024 b) div (2 * 1024 ^ log1024 b) \<le> 102400"
proof -
  define k :: nat where "k = 1024 ^ log1024 b"
  have k: "0 < k" "k \<le> b" "b < 1024 * k" using log1024_bounds [OF assms] by (simp_all add: k_def)
  have "100 * (2 * k) \<le> 200 * b + k" using k by simp
  then have lo: "100 \<le> (200 * b + k) div (2 * k)" using k by (simp add: less_eq_div_iff_mult_less_eq)
  have "200 * b + k < 102401 * (2 * k)" using k by simp
  then have "(200 * b + k) div (2 * k) < 102401" using k by (simp add: div_less_iff_less_mult)
  with lo show ?thesis by (simp add: k_def)
qed
lemma fp_view_example:
  "fv_list (fp_view format_file_size default_file_props \<lparr>fd_label = ''Documents'', fd_helper = None\<rparr>
      (fp_init [\<lparr>sf_uri = ''file:///a.pdf'', sf_name = ''a.pdf'', sf_size = 2048, sf_mime = Some ''application/pdf''\<rparr>])) =
   Some (''Selected Files (1/3)'', [\<lparr>fr_name = ''a.pdf'', fr_size = ''2 KB'', fr_mime = Some ''PDF'', fr_remove_enabled = True\<rparr>],
         ''Total: 2 KB / 15 MB'')"
  by (simp add: fp_view_def fp_init_def default_file_props_def format_file_size_def log1024_small log1024_big
      centi_string_def size_units_def js_nat_string.simps char_of_def bit_0 mime_subtype_def js_upper_def
      js_upper_char_def total_size_def js_int_string_def fp_has_error_def Let_def)

lemma find_Some_in: "find P xs = Some x \<Longrightarrow> x \<in> set xs \<and> P x"
  by (induction xs) (auto split: if_splits)

lemma find_None_iff': "find P xs = None \<longleftrightarrow> (\<forall>x\<in>set xs. \<not> P x)"
  by (induction xs) auto

lemma validate_files_ok:
  "validate_files fmt p fs = [] \<longleftrightarrow>
   (fp_required p \<longrightarrow> fs \<noteq> []) \<and> length fs \<le> max_files p \<and>
   list_all (\<lambda>f. sf_size f \<le> max_size_per_file p) fs \<and> total_size fs \<le> max_total_size p"
proof (cases "find (\<lambda>f. max_size_per_file p < sf_size f) fs")
  case None
  then have "list_all (\<lambda>f. sf_size f \<le> max_size_per_file p) fs"
    by (simp add: find_None_iff' list_all_iff not_less)
  with None show ?thesis by (auto simp: validate_files_def)
next
  case (Some f)
  then have "\<not> list_all (\<lambda>f. sf_size f \<le> max_size_per_file p) fs"
    using find_Some_in [OF Some] by (auto simp: list_all_iff not_le)
  with Some show ?thesis by (auto simp: validate_files_def)
qed

lemma remove_index_from:
  "map fst (filter (\<lambda>(x, j). j \<noteq> i) (zip xs [k..<k + length xs])) =
   (if i < k then xs else take (i - k) xs @ drop (Suc (i - k)) xs)"
proof (induction xs arbitrary: k)
  case Nil
  then show ?case by simp
next
  case (Cons x xs)
  have "[k..<k + length (x # xs)] = k # [Suc k..<Suc k + length xs]"
    using upt_conv_Cons [of k "Suc (k + length xs)"] by simp
  then show ?case using Cons [of "Suc k"] by (auto simp: take_Cons' drop_Cons' Suc_diff_Suc)
qed

lemma remove_index_eq: "remove_index i xs = take i xs @ drop (Suc i) xs"
  using remove_index_from [of i xs 0] by (simp add: remove_index_def)

lemma total_size_append [simp]: "total_size (xs @ ys) = total_size xs + total_size ys"
  by (simp add: total_size_def)

lemma total_size_drop_le: "total_size (drop n xs) \<le> total_size xs"
  using total_size_append [of "take n xs" "drop n xs"] by simp

lemma total_size_take_drop: "i \<le> j \<Longrightarrow> total_size (take i xs) + total_size (drop j xs) \<le> total_size xs"
proof -
  assume "i \<le> j"
  then have "drop j xs = drop (j - i) (drop i xs)" by simp
  then have "total_size (drop j xs) \<le> total_size (drop i xs)" using total_size_drop_le by metis
  moreover have "total_size xs = total_size (take i xs) + total_size (drop i xs)"
    using total_size_append [of "take i xs" "drop i xs"] by simp
  ultimately show ?thesis by linarith
qed

lemma total_size_take: "total_size (take n xs) \<le> total_size xs"
  using total_size_append [of "take n xs" "drop n xs"] by simp

lemma fp_inv_remove: "fp_inv p s \<Longrightarrow> fp_inv p (s\<lparr>fp_files := remove_index i (fp_files s), fp_error := e\<rparr>)"
  using total_size_take_drop [of i "Suc i" "fp_files s"]
  by (auto simp: fp_inv_def remove_index_eq list_all_iff dest: in_set_takeD in_set_dropD)

lemma fp_inv_committed: "validate_files fmt p fs = [] \<Longrightarrow> fp_inv p (s\<lparr>fp_files := fs, fp_error := e\<rparr>)"
  by (simp add: validate_files_ok fp_inv_def)

lemma fp_inv_pick: "fp_inv p s \<Longrightarrow> fp_inv p (fst (handle_pick_files fmt p s r))"
  unfolding handle_pick_files_def
  by (auto simp: Let_def fp_inv_def validate_files_ok split: pick_result.splits prod.splits if_splits)

lemma fp_inv_step:
  assumes "fp_inv p s"
  shows "fp_inv p (fst (fp_step fmt p s e))"
proof (cases e)
  case (Pick r)
  then show ?thesis using assms fp_inv_pick [of p s fmt r] by simp
next
  case (Remove i)
  then show ?thesis using assms fp_inv_remove [where i = i] by (simp add: handle_remove_file_def Let_def)
next
  case ClearAll
  then show ?thesis using assms by (simp add: handle_clear_all_def fp_inv_def total_size_def)
qed

lemma filter_assets_no_change: "filter_assets fmt p as = (nf, al) \<Longrightarrow> FilesOnChange ds \<notin> set al"
  by (induction as arbitrary: nf al) (auto simp: Let_def split: prod.splits if_splits)

text \<open>The list a picker event reports through \<^verbatim>\<open>onChange\<close> is the list it now holds.\<close>

lemma fp_step_change_files:
  assumes "FilesOnChange ds \<in> set (snd (fp_step fmt p s e))"
  shows "ds = fp_files (fst (fp_step fmt p s e))"
proof (cases e)
  case (Pick r)
  then show ?thesis
    using assms
    by (auto dest: filter_assets_no_change simp: handle_pick_files_def Let_def split: if_splits pick_result.splits prod.splits)
qed (use assms in \<open>auto simp: handle_remove_file_def handle_clear_all_def Let_def split: if_splits\<close>)

lemma filter_assets_eq:
  "fst (filter_assets fmt p as) = map asset_file (filter (asset_accepted p) as) \<and>
   length (snd (filter_assets fmt p as)) = length (filter (\<lambda>a. \<not> asset_accepted p a) as)"
  by (induction as) (auto simp: asset_accepted_def Let_def split: prod.splits)

lemma asset_file_size: "\<not> asset_too_large p a \<Longrightarrow> sf_size (asset_file a) \<le> max_size_per_file p"
  by (auto simp: asset_too_large_def asset_file_def split: option.splits)

lemma js_lower_char_not_upper: "\<not> (65 \<le> (of_char (js_lower_char c) :: nat) \<and> (of_char (js_lower_char c) :: nat) \<le> 90)"
proof -
  have "of_char (char_of (n + 32) :: char) = (n + 32 :: nat)" if "n \<le> 222" for n :: nat
    using that by (simp add: of_char_of)
  then show ?thesis by (auto simp: js_lower_char_def Let_def)
qed

lemma js_lower_no_upper:
  "c \<in> set (js_lower s) \<Longrightarrow> \<not> (65 \<le> (of_char c :: nat) \<and> (of_char c :: nat) \<le> 90)"
  using js_lower_char_not_upper by (auto simp: js_lower_def)

subsection \<open>Properties\<close>

text \<open>C20: every event of the picker (pick, remove, clear all) keeps the invariant of the file set: at most \<open>max_files\<close> files, each within the per-file size limit, the total within the total limit.\<close>

theorem fp_step_inv:
  assumes "fp_inv p s"
  shows "fp_inv p (fst (fp_step fmt p s e))"
  using assms by (rule fp_inv_step)

text \<open>C21: when the picked documents all pass the type and size tests and fit the total, the list is cut to \<open>max_files\<close> and committed without error: the documents beyond the limit are dropped silently, where the specification expects the whole add rejected with a capacity error.\<close>

theorem pick_drops_excess_silently:
  assumes inv: "fp_inv p s" and room: "length (fp_files s) < max_files p" and ne: "as \<noteq> []"
    and ok: "list_all (asset_accepted p) as"
    and tot: "total_size (fp_files s @ map asset_file as) \<le> max_total_size p"
  shows "fp_files (fst (handle_pick_files fmt p s (Assets as))) = take (max_files p) (fp_files s @ map asset_file as) \<and>
         fp_error (fst (handle_pick_files fmt p s (Assets as))) = []"
proof -
  define upd where "upd = take (max_files p) (fp_files s @ map asset_file as)"
  have fa: "fst (filter_assets fmt p as) = map asset_file as"
    using filter_assets_eq [of fmt p as] ok by (simp add: list_all_iff filter_id_conv)
  have "list_all (\<lambda>f. sf_size f \<le> max_size_per_file p) (fp_files s @ map asset_file as)"
    using inv ok asset_file_size by (auto simp: fp_inv_def list_all_iff asset_accepted_def)
  then have sizes: "list_all (\<lambda>f. sf_size f \<le> max_size_per_file p) upd"
    by (auto simp: upd_def list_all_iff dest: in_set_takeD)
  have "upd \<noteq> []" using room ne by (simp add: upd_def)
  moreover have "total_size upd \<le> max_total_size p" using tot total_size_take unfolding upd_def by (metis order_trans)
  ultimately have "validate_files fmt p upd = []" using sizes by (simp add: validate_files_ok upd_def)
  then show ?thesis using room ne fa
    by (auto simp: handle_pick_files_def Let_def upd_def split: prod.splits)
qed

text \<open>C23: the extension computed through \<^verbatim>\<open>(lastIndexOf('.') - 1) >>> 0\<close> is the text after the last dot when a dot occurs after the first character, and empty otherwise, for every name of at most 4294967296 characters.\<close>

theorem get_file_extension_spec:
  assumes "length f \<le> 4294967296"
  shows "get_file_extension f = file_extension_spec f"
  using js_last_index_of_cases [of "CHR ''.''" f]
proof
  assume "CHR ''.'' \<notin> set f \<and> js_last_index_of CHR ''.'' f = -1"
  then show ?thesis using assms
    by (auto simp: get_file_extension_def file_extension_spec_def unat_word_of_int32 js_lower_def dest: in_set_dropD)
next
  assume "\<exists>k. js_last_index_of CHR ''.'' f = int k \<and> k < length f \<and> f ! k = CHR ''.'' \<and>
            CHR ''.'' \<notin> set (drop (Suc k) f)"
  then obtain k where k: "js_last_index_of CHR ''.'' f = int k" "k < length f" "f ! k = CHR ''.''"
    "CHR ''.'' \<notin> set (drop (Suc k) f)" by blast
  show ?thesis
  proof (cases k)
    case 0
    then have "CHR ''.'' \<notin> set (drop 1 f)" using k(4) by simp
    then show ?thesis using k(1) 0 assms
      by (simp add: get_file_extension_def file_extension_spec_def unat_minus_one32 js_lower_def)
  next
    case (Suc j)
    have "drop 1 f ! j = CHR ''.''" using k(2,3) Suc by simp
    moreover have "j < length (drop 1 f)" using k(2) Suc by simp
    ultimately have "CHR ''.'' \<in> set (drop 1 f)" by (metis nth_mem)
    moreover have "unat (word_of_int (int k - 1) :: 32 word) + 2 = Suc k"
      using Suc k(2) assms by (simp add: unat_of_nat)
    ultimately show ?thesis
      using k rev_takeWhile_last [OF k(2,3,4)]
      by (simp add: get_file_extension_def file_extension_spec_def)
  qed
qed

text \<open>C24: the extension is lower-cased before the comparison and the
  allowed pattern is not, so when every allowed pattern has an upper-case
  letter after its first character (such as \<^verbatim>\<open>.PDF\<close>) a file is never
  allowed by its name: it is allowed exactly when its MIME type matches a
  pattern.\<close>

theorem uppercase_extension_never_allowed:
  assumes "\<forall>a\<in>set allowed. \<exists>c\<in>set (drop 1 a). 65 \<le> (of_char c :: nat) \<and> (of_char c :: nat) \<le> 90"
  shows "is_file_type_allowed allowed mime (Some f) \<longleftrightarrow> js_truthy_string mime \<and> list_ex (mime_matches (the mime)) allowed"
proof -
  have "''*/*'' \<notin> set allowed" using assms by fastforce
  moreover have "\<not> extension_matches (get_file_extension f) a" if "a \<in> set allowed" for a
  proof
    assume "extension_matches (get_file_extension f) a"
    then have "drop 1 a = js_lower (drop (unat (word_of_int (js_last_index_of CHR ''.'' f - 1) :: 32 word) + 2) f)"
      by (simp add: extension_matches_def get_file_extension_def)
    then show False using assms that js_lower_no_upper by metis
  qed
  ultimately show ?thesis by (auto simp: is_file_type_allowed_def list_ex_iff)
qed

subsection \<open>Witnesses\<close>

theorem fp_step_inv_witness:
  "fp_inv default_file_props (fp_init []) \<and>
   fp_inv default_file_props (fst (fp_step (\<lambda>n. js_int_string (int n)) default_file_props (fp_init [])
     (Pick (Assets [pdf_asset ''a.pdf'']))))"
proof -
  have "fp_inv default_file_props (fp_init [])" by (simp add: fp_inv_def fp_init_def total_size_def)
  then show ?thesis using fp_step_inv by blast
qed

theorem pick_drops_excess_silently_witness:
  "fp_files (fst (handle_pick_files (\<lambda>n. js_int_string (int n)) default_file_props (fp_init [])
      (Assets [pdf_asset ''a.pdf'', pdf_asset ''b.pdf'', pdf_asset ''c.pdf'', pdf_asset ''d.pdf'']))) =
     map asset_file [pdf_asset ''a.pdf'', pdf_asset ''b.pdf'', pdf_asset ''c.pdf''] \<and>
   fp_error (fst (handle_pick_files (\<lambda>n. js_int_string (int n)) default_file_props (fp_init [])
      (Assets [pdf_asset ''a.pdf'', pdf_asset ''b.pdf'', pdf_asset ''c.pdf'', pdf_asset ''d.pdf'']))) = []"
proof -
  have acc: "asset_accepted default_file_props (pdf_asset n)" for n
    by (simp add: asset_accepted_def is_file_type_allowed_def default_file_props_def asset_too_large_def pdf_asset_def)
  have sz: "sf_size (asset_file (pdf_asset n)) = 1000" for n by (simp add: asset_file_def pdf_asset_def)
  have d: "max_files default_file_props = 3" "max_total_size default_file_props = 15728640"
    by (simp_all add: default_file_props_def)
  show ?thesis
    using pick_drops_excess_silently [of default_file_props "fp_init []"
        "[pdf_asset ''a.pdf'', pdf_asset ''b.pdf'', pdf_asset ''c.pdf'', pdf_asset ''d.pdf'']"
        "\<lambda>n. js_int_string (int n)"]
    by (simp add: acc sz d fp_inv_def fp_init_def total_size_def)
qed

theorem get_file_extension_spec_witness:
  "length ''report.PDF'' \<le> 4294967296 \<and> get_file_extension ''report.PDF'' = file_extension_spec ''report.PDF'' \<and>
   file_extension_spec ''report.PDF'' = ''pdf''"
proof -
  have "file_extension_spec ''report.PDF'' = ''pdf''"
    by (simp add: file_extension_spec_def js_lower_def js_lower_char_def char_of_def bit_0)
  then show ?thesis using get_file_extension_spec [of "''report.PDF''"] by simp
qed

theorem uppercase_extension_never_allowed_witness:
  "\<not> is_file_type_allowed [''.PDF''] None (Some ''report.PDF'')"
proof -
  have u: "\<forall>a\<in>set [''.PDF'']. \<exists>c\<in>set (drop 1 a). 65 \<le> (of_char c :: nat) \<and> (of_char c :: nat) \<le> 90"
    by simp
  show ?thesis using uppercase_extension_never_allowed [OF u, of None "''report.PDF''"] u
    by (simp add: js_truthy_string_def)
qed

end
