(* ===== verification/Screen.thy ===== *)
theory Screen
  imports Service FileSet TextField DateField
begin

text \<open>The form screen (\<^verbatim>\<open>OnboardingScreen\<close>, the second part of
  \<^verbatim>\<open>src/services/onboarding.service.ts\<close>): its state, \<^verbatim>\<open>isFormValid\<close>,
  the two halves of the asynchronous \<^verbatim>\<open>handleSubmit\<close> (the press, and the
  arrival of the answer of \<^verbatim>\<open>OnboardingService.submitOnboarding\<close>) and
  \<^verbatim>\<open>handleReset\<close>.  The screen is then composed with its controls: the
  e-mail text field through its callbacks (\<open>form_step\<close>), and the page with
  the file picker and the date field, whose \<^verbatim>\<open>onChange\<close> outputs become
  the screen's setters (\<open>page_step\<close>); the reachable pages keep the
  documents within the picker's limits.\<close>

subsection \<open>The screen\<close>

record screen =
  sc_name :: js_string
  sc_email :: js_string
  sc_start_date :: js_string
  sc_documents :: "selected_file list"
  sc_name_valid :: bool
  sc_email_valid :: bool
  sc_submitting :: bool
  sc_show_success :: bool
  sc_submitted :: "onboarding_record option"

datatype alert_text = AlertText js_string | AlertJson json

datatype sc_output = ScAlert js_string alert_text | SendRequest submit_request

definition sc_init :: screen where
  "sc_init =
     \<lparr>sc_name = [], sc_email = [], sc_start_date = [], sc_documents = [], sc_name_valid = False,
      sc_email_valid = False, sc_submitting = False, sc_show_success = False, sc_submitted = None\<rparr>"

definition is_form_valid :: "screen \<Rightarrow> bool" where
  "is_form_valid sc \<longleftrightarrow>
     js_trim (sc_name sc) \<noteq> [] \<and> js_trim (sc_email sc) \<noteq> [] \<and> sc_email_valid sc \<and>
     js_trim (sc_start_date sc) \<noteq> [] \<and> sc_documents sc \<noteq> []"

text \<open>The screen passes its \<^verbatim>\<open>SelectedFile\<close> list as \<^verbatim>\<open>DocumentFile\<close>s.\<close>

definition to_document :: "selected_file \<Rightarrow> document_file" where
  "to_document f =
     \<lparr>df_name = sf_name f, df_size = sf_size f, df_mime = sf_mime f, df_uri = sf_uri f, df_base64 = None\<rparr>"

definition screen_request :: "screen \<Rightarrow> submit_request" where
  "screen_request sc =
     \<lparr>sr_name = sc_name sc, sr_email = sc_email sc, sr_start_date = sc_start_date sc,
      sr_documents = map to_document (sc_documents sc)\<rparr>"

text \<open>The press of Submit: the check of the service, and either an alert or
  the request with \<^verbatim>\<open>isSubmitting\<close> set.\<close>

definition submit_press :: "screen \<Rightarrow> screen \<times> sc_output list" where
  "submit_press sc =
     (let errs = client_validate (screen_request sc)
      in if errs \<noteq> [] then (sc, [ScAlert ''Validation Error'' (AlertText (js_join_str [CHR 10] errs))])
         else (sc\<lparr>sc_submitting := True\<rparr>, [SendRequest (screen_request sc)]))"

text \<open>The answer arrives: the \<^verbatim>\<open>if (response.success)\<close> and the
  \<^verbatim>\<open>finally\<close>.\<close>

definition submit_answer :: "screen \<Rightarrow> ob_response \<Rightarrow> screen \<times> sc_output list" where
  "submit_answer sc r =
     (if resp_success r
      then (sc\<lparr>sc_submitted := resp_data r, sc_show_success := True, sc_submitting := False\<rparr>,
            [ScAlert ''Success''
               (AlertText (case resp_message r of Some m \<Rightarrow> if m \<noteq> [] then m else ''Onboarding submitted successfully!''
                          | None \<Rightarrow> ''Onboarding submitted successfully!''))])
      else (sc\<lparr>sc_submitting := False\<rparr>,
            [ScAlert ''Error''
               (case resp_error r of
                  Some e \<Rightarrow> if truthy (Some e) then AlertJson e else AlertText ''Failed to submit onboarding''
                | None \<Rightarrow> AlertText ''Failed to submit onboarding'')]))"

definition screen_reset :: "screen \<Rightarrow> screen" where
  "screen_reset sc =
     sc\<lparr>sc_name := [], sc_email := [], sc_start_date := [], sc_documents := [], sc_name_valid := False,
        sc_email_valid := False, sc_show_success := False, sc_submitted := None\<rparr>"

text \<open>The Submit button is disabled unless the form is valid and no
  submission is in flight.\<close>

definition submit_enabled :: "screen \<Rightarrow> bool" where
  "submit_enabled sc \<longleftrightarrow> is_form_valid sc \<and> \<not> sc_submitting sc"

subsection \<open>The form with its e-mail field\<close>

text \<open>The e-mail field of the screen: a \<^verbatim>\<open>CustomTextInput\<close> controlled by the
  screen (\<^verbatim>\<open>value={email} onChangeText={setEmail} onValidate={setIsEmailValid}\<close>)
  with the rules Required and Email.\<close>

definition email_rules :: "validation_rule list" where
  "email_rules =
     [\<lparr>vr_type = Required, vr_value = None, vr_message = ''Email is required'', vr_validator = None\<rparr>,
      \<lparr>vr_type = Email, vr_value = None, vr_message = ''Invalid email format'', vr_validator = None\<rparr>]"

definition email_props :: "screen \<Rightarrow> text_props" where
  "email_props sc = \<lparr>tp_validators = email_rules, tp_value = Some (sc_email sc)\<rparr>"

fun apply_email_output :: "screen \<Rightarrow> tf_output \<Rightarrow> screen" where
  "apply_email_output sc (OnChangeText t) = sc\<lparr>sc_email := t\<rparr>"
| "apply_email_output sc (OnValidate b) = sc\<lparr>sc_email_valid := b\<rparr>"

text \<open>The events of the form: an event of the e-mail field, the values the
  other controls report through their callbacks (\<^verbatim>\<open>setName\<close>,
  \<^verbatim>\<open>setIsNameValid\<close>, \<^verbatim>\<open>setStartDate\<close>, \<^verbatim>\<open>setDocuments\<close>), the press of
  Submit (when enabled), the arrival of the answer, and the reset.\<close>

datatype form_event = EmailEvent tf_event | NameText js_string | NameValid bool | DateText js_string
  | DocsChange "selected_file list" | PressSubmit | Answer ob_response | ResetForm

fun form_step :: "screen \<times> text_field \<Rightarrow> form_event \<Rightarrow> js_error + screen \<times> text_field" where
  "form_step (sc, fs) (EmailEvent e) =
     (case tf_step (email_props sc, fs) e of
        Inl err \<Rightarrow> Inl err
      | Inr ((_, fs'), outs) \<Rightarrow> Inr (foldl apply_email_output sc outs, fs'))"
| "form_step (sc, fs) (NameText t) = Inr (sc\<lparr>sc_name := t\<rparr>, fs)"
| "form_step (sc, fs) (NameValid b) = Inr (sc\<lparr>sc_name_valid := b\<rparr>, fs)"
| "form_step (sc, fs) (DateText t) = Inr (sc\<lparr>sc_start_date := t\<rparr>, fs)"
| "form_step (sc, fs) (DocsChange ds) = Inr (sc\<lparr>sc_documents := ds\<rparr>, fs)"
| "form_step (sc, fs) PressSubmit = Inr (if submit_enabled sc then fst (submit_press sc) else sc, fs)"
| "form_step (sc, fs) (Answer r) = Inr (fst (submit_answer sc r), fs)"
| "form_step (sc, fs) ResetForm = Inr (screen_reset sc, fs)"

inductive form_reach :: "screen \<times> text_field \<Rightarrow> bool" where
  init: "form_reach (sc_init, tf_init)"
| step: "form_reach c \<Longrightarrow> form_step c e = Inr c' \<Longrightarrow> form_reach c'"

fun form_run :: "screen \<times> text_field \<Rightarrow> form_event list \<Rightarrow> js_error + screen \<times> text_field" where
  "form_run c [] = Inr c"
| "form_run c (e # es) = (case form_step c e of Inl err \<Rightarrow> Inl err | Inr c' \<Rightarrow> form_run c' es)"

subsection \<open>The page: the form with its pickers\<close>

text \<open>The whole screen: the form with its e-mail field, the
  \<^verbatim>\<open>FilePicker\<close> (\<^verbatim>\<open>value={documents} onChange={setDocuments}\<close>, at most
  three files of 5 MB, 15 MB in all, any type, required) and the
  \<^verbatim>\<open>CalendarPicker\<close> (\<^verbatim>\<open>value={startDate} onChange={setStartDate}\<close>, with
  the props of \<open>screen_date_props\<close> read from the clock at each render).
  Both pickers keep their own state, initialised from the value prop at
  mount; their \<^verbatim>\<open>onChange\<close> calls become the form's events.  The name
  field is represented by the values it reports.\<close>

definition screen_file_props :: file_props where
  "screen_file_props =
     \<lparr>max_files = 3, max_size_per_file = 5 * 1024 * 1024, max_total_size = 15 * 1024 * 1024,
      allowed_types = [''*/*''], fp_disabled = False, fp_required = True\<rparr>"

record page =
  pg_form :: "screen \<times> text_field"
  pg_files :: file_picker
  pg_date :: date_field

definition page_init :: page where
  "page_init = \<lparr>pg_form = (sc_init, tf_init), pg_files = fp_init [], pg_date = df_init []\<rparr>"

datatype page_event = PEmail tf_event | PName js_string | PNameValid bool | PDate int df_event
  | PFiles fp_event | PPress | PAnswer ob_response | PReset

fun file_callback :: "fp_output \<Rightarrow> form_event list" where
  "file_callback (FilesOnChange ds) = [DocsChange ds]"
| "file_callback (AlertBox t m) = []"

fun date_callback :: "df_output \<Rightarrow> form_event" where
  "date_callback (DateOnChange t) = DateText t"

definition with_form :: "page \<Rightarrow> js_error + screen \<times> text_field \<Rightarrow> js_error + page" where
  "with_form pg r = (case r of Inl err \<Rightarrow> Inl err | Inr c \<Rightarrow> Inr (pg\<lparr>pg_form := c\<rparr>))"

fun page_step :: "int \<Rightarrow> page \<Rightarrow> page_event \<Rightarrow> js_error + page" where
  "page_step tz pg (PEmail e) = with_form pg (form_step (pg_form pg) (EmailEvent e))"
| "page_step tz pg (PName t) = with_form pg (form_step (pg_form pg) (NameText t))"
| "page_step tz pg (PNameValid b) = with_form pg (form_step (pg_form pg) (NameValid b))"
| "page_step tz pg (PDate now e) =
     (case df_step (screen_date_props now) tz (pg_date pg) e of
        Inl err \<Rightarrow> Inl err
      | Inr (d, outs) \<Rightarrow> with_form (pg\<lparr>pg_date := d\<rparr>) (form_run (pg_form pg) (map date_callback outs)))"
| "page_step tz pg (PFiles e) =
     (let (f, outs) = fp_step format_file_size screen_file_props (pg_files pg) e
      in with_form (pg\<lparr>pg_files := f\<rparr>) (form_run (pg_form pg) (concat (map file_callback outs))))"
| "page_step tz pg PPress = with_form pg (form_step (pg_form pg) PressSubmit)"
| "page_step tz pg (PAnswer r) = with_form pg (form_step (pg_form pg) (Answer r))"
| "page_step tz pg PReset = with_form pg (form_step (pg_form pg) ResetForm)"

inductive page_reach :: "int \<Rightarrow> page \<Rightarrow> bool" for tz where
  init: "page_reach tz page_init"
| step: "page_reach tz pg \<Longrightarrow> page_step tz pg e = Inr pg' \<Longrightarrow> page_reach tz pg'"

fun page_run :: "int \<Rightarrow> page \<Rightarrow> page_event list \<Rightarrow> js_error + page" where
  "page_run tz pg [] = Inr pg"
| "page_run tz pg (e # es) = (case page_step tz pg e of Inl err \<Rightarrow> Inl err | Inr pg' \<Rightarrow> page_run tz pg' es)"

definition files_within :: "file_props \<Rightarrow> selected_file list \<Rightarrow> bool" where
  "files_within p fs \<longleftrightarrow>
     length fs \<le> max_files p \<and> list_all (\<lambda>f. sf_size f \<le> max_size_per_file p) fs \<and> total_size fs \<le> max_total_size p"

definition page_inv :: "page \<Rightarrow> bool" where
  "page_inv pg \<longleftrightarrow> fp_inv screen_file_props (pg_files pg) \<and> files_within screen_file_props (sc_documents (fst (pg_form pg)))"

subsection \<open>The e-mail validity the screen holds\<close>

text \<open>The screen holds \<^verbatim>\<open>isEmailValid\<close> only for a touched field whose current text passes the e-mail rules.\<close>

definition email_inv :: "screen \<times> text_field \<Rightarrow> bool" where
  "email_inv c \<longleftrightarrow>
     (sc_email_valid (fst c) \<longrightarrow> tf_touched (snd c) \<and> validate email_rules (sc_email (fst c)) = Inr [])"

subsection \<open>Lemmas\<close>

lemma validate_email_rules:
  "validate email_rules t =
     Inr ((if js_trim t = [] then [''Email is required''] else []) @
          (if t \<noteq> [] \<and> \<not> email_regex_test t then [''Invalid email format''] else []))"
  by (simp add: email_rules_def rule_fails_def)

lemma email_inv_step: "email_inv c \<Longrightarrow> form_step c e = Inr c' \<Longrightarrow> email_inv c'"
proof (induction c e rule: form_step.induct)
  case (1 sc fs e)
  then show ?case
  proof (cases e)
    case (Change t)
    then show ?thesis using 1
      by (auto simp: email_inv_def handle_change_text_def validate_email_rules email_props_def Let_def
          split: if_splits)
  next
    case Blur
    then show ?thesis using 1
      by (auto simp: email_inv_def handle_blur_def validate_email_rules email_props_def tf_value_def)
  qed (use 1 in \<open>auto simp: email_inv_def handle_focus_def\<close>)
next
  case (6 sc fs)
  then show ?case
    by (auto simp: email_inv_def submit_press_def Let_def split: if_splits)
next
  case (7 sc fs r)
  then show ?case by (auto simp: email_inv_def submit_answer_def split: if_splits)
next
  case (8 sc fs)
  then show ?case by (auto simp: email_inv_def screen_reset_def)
qed (auto simp: email_inv_def)

lemma form_run_reach: "form_reach c \<Longrightarrow> form_run c es = Inr c' \<Longrightarrow> form_reach c'"
proof (induction es arbitrary: c)
  case (Cons e es)
  then show ?case by (auto intro: form_reach.step split: sum.splits)
qed simp

lemma email_example: "email_regex_test ''ann@example.com''"
  by (simp add: email_regex_test_def is_js_space_def)

lemma fp_inv_files_within: "fp_inv p s \<longleftrightarrow> files_within p (fp_files s)"
  by (simp add: fp_inv_def files_within_def)

lemma apply_email_output_docs [simp]: "sc_documents (apply_email_output sc out) = sc_documents sc"
  by (cases out) simp_all

lemma foldl_email_output_docs [simp]: "sc_documents (foldl apply_email_output sc outs) = sc_documents sc"
  by (induction outs arbitrary: sc) simp_all

lemma form_step_docs:
  "form_step c e = Inr c' \<Longrightarrow> (\<forall>ds. e \<noteq> DocsChange ds) \<Longrightarrow> e \<noteq> ResetForm \<Longrightarrow>
   sc_documents (fst c') = sc_documents (fst c)"
proof (induction c e rule: form_step.induct)
  case (1 sc fs e)
  then show ?case
    by (auto split: sum.splits prod.splits)
qed (auto simp: submit_press_def submit_answer_def Let_def split: if_splits)

lemma form_run_dates:
  "form_run c (map date_callback outs) = Inr c' \<Longrightarrow> sc_documents (fst c') = sc_documents (fst c)"
proof (induction outs arbitrary: c)
  case (Cons out outs)
  obtain t where "out = DateOnChange t" by (cases out)
  then show ?case using Cons by (cases c) (auto split: sum.splits)
qed simp

lemma form_run_files:
  assumes "form_run c (concat (map file_callback outs)) = Inr c'"
    and "\<forall>ds. FilesOnChange ds \<in> set outs \<longrightarrow> files_within p ds"
    and "files_within p (sc_documents (fst c))"
  shows "files_within p (sc_documents (fst c'))"
  using assms
proof (induction outs arbitrary: c)
  case (Cons out outs)
  show ?case
  proof (cases out)
    case (FilesOnChange ds)
    then show ?thesis using Cons by (cases c) (auto split: sum.splits)
  next
    case (AlertBox t m)
    then show ?thesis using Cons by auto
  qed
qed simp

lemma page_inv_step:
  assumes "page_inv pg" and "page_step tz pg e = Inr pg'"
  shows "page_inv pg'"
proof (cases e)
  case (PFiles fe)
  obtain f outs where fo: "fp_step format_file_size screen_file_props (pg_files pg) fe = (f, outs)" by fastforce
  have fi: "fp_inv screen_file_props f"
    using fp_inv_step [of screen_file_props "pg_files pg" format_file_size fe] assms(1) fo by (simp add: page_inv_def)
  have "\<forall>ds. FilesOnChange ds \<in> set outs \<longrightarrow> files_within screen_file_props ds"
    using fp_step_change_files [of _ format_file_size screen_file_props "pg_files pg" fe] fo fi
    by (auto simp: fp_inv_files_within)
  then show ?thesis
    using assms PFiles fo fi form_run_files [of "pg_form pg" outs] by (auto simp: page_inv_def with_form_def split: sum.splits)
next
  case (PDate now de)
  then show ?thesis
    using assms form_run_dates [of "pg_form pg"] by (auto simp: page_inv_def with_form_def split: sum.splits prod.splits)
next
  case PReset
  then show ?thesis
    using assms by (cases "pg_form pg") (auto simp: page_inv_def with_form_def screen_reset_def files_within_def total_size_def)
qed (use assms form_step_docs [of "pg_form pg"] in \<open>auto simp: page_inv_def with_form_def split: sum.splits\<close>)

lemma page_run_reach: "page_reach tz pg \<Longrightarrow> page_run tz pg es = Inr pg' \<Longrightarrow> page_reach tz pg'"
proof (induction es arbitrary: pg)
  case (Cons e es)
  then show ?case by (auto intro: page_reach.step split: sum.splits)
qed simp

lemma page_run_append:
  "page_run tz pg (xs @ ys) = (case page_run tz pg xs of Inl e \<Rightarrow> Inl e | Inr p \<Rightarrow> page_run tz p ys)"
  by (induction xs arbitrary: pg) (auto split: sum.splits)

end
