(* ===== verification/ScreenView.thy ===== *)
theory ScreenView
  imports Screen Counter
begin

text \<open>What the form screen renders (the JSX of \<^verbatim>\<open>OnboardingScreen\<close>,
  \<^verbatim>\<open>src/services/onboarding.service.ts\<close>): the success card built from the
  submitted data, the Submit button with its spinner, the Start New
  Submission button and the year of the footer.  The card prints each
  document's size with \<^verbatim>\<open>(doc.size / 1024).toFixed(2)\<close> and renders the
  values it reads from the answer as React children.  Two built-ins are
  inputs: \<^verbatim>\<open>StringToNumber\<close>, which the division applies to a size that is
  not a number, and the local date and time \<^verbatim>\<open>toLocaleString\<close> prints.\<close>

subsection \<open>Numbers\<close>

text \<open>\<^verbatim>\<open>Number.prototype.toFixed(f)\<close> (ECMA-262, 21.1.3.3) of a number,
  \<open>None\<close> being NaN: the sign, then the integer nearest to the magnitude
  times 10 to the f (the larger of two), printed with at least one digit
  before the point and f after it; from 10 to the 21 on, the number's own
  string, which \<open>num\<close> gives.\<close>

definition js_to_fixed :: "(rat \<Rightarrow> js_string) \<Rightarrow> nat \<Rightarrow> rat option \<Rightarrow> js_string" where
  "js_to_fixed num f v =
     (case v of
        None \<Rightarrow> ''NaN''
      | Some x \<Rightarrow>
          (let s = (if x < 0 then ''-'' else []); a = \<bar>x\<bar>
           in if 10 ^ 21 \<le> a then s @ num a
              else
                (let m = js_pad_start (f + 1) CHR ''0'' (js_int_string \<lfloor>a * 10 ^ f + 1 / 2\<rfloor>)
                 in s @ (if f = 0 then m else take (length m - f) m @ ''.'' @ drop (length m - f) m))))"

text \<open>\<^verbatim>\<open>String(v)\<close> of a JSON value, as \<^verbatim>\<open>ToPrimitive\<close> gives it: an array
  joins its elements with commas, \<^verbatim>\<open>null\<close> elements as empty strings.\<close>

fun json_string :: "json \<Rightarrow> js_string" where
  "json_string JNull = ''null''"
| "json_string (JBool b) = (if b then ''true'' else ''false'')"
| "json_string (JNum n) = js_int_string n"
| "json_string (JStr s) = s"
| "json_string (JArr xs) = js_join CHR '','' (map (\<lambda>x. if x = JNull then [] else json_string x) xs)"
| "json_string (JObj ps) = ''[object Object]''"

text \<open>\<^verbatim>\<open>ToNumber\<close> of a property read from the answer (\<open>None\<close> is
  \<^verbatim>\<open>undefined\<close>, and a result \<open>None\<close> is NaN); strings go through
  \<open>str_num\<close>.\<close>

definition json_to_number :: "(js_string \<Rightarrow> rat option) \<Rightarrow> json option \<Rightarrow> rat option" where
  "json_to_number str_num v =
     (case v of
        None \<Rightarrow> None
      | Some JNull \<Rightarrow> Some 0
      | Some (JBool b) \<Rightarrow> Some (if b then 1 else 0)
      | Some (JNum n) \<Rightarrow> Some (of_int n)
      | Some j \<Rightarrow> str_num (json_string j))"

subsection \<open>React children\<close>

text \<open>A value rendered inside \<^verbatim>\<open>Text\<close>: \<^verbatim>\<open>null\<close>, \<^verbatim>\<open>undefined\<close> and
  booleans render nothing, numbers and strings their text, arrays their
  elements in order, and an object throws.\<close>

fun render_all :: "('a \<Rightarrow> js_error + 'b) \<Rightarrow> 'a list \<Rightarrow> js_error + 'b list" where
  "render_all f [] = Inr []"
| "render_all f (x # xs) =
     (case f x of Inl e \<Rightarrow> Inl e | Inr y \<Rightarrow> (case render_all f xs of Inl e \<Rightarrow> Inl e | Inr ys \<Rightarrow> Inr (y # ys)))"

fun jsx_text :: "json \<Rightarrow> js_error + js_string" where
  "jsx_text JNull = Inr []"
| "jsx_text (JBool b) = Inr []"
| "jsx_text (JNum n) = Inr (js_int_string n)"
| "jsx_text (JStr s) = Inr s"
| "jsx_text (JArr xs) = map_sum id concat (render_all id (map jsx_text xs))"
| "jsx_text (JObj ps) = Inl (PlainError ''Objects are not valid as a React child'')"

definition jsx_opt :: "json option \<Rightarrow> js_error + js_string" where
  "jsx_opt v = (case v of None \<Rightarrow> Inr [] | Some j \<Rightarrow> jsx_text j)"

subsection \<open>The success card and the buttons\<close>

text \<open>A line of Documents Uploaded, \<^verbatim>\<open>{doc.name} ({(doc.size / 1024).toFixed(2)} KB)\<close>
  (the leading bullet glyph is not kept).\<close>

definition document_line ::
  "(rat \<Rightarrow> js_string) \<Rightarrow> (js_string \<Rightarrow> rat option) \<Rightarrow> stored_document \<Rightarrow> js_error + js_string" where
  "document_line num str_num d =
     map_sum id (\<lambda>n. n @ '' ('' @ js_to_fixed num 2 (map_option (\<lambda>x. x / 1024) (json_to_number str_num (sd_size d))) @ '' KB)'')
       (jsx_opt (sd_name d))"

record success_card =
  card_id :: js_string
  card_name :: js_string
  card_email :: js_string
  card_start_date :: js_string
  card_documents :: "js_string list"
  card_submitted_at :: js_string

definition success_card ::
  "(rat \<Rightarrow> js_string) \<Rightarrow> (js_string \<Rightarrow> rat option) \<Rightarrow> (js_string \<Rightarrow> js_string) \<Rightarrow> onboarding_record \<Rightarrow>
   js_error + success_card" where
  "success_card num str_num locale r =
     map_sum id (\<lambda>ds. \<lparr>card_id = or_id r, card_name = or_name r, card_email = or_email r,
                       card_start_date = or_start_date r, card_documents = ds,
                       card_submitted_at = locale (or_created_at r)\<rparr>)
       (render_all (document_line num str_num) (or_documents r))"

record screen_view =
  sv_card :: "success_card option"
  sv_submit_enabled :: bool
  sv_submit_spinner :: bool
  sv_reset_button :: bool
  sv_year :: int

definition screen_view ::
  "(rat \<Rightarrow> js_string) \<Rightarrow> (js_string \<Rightarrow> rat option) \<Rightarrow> (js_string \<Rightarrow> js_string) \<Rightarrow> int \<Rightarrow> int \<Rightarrow> screen \<Rightarrow>
   js_error + screen_view" where
  "screen_view num str_num locale tz now sc =
     (let card = (case sc_submitted sc of
                    Some r \<Rightarrow> if sc_show_success sc then map_sum id Some (success_card num str_num locale r) else Inr None
                  | None \<Rightarrow> Inr None)
      in map_sum id (\<lambda>c. \<lparr>sv_card = c, sv_submit_enabled = submit_enabled sc, sv_submit_spinner = sc_submitting sc,
                          sv_reset_button = sc_show_success sc, sv_year = fst (local_civil tz now)\<rparr>) card)"

text \<open>The counter the screen shows: \<^verbatim>\<open>targetNumber={100}\<close>,
  \<^verbatim>\<open>durationSec={10}\<close>, an \<^verbatim>\<open>onComplete\<close> that logs, and the easing
  \<^verbatim>\<open>easeInOut\<close>, a parameter of the counter's frames.\<close>

definition screen_counter_props :: counter_props where
  "screen_counter_props = \<lparr>target_number = 100, duration_sec = 10, has_on_complete = True\<rparr>"

text \<open>The size in KB to two places, rounded half up, in integer arithmetic:
  the reference the printed sizes are compared with.\<close>

definition kb_reference :: "nat \<Rightarrow> js_string" where
  "kb_reference n =
     (let q = (200 * n + 1024) div 2048
      in js_nat_string (q div 100) @ ''.'' @ js_pad_start 2 CHR ''0'' (js_nat_string (q mod 100)))"

subsection \<open>Lemmas\<close>

lemma js_nat_string_ge10: "10 \<le> n \<Longrightarrow> js_nat_string n = js_nat_string (n div 10) @ [char_of (48 + n mod 10)]"
  by (subst js_nat_string.simps) simp

lemma js_nat_string_lt10: "n < 10 \<Longrightarrow> js_nat_string n = [char_of (48 + n)]"
  by (subst js_nat_string.simps) simp

lemma char_of_48: "char_of (48::nat) = CHR ''0''"
  by (simp add: char_of_def bit_0)

lemma mod_100_digits: "(n::nat) mod 100 = 10 * (n div 10 mod 10) + n mod 10"
  using mod_mult2_eq [of n 10 10] by simp

lemma pad2_nat_string:
  "js_pad_start 2 CHR ''0'' (js_nat_string (n mod 100)) = [char_of (48 + n div 10 mod 10), char_of (48 + n mod 10)]"
proof (cases "n div 10 mod 10 = 0")
  case True
  then have "n mod 100 = n mod 10" using mod_100_digits [of n] by simp
  then show ?thesis using True by (simp add: js_nat_string_lt10 js_pad_start_def char_of_48 numeral_2_eq_2)
next
  case False
  then have ge: "10 \<le> n mod 100" using mod_100_digits [of n] by simp
  have "n mod 100 div 10 = n div 10 mod 10" "n mod 100 mod 10 = n mod 10"
    using mod_100_digits [of n] by simp_all
  then show ?thesis using ge by (simp add: js_nat_string_ge10 js_nat_string_lt10 js_pad_start_def)
qed

lemma pad3_nat_string:
  "js_pad_start 3 CHR ''0'' (js_nat_string n) = js_nat_string (n div 100) @ js_pad_start 2 CHR ''0'' (js_nat_string (n mod 100))"
proof (cases "100 \<le> n")
  case True
  then have "js_nat_string n = js_nat_string (n div 100) @ [char_of (48 + n div 10 mod 10), char_of (48 + n mod 10)]"
    by (simp add: js_nat_string_ge10 div_mult2_eq [symmetric])
  moreover have "3 \<le> length (js_nat_string n)"
    using calculation js_nat_string_not_Nil [of "n div 100"] by (cases "js_nat_string (n div 100)") simp_all
  ultimately show ?thesis by (simp only: pad2_nat_string) (simp add: js_pad_start_def)
next
  case False
  have z: "js_nat_string 0 = ''0''" by (simp add: js_nat_string_lt10 char_of_48)
  show ?thesis
  proof (cases "n < 10")
    case True
    then show ?thesis using False z by (simp add: js_nat_string_lt10 js_pad_start_def numeral_3_eq_3 numeral_2_eq_2)
  next
    case ge: False
    then have "length (js_nat_string n) = 2" using False by (simp add: js_nat_string_ge10 js_nat_string_lt10)
    then show ?thesis using False z by (simp add: js_pad_start_def numeral_3_eq_3 numeral_2_eq_2)
  qed
qed

lemma js_to_fixed_two:
  assumes "0 \<le> x" "x < 10 ^ 21"
  shows "js_to_fixed num 2 (Some x) =
         js_int_string (\<lfloor>x * 100 + 1 / 2\<rfloor> div 100) @ ''.'' @
         js_pad_start 2 CHR ''0'' (js_int_string (\<lfloor>x * 100 + 1 / 2\<rfloor> mod 100))"
proof -
  define k where "k = \<lfloor>x * 100 + 1 / 2\<rfloor>"
  have "0 \<le> k" using assms by (simp add: k_def)
  then obtain n where n: "k = int n" by (metis nonneg_int_cases)
  have m: "js_pad_start 3 CHR ''0'' (js_int_string k) =
           js_nat_string (n div 100) @ js_pad_start 2 CHR ''0'' (js_nat_string (n mod 100))"
    by (simp add: n js_int_string_def pad3_nat_string)
  have l: "length (js_pad_start 2 CHR ''0'' (js_nat_string (n mod 100))) = 2" by (simp add: pad2_nat_string)
  have "js_to_fixed num 2 (Some x) =
        (let m = js_pad_start 3 CHR ''0'' (js_int_string k) in take (length m - 2) m @ ''.'' @ drop (length m - 2) m)"
    using assms by (simp add: js_to_fixed_def k_def)
  also have "\<dots> = js_nat_string (n div 100) @ ''.'' @ js_pad_start 2 CHR ''0'' (js_nat_string (n mod 100))"
    using m l by (simp add: Let_def)
  moreover have "int n div 100 = int (n div 100)" "int n mod 100 = int (n mod 100)" by (simp_all add: zdiv_int zmod_int)
  ultimately show ?thesis by (simp add: k_def [symmetric] n js_int_string_def)
qed

lemma floor_kb: "\<lfloor>(of_nat n :: rat) / 1024 * 100 + 1 / 2\<rfloor> = int ((200 * n + 1024) div 2048)"
proof -
  have "(of_nat n :: rat) / 1024 * 100 + 1 / 2 = of_nat (200 * n + 1024) / of_nat 2048" by simp
  then show ?thesis by (simp only: floor_divide_of_nat_eq)
qed

lemma size_kb_fixed:
  assumes "n < 1024 * 10 ^ 21"
  shows "js_to_fixed num 2 (Some (of_nat n / 1024)) = kb_reference n"
proof -
  define q where "q = (200 * n + 1024) div 2048"
  have "(of_nat n :: rat) / 1024 < 10 ^ 21" using assms by (simp add: divide_less_eq)
  then have "js_to_fixed num 2 (Some (of_nat n / 1024)) =
             js_int_string (\<lfloor>(of_nat n :: rat) / 1024 * 100 + 1 / 2\<rfloor> div 100) @ ''.'' @
             js_pad_start 2 CHR ''0'' (js_int_string (\<lfloor>(of_nat n :: rat) / 1024 * 100 + 1 / 2\<rfloor> mod 100))"
    by (intro js_to_fixed_two) simp_all
  also have "\<dots> = js_int_string (int q div 100) @ ''.'' @ js_pad_start 2 CHR ''0'' (js_int_string (int q mod 100))"
    by (simp only: floor_kb q_def)
  also have "\<dots> = kb_reference n"
    by (simp add: kb_reference_def q_def [symmetric] Let_def js_int_string_def zdiv_int [symmetric] zmod_int [symmetric]
        of_nat_numeral [symmetric, where 'a = int] del: of_nat_numeral)
  finally show ?thesis .
qed

lemma document_line_stored:
  assumes "df_size d < 1024 * 10 ^ 21"
  shows "document_line num str_num (stored_of_document d) = Inr (df_name d @ '' ('' @ kb_reference (df_size d) @ '' KB)'')"
  using size_kb_fixed [OF assms]
  by (simp add: document_line_def stored_of_document_def jsx_opt_def json_to_number_def)

lemma success_card_stored:
  assumes "or_documents r = map stored_of_document ds" and "\<forall>d\<in>set ds. df_size d < 1024 * 10 ^ 21"
  shows "success_card num str_num locale r =
           Inr \<lparr>card_id = or_id r, card_name = or_name r, card_email = or_email r, card_start_date = or_start_date r,
                card_documents = map (\<lambda>d. df_name d @ '' ('' @ kb_reference (df_size d) @ '' KB)'') ds,
                card_submitted_at = locale (or_created_at r)\<rparr>"
proof -
  have "render_all (document_line num str_num) (map stored_of_document ds) =
        Inr (map (\<lambda>d. df_name d @ '' ('' @ kb_reference (df_size d) @ '' KB)'') ds)"
    using assms(2) by (induction ds) (simp_all add: document_line_stored)
  then show ?thesis using assms(1) by (simp add: success_card_def)
qed

lemma js_to_fixed_examples:
  "js_to_fixed num 2 (Some (1 / 8)) = ''0.13''" "js_to_fixed num 2 (Some (- 1 / 8)) = ''-0.13''"
  "js_to_fixed num 2 None = ''NaN''"
  by code_simp+

lemma kb_examples: "kb_reference 1000 = ''0.98''" "kb_reference 5242880 = ''5120.00''" "kb_reference 5 = ''0.00''"
  by (simp_all add: kb_reference_def js_nat_string.simps js_pad_start_def char_of_def bit_0)

end
