(* ===== verification/BuildScript.thy ===== *)
theory BuildScript
  imports Prelude
begin

text \<open>The PowerShell build script of \<^verbatim>\<open>src/unnamed/part_003\<close>: it checks for
  the EAS command line, installs it when missing, checks the Expo login and
  asks for one, reads the build type and starts the matching EAS build, or
  exits with code 1 on any other answer.  Its run is the list of what it
  does: a line written to the console (\<^verbatim>\<open>Write-Host\<close>, with its colour),
  the prompt of \<^verbatim>\<open>Read-Host\<close>, and an external command.  The emoji of the
  messages are kept as icons beside the text.  The environment is an input:
  whether \<^verbatim>\<open>Get-Command eas\<close> finds the command, the outcome of
  \<^verbatim>\<open>eas whoami\<close> (an exit code with its output, or a command that cannot be
  run, which throws inside the \<^verbatim>\<open>try\<close>), and the answer typed at the
  prompt.  The script never reads the exit code of \<^verbatim>\<open>npm\<close>,
  \<^verbatim>\<open>eas login\<close> or \<^verbatim>\<open>eas build\<close>, so the model has none.  The
  bash script \<^verbatim>\<open>src/scripts/build-apk.sh\<close> follows as a second run of the
  same kind; the lemmas relate the commands the two scripts execute.\<close>

datatype ps_color = Cyan | Green | Red | Yellow | White | Gray

datatype ps_icon = IconCheck | IconCross | IconRocket

datatype ps_text = Txt js_string | Icon ps_icon

datatype ps_action = Host "ps_text list" "ps_color option" | Prompt js_string | Run js_string

datatype whoami_result = WhoamiExit int js_string | WhoamiThrows

record build_env =
  be_eas_found :: bool
  be_whoami :: whoami_result
  be_choice :: js_string

definition write_host :: "js_string \<Rightarrow> ps_color \<Rightarrow> ps_action" where
  "write_host s c = Host [Txt s] (Some c)"

definition blank :: ps_action where
  "blank = Host [Txt []] None"

definition rule_line :: js_string where
  "rule_line = replicate 41 CHR ''=''"

definition banner :: "ps_action list" where
  "banner = [write_host rule_line Cyan, write_host ''Onboarding Platform - APK Build Script'' Cyan, write_host rule_line Cyan, blank]"

text \<open>The first \<^verbatim>\<open>try\<close>: \<^verbatim>\<open>Get-Command eas -ErrorAction Stop\<close> throws when the
  command is missing, and the \<^verbatim>\<open>catch\<close> installs it.\<close>

definition check_cli :: "bool \<Rightarrow> ps_action list" where
  "check_cli found =
     (if found then [Host [Icon IconCheck, Txt '' EAS CLI is installed''] (Some Green)]
      else [Host [Icon IconCross, Txt '' EAS CLI not found!''] (Some Red), write_host ''Installing EAS CLI...'' Yellow,
            Run ''npm install -g eas-cli''])"

definition ask_login :: "ps_action list" where
  "ask_login = [Host [Icon IconCross, Txt '' Not logged in to Expo''] (Some Red), write_host ''Please login:'' Yellow, Run ''eas login'']"

definition check_login :: "whoami_result \<Rightarrow> ps_action list" where
  "check_login w =
     write_host ''Checking Expo authentication...'' Yellow # Run ''eas whoami'' #
     (case w of
        WhoamiExit code out \<Rightarrow>
          if code = 0 then [Host [Icon IconCheck, Txt ('' Logged in as: '' @ out)] (Some Green)] else ask_login
      | WhoamiThrows \<Rightarrow> ask_login)"

definition menu :: "ps_action list" where
  "menu = [blank, write_host ''Select build type:'' Cyan, write_host ''1) Preview (for testing/demo)'' White,
           write_host ''2) Production (for release)'' White, Prompt ''Enter choice (1 or 2)'']"

text \<open>The \<^verbatim>\<open>switch\<close>: \<open>None\<close> is the \<^verbatim>\<open>default\<close> branch.  PowerShell
  compares strings without regard to case, which does not matter for the
  digits.\<close>

definition build_profile :: "js_string \<Rightarrow> js_string option" where
  "build_profile choice =
     (if choice = ''1'' then Some ''preview'' else if choice = ''2'' then Some ''production'' else None)"

definition start_build :: "js_string \<Rightarrow> ps_action list" where
  "start_build prof =
     [blank, write_host (''Building '' @ prof @ '' APK...'') Yellow, write_host ''This will take ~10-15 minutes'' Gray,
      Run (''eas build --platform android --profile '' @ prof)]"

definition closing :: "ps_action list" where
  "closing =
     [blank, write_host rule_line Cyan, write_host ''Build started!'' Green, write_host rule_line Cyan, blank,
      write_host ''Monitor progress:'' Yellow, write_host ''  - Watch terminal output above'' Gray,
      write_host ''  - Or run: eas build:list'' Gray, write_host ''  - Or check: https://expo.dev'' Gray, blank,
      write_host ''When complete:'' Yellow, write_host ''  1. Download APK from provided link'' White,
      write_host ''  2. Upload to Google Drive'' White, write_host ''  3. Update README.md with Drive link'' White,
      write_host ''  4. Submit assignment!'' White, blank, Host [Txt ''Good luck! '', Icon IconRocket] (Some Green)]"

text \<open>The whole run and its exit code.\<close>

definition build_script :: "build_env \<Rightarrow> ps_action list \<times> int" where
  "build_script env =
     (let pre = banner @ check_cli (be_eas_found env) @ [blank] @ check_login (be_whoami env) @ menu
      in case build_profile (be_choice env) of
           Some prof \<Rightarrow> (pre @ start_build prof @ closing, 0)
         | None \<Rightarrow> (pre @ [write_host ''Invalid choice. Exiting.'' Red], 1))"

subsection \<open>The bash script\<close>

text \<open>\<^verbatim>\<open>src/scripts/build-apk.sh\<close> does the same work with \<^verbatim>\<open>echo\<close>
  (no colour) and \<^verbatim>\<open>read\<close>.  Its environment: whether
  \<^verbatim>\<open>command -v eas\<close> succeeds, whether \<^verbatim>\<open>eas whoami\<close> exits with 0, the
  output of the second \<^verbatim>\<open>eas whoami\<close> in \<^verbatim>\<open>$(...)\<close>, and the lines typed
  at the prompt.\<close>

record bash_env =
  bb_eas_found :: bool
  bb_whoami_ok :: bool
  bb_whoami_out :: js_string
  bb_input :: "js_string list"

definition echo :: "ps_text list \<Rightarrow> ps_action" where
  "echo ts = Host ts None"

definition bash_banner :: "ps_action list" where
  "bash_banner = [echo [Txt rule_line], echo [Txt ''Onboarding Platform - APK Build Script''], echo [Txt rule_line], blank]"

text \<open>The \<^verbatim>\<open>if\<close> installs the command line when it is missing; the line
  after it reports it installed in either case.\<close>

definition bash_check_cli :: "bool \<Rightarrow> ps_action list" where
  "bash_check_cli found =
     (if \<not> found then [echo [Icon IconCross, Txt '' EAS CLI not found!''], echo [Txt ''Installing EAS CLI...''],
                        Run ''npm install -g eas-cli'']
      else []) @
     [echo [Icon IconCheck, Txt '' EAS CLI is installed''], blank]"

text \<open>Command substitution drops the trailing newlines of the output.\<close>

definition strip_newlines :: "js_string \<Rightarrow> js_string" where
  "strip_newlines s = rev (dropWhile (\<lambda>c. c = CHR 0x0A) (rev s))"

definition bash_check_login :: "bool \<Rightarrow> js_string \<Rightarrow> ps_action list" where
  "bash_check_login ok out =
     echo [Txt ''Checking Expo authentication...''] # Run ''eas whoami'' #
     (if \<not> ok then [echo [Icon IconCross, Txt '' Not logged in to Expo''], echo [Txt ''Please login:''], Run ''eas login'']
      else [Run ''eas whoami'', echo [Icon IconCheck, Txt ('' Logged in as: '' @ strip_newlines out)]])"

definition bash_menu :: "ps_action list" where
  "bash_menu = [blank, echo [Txt ''Select build type:''], echo [Txt ''1) Preview (for testing/demo)''],
                echo [Txt ''2) Production (for release)''], Prompt ''Enter choice (1 or 2): '']"

text \<open>\<^verbatim>\<open>read\<close> without \<^verbatim>\<open>-r\<close>: a backslash quotes the next character,
  and a backslash at the end of a line joins the next line (at the end of
  the input, reading stops); then the blanks (space, tab, newline) at both
  ends are removed, except quoted ones.\<close>

fun read_unescape :: "js_string \<Rightarrow> js_string list \<Rightarrow> (char \<times> bool) list" where
  "read_unescape [] ls = []"
| "read_unescape (c # cs) ls =
     (if c = CHR 0x5C
      then (case cs of
              [] \<Rightarrow> (case ls of [] \<Rightarrow> [] | l # ls' \<Rightarrow> read_unescape l ls')
            | d # ds \<Rightarrow> (d, True) # read_unescape ds ls)
      else (c, False) # read_unescape cs ls)"

definition ifs_blank :: "char \<times> bool \<Rightarrow> bool" where
  "ifs_blank cq \<longleftrightarrow> \<not> snd cq \<and> fst cq \<in> {CHR '' '', CHR 0x09, CHR 0x0A}"

definition bash_read :: "js_string list \<Rightarrow> js_string" where
  "bash_read lines =
     (case lines of
        [] \<Rightarrow> []
      | l # ls \<Rightarrow> map fst (rev (dropWhile ifs_blank (rev (dropWhile ifs_blank (read_unescape l ls))))))"

definition bash_start_build :: "js_string \<Rightarrow> ps_action list" where
  "bash_start_build prof =
     [blank, echo [Txt (''Building '' @ prof @ '' APK...'')], echo [Txt ''This will take ~10-15 minutes''],
      Run (''eas build --platform android --profile '' @ prof)]"

definition bash_closing :: "ps_action list" where
  "bash_closing =
     [blank, echo [Txt rule_line], echo [Txt ''Build started!''], echo [Txt rule_line], blank,
      echo [Txt ''Monitor progress:''], echo [Txt ''  - Watch terminal output above''],
      echo [Txt ''  - Or run: eas build:list''], echo [Txt ''  - Or check: https://expo.dev/accounts/[username]/builds''], blank,
      echo [Txt ''When complete:''], echo [Txt ''  1. Download APK from provided link''],
      echo [Txt ''  2. Upload to Google Drive''], echo [Txt ''  3. Update README.md with Drive link''],
      echo [Txt ''  4. Submit assignment!''], blank, echo [Txt ''Good luck! '', Icon IconRocket]]"

text \<open>The \<^verbatim>\<open>case\<close> matches the patterns \<^verbatim>\<open>1\<close> and \<^verbatim>\<open>2\<close>, which have no
  wildcard, so it selects as the PowerShell \<^verbatim>\<open>switch\<close> does; the script
  ends with the status of its last \<^verbatim>\<open>echo\<close>, 0.\<close>

definition bash_build_script :: "bash_env \<Rightarrow> ps_action list \<times> int" where
  "bash_build_script env =
     (let pre = bash_banner @ bash_check_cli (bb_eas_found env) @ bash_check_login (bb_whoami_ok env) (bb_whoami_out env) @
                bash_menu
      in case build_profile (bash_read (bb_input env)) of
           Some prof \<Rightarrow> (pre @ bash_start_build prof @ bash_closing, 0)
         | None \<Rightarrow> (pre @ [echo [Txt ''Invalid choice. Exiting.'']], 1))"

text \<open>The external commands a run executes, in order.\<close>

fun commands :: "ps_action list \<Rightarrow> js_string list" where
  "commands [] = []"
| "commands (Run c # as) = c # commands as"
| "commands (a # as) = commands as"

subsection \<open>Lemmas\<close>

lemma build_profile_cases: "build_profile c = Some prof \<Longrightarrow> prof = ''preview'' \<or> prof = ''production''"
  by (auto simp: build_profile_def split: if_splits)

text \<open>An answer other than \<^verbatim>\<open>1\<close> or \<^verbatim>\<open>2\<close> exits with code 1 and starts no
  build.\<close>

lemma invalid_choice_no_build:
  assumes "be_choice env \<notin> {''1'', ''2''}"
  shows "snd (build_script env) = 1 \<and>
         (\<forall>a\<in>set (fst (build_script env)). \<forall>cmd. a = Run cmd \<longrightarrow> \<not> js_starts_with cmd ''eas build'')"
  using assms
  by (auto simp: build_script_def build_profile_def banner_def check_cli_def check_login_def ask_login_def menu_def
      write_host_def blank_def js_starts_with_def split: whoami_result.splits)

text \<open>The script does not wait for a login: whatever \<^verbatim>\<open>eas whoami\<close>
  answers, a valid choice runs the build and reports \<^verbatim>\<open>Build started!\<close>,
  also after a failed login, and exits with 0.\<close>

lemma build_reported_started:
  assumes "build_profile (be_choice env) = Some prof"
  shows "snd (build_script env) = 0 \<and>
         Run (''eas build --platform android --profile '' @ prof) \<in> set (fst (build_script env)) \<and>
         write_host ''Build started!'' Green \<in> set (fst (build_script env)) \<and>
         (be_whoami env = WhoamiThrows \<longrightarrow> Run ''eas login'' \<in> set (fst (build_script env)))"
  using assms by (simp add: build_script_def start_build_def closing_def check_login_def ask_login_def)

lemma commands_append [simp]: "commands (xs @ ys) = commands xs @ commands ys"
  by (induction xs rule: commands.induct) simp_all



text \<open>C18: the two build scripts agree: given the same environment (the
  command line found or not, logged in or not, an answer naming the same
  profile), they exit with the same code and run the same external commands
  in the same order, except that bash runs \<^verbatim>\<open>eas whoami\<close> a second time
  when logged in.\<close>

lemma scripts_same_commands:
  assumes "be_eas_found penv = bb_eas_found benv"
    and "(\<exists>out. be_whoami penv = WhoamiExit 0 out) \<longleftrightarrow> bb_whoami_ok benv"
    and "build_profile (bash_read (bb_input benv)) = build_profile (be_choice penv)"
  shows "snd (bash_build_script benv) = snd (build_script penv) \<and>
         removeAll ''eas whoami'' (commands (fst (bash_build_script benv))) =
         removeAll ''eas whoami'' (commands (fst (build_script penv))) \<and>
         count_list (commands (fst (bash_build_script benv))) ''eas whoami'' =
         count_list (commands (fst (build_script penv))) ''eas whoami'' + (if bb_whoami_ok benv then 1 else 0)"
  using assms
  by (auto simp: bash_build_script_def build_script_def bash_banner_def banner_def bash_check_cli_def check_cli_def
      bash_check_login_def check_login_def ask_login_def bash_menu_def menu_def bash_start_build_def start_build_def
      bash_closing_def closing_def echo_def write_host_def blank_def Let_def split: option.splits whoami_result.splits)

text \<open>The two scripts read the same answer differently: bash strips the
  blanks around it, PowerShell compares it as typed, so an answer with a
  trailing space builds under bash and exits with 1 under PowerShell.\<close>

lemma read_divergence:
  "snd (bash_build_script \<lparr>bb_eas_found = True, bb_whoami_ok = True, bb_whoami_out = ''me'', bb_input = [''1 '']\<rparr>) = 0 \<and>
   snd (build_script \<lparr>be_eas_found = True, be_whoami = WhoamiExit 0 ''me'', be_choice = ''1 ''\<rparr>) = 1"
  by (simp add: bash_build_script_def build_script_def bash_read_def ifs_blank_def build_profile_def Let_def)

text \<open>Without the command line, the bash script installs it and then
  reports it installed, whatever the installation did.\<close>

lemma bash_reports_installed:
  "\<not> bb_eas_found env \<Longrightarrow>
   Run ''npm install -g eas-cli'' \<in> set (fst (bash_build_script env)) \<and>
   echo [Icon IconCheck, Txt '' EAS CLI is installed''] \<in> set (fst (bash_build_script env))"
  by (simp add: bash_build_script_def bash_check_cli_def Let_def split: option.splits)


theorem scripts_same_commands_witness:
  "snd (bash_build_script \<lparr>bb_eas_found = False, bb_whoami_ok = True, bb_whoami_out = ''me'', bb_input = ['' 2'']\<rparr>) =
     snd (build_script \<lparr>be_eas_found = False, be_whoami = WhoamiExit 0 ''me'', be_choice = ''2''\<rparr>) \<and>
   removeAll ''eas whoami''
     (commands (fst (bash_build_script \<lparr>bb_eas_found = False, bb_whoami_ok = True, bb_whoami_out = ''me'', bb_input = ['' 2'']\<rparr>))) =
   removeAll ''eas whoami'' (commands (fst (build_script \<lparr>be_eas_found = False, be_whoami = WhoamiExit 0 ''me'', be_choice = ''2''\<rparr>))) \<and>
   count_list
     (commands (fst (bash_build_script \<lparr>bb_eas_found = False, bb_whoami_ok = True, bb_whoami_out = ''me'', bb_input = ['' 2'']\<rparr>)))
     ''eas whoami'' =
   count_list (commands (fst (build_script \<lparr>be_eas_found = False, be_whoami = WhoamiExit 0 ''me'', be_choice = ''2''\<rparr>)))
     ''eas whoami'' + 1"
proof -
  have "build_profile (bash_read ['' 2'']) = build_profile ''2''"
    by (simp add: bash_read_def ifs_blank_def)
  then show ?thesis
    using scripts_same_commands [of "\<lparr>be_eas_found = False, be_whoami = WhoamiExit 0 ''me'', be_choice = ''2''\<rparr>"
        "\<lparr>bb_eas_found = False, bb_whoami_ok = True, bb_whoami_out = ''me'', bb_input = ['' 2'']\<rparr>"]
    by simp
qed

end
