(* ===== verification/Spec2Isabelle.thy ===== *)
theory Spec2Isabelle
  imports TextField DateField Counter Screen ScreenView BuildScript
begin

text \<open>
  \<^bold>\<open>A verification library for the onboarding form controls.\<close>

  The repository is a React Native onboarding form, the Cloudflare worker
  that stores its submissions, and a PowerShell script that builds the app.
  Its algorithmic core is four stateful input controls and an animated
  counter; around them are the form screen, the service, an HTTP client and
  the worker.  The parts and how they interact:
  \<^item> the validation engine (\<^verbatim>\<open>src/types/onboarding.ts\<close>, the
    \<^verbatim>\<open>validate\<close> callback of \<^verbatim>\<open>CustomTextInput\<close>) evaluates a list of
    declarative rules against a string;
  \<^item> the text field controller (same file) wraps the engine with focus and
    touched state, reports \<^verbatim>\<open>(value, isValid)\<close> to the form and renders
    its border, icons, messages and character count;
  \<^item> the date field (\<^verbatim>\<open>src/components/onboarding/CalendarPicker.tsx\<close>)
    parses, formats and bound-checks dates in one of three formats through the
    JavaScript \<^verbatim>\<open>Date\<close> object, and takes days from a calendar;
  \<^item> the file picker (\<^verbatim>\<open>src/unnamed/part_001\<close>) keeps a bounded list of
    selected files and renders their sizes with \<^verbatim>\<open>formatFileSize\<close>;
  \<^item> the counter timer (\<^verbatim>\<open>src/unnamed/part_002\<close>) is a four-state machine
    driving an animation whose completion callback runs asynchronously on the
    JavaScript thread;
  \<^item> the form screen (\<^verbatim>\<open>OnboardingScreen\<close>, the second part of
    \<^verbatim>\<open>src/services/onboarding.service.ts\<close>) holds the form, fed by the
    callbacks of the text fields and the pickers, and submits it through
    \<^verbatim>\<open>OnboardingService\<close> (the first part of the same file), which posts
    through the HTTP client (\<^verbatim>\<open>src/utils/api.ts\<close>) to the worker
    (\<^verbatim>\<open>src/backend/worker.js\<close>); the worker checks the request again and
    stores it in a key-value store;
  \<^item> the build scripts (PowerShell, \<^verbatim>\<open>src/unnamed/part_003\<close>, and bash,
    \<^verbatim>\<open>src/scripts/build-apk.sh\<close>) check the EAS command line and the Expo
    login and start a build of the chosen profile.

  \<^bold>\<open>Theories.\<close> Each theory holds the definitions of one part, in the order
  of the code, then its lemmas, then its properties (each after a text naming
  its claim) and their witnesses.
  \<^item> \<open>Prelude\<close>: the JavaScript built-ins the code calls (\<^verbatim>\<open>trim\<close>,
    \<^verbatim>\<open>split\<close>, \<^verbatim>\<open>join\<close>, \<^verbatim>\<open>parseInt\<close>, \<^verbatim>\<open>String(n)\<close>, \<^verbatim>\<open>padStart\<close>,
    \<^verbatim>\<open>substring\<close>, \<^verbatim>\<open>toLowerCase\<close>, \<^verbatim>\<open>toUpperCase\<close>, \<^verbatim>\<open>lastIndexOf\<close>,
    \<^verbatim>\<open>startsWith\<close>, \<^verbatim>\<open>endsWith\<close>) as executable functions on strings of
    8-bit characters, with their round trips (split/join, \<^verbatim>\<open>parseInt\<close> of
    \<^verbatim>\<open>String(n)\<close>), the lengths of digit strings, the characterisation of
    \<^verbatim>\<open>lastIndexOf\<close>, and unsigned 32-bit words.
  \<^item> \<open>Validation\<close>: \<open>validation_rule\<close>, \<open>rule_fails\<close> (one case of the
    \<^verbatim>\<open>switch\<close>), \<open>validate\<close> (the \<^verbatim>\<open>forEach\<close>), \<open>email_regex_test\<close>.  The
    engine returns, in order, exactly the messages of the violated rules
    (C1); the e-mail test decides the language of the regular expression (C3);
    the only error is the \<^verbatim>\<open>TypeError\<close> of a regex rule whose value is a
    number, on a non-empty value (C4).
  \<^item> \<open>TextField\<close>: the record \<open>text_field\<close> (\<^verbatim>\<open>internalValue\<close>, \<^verbatim>\<open>isFocused\<close>,
    \<^verbatim>\<open>isTouched\<close>, \<^verbatim>\<open>errors\<close>), the handlers and \<open>tf_step\<close> over change, focus,
    blur and new props, and the render \<open>tf_view\<close>.  Touched is never reset
    (C5); the errors of a touched field are the engine's verdict on its value
    (C6, C7); the mode switch and the parent's reset keep stale text or errors
    (C9, C10); the success and error icons agree with the verdict.
  \<^item> \<open>JsDate\<close>: ECMAScript \<^verbatim>\<open>MakeDay\<close>, \<^verbatim>\<open>TimeClip\<close>, the year and month
    getters (the year by a search with a termination measure), local time at a
    fixed offset; the getters invert \<open>make_day\<close> on valid days.
  \<^item> \<open>DateField\<close>: \<open>format_date\<close>, \<open>parse_date\<close>, \<open>to_calendar_format\<close>,
    \<open>validate_date\<close>, the handlers, \<open>df_step\<close> and the render \<open>df_view\<close>.
    Format and parse are inverse (C11); a parsed text is exactly the day it
    names (C12) and a day that does not exist is rejected (C13); the day of \<^verbatim>\<open>minDate\<close> that the calendar offers is rejected once
    chosen (C14); the first failing check is reported (C15); trailing text is
    ignored (C16); a day taken from the calendar is shown one day early west of
    UTC (C17); every text edit throws; years 0 to 99 never parse (C19).
  \<^item> \<open>FileSet\<close>: \<open>get_file_extension\<close> (the \<^verbatim>\<open>>>> 0\<close> as a 32-bit word),
    \<open>is_file_type_allowed\<close>, \<open>validate_files\<close>, \<open>handle_pick_files\<close>,
    \<open>handle_remove_file\<close>, \<open>handle_clear_all\<close>, \<open>fp_step\<close>, and the render:
    \<open>format_file_size\<close> (the unit index \<open>log1024\<close> is the exact
    \<^verbatim>\<open>floor(log(b) / log(1024))\<close>) and \<open>fp_view\<close>.  Every event keeps the
    count, size and total invariant (C20); excess files are dropped without
    error (C21); the extension equals the
    reference definition for names up to 4294967296 characters (C23); an
    upper-case pattern never allows a file by its name (C24).
  \<^item> \<open>Counter\<close>: the state, the shared value and its \<^verbatim>\<open>withTiming\<close> animation
    as frames, the queue of calls posted by \<^verbatim>\<open>runOnJS\<close>, the handlers,
    \<open>ct_step\<close>, the reachability predicate \<open>ct_reach\<close>, the frame loop
    \<open>frames_until_done\<close> and the render \<open>ct_view\<close>.  Idle means progress 0
    (C25); progress stays in [0, 1] (C26); with linear easing progress grows at
    the rate of the full duration across pauses (C27); the frame loop
    ends within an hour of frames in every reachable state (C28); the calls a
    finished run posted land after Restart or Reset (C29); a running animation completes (C36).
  \<^item> \<open>Submission\<close>: JSON values, the client's check and body, the worker's
    check, \<^verbatim>\<open>generateId\<close>, record, store, response bodies and router.  A
    valid submission is stored and read back (C30); the email index answers
    500 (C31); a \<^verbatim>\<open>null\<close> document anywhere answers 500 (C32); only the submit route
    writes (C33).
  \<^item> \<open>ApiClient\<close>: \<^verbatim>\<open>ApiClient\<close> with its constructor, interceptors,
    \<^verbatim>\<open>handleError\<close> and verbs; axios' \<^verbatim>\<open>buildFullPath\<close> and the path name
    the worker routes on.
  \<^item> \<open>Service\<close>: \<^verbatim>\<open>OnboardingService\<close> and the interfaces of the answers as
    predicates on JSON.  The worker's answer never conforms to the declared
    \<^verbatim>\<open>OnboardingResponse\<close>: its documents lack \<^verbatim>\<open>uri\<close> (C39).
  \<^item> \<open>Screen\<close>: the form screen's state, \<^verbatim>\<open>isFormValid\<close>, the two halves of
    \<^verbatim>\<open>handleSubmit\<close>, \<^verbatim>\<open>handleReset\<close>, the form composed with its e-mail
    \<open>text_field\<close> (\<open>form_step\<close>, \<open>form_reach\<close>), and the page composed with
    the file picker and the date field (\<open>page_step\<close>, reachable states
    \<open>page_reach\<close>, the invariant \<open>page_inv\<close> proved by rule induction).
  \<^item> \<open>ScreenView\<close>: the screen's render: \<^verbatim>\<open>toFixed\<close>, \<^verbatim>\<open>ToNumber\<close>
    of JSON values, React's rendering of values as children (an object
    throws), the success card (\<open>success_card\<close>), the buttons and the footer
    (\<open>screen_view\<close>), and the CounterTimer props.  \<^verbatim>\<open>toFixed(2)\<close>
    agrees with the reference \<open>kb_reference\<close>, rounding half up in integer
    arithmetic.
  \<^item> \<open>BuildScript\<close>: the runs of the two build scripts as lists of their
    console lines, prompts and commands with their exit codes, bash's
    \<^verbatim>\<open>read\<close> included (C22).  Given the same environment the two run the same
    commands apart from the \<^verbatim>\<open>eas whoami\<close> probes and exit alike (C18), but they
    read the answer differently; bash reports the command line installed
    whatever \<^verbatim>\<open>npm\<close> did; PowerShell reports a build started after a failed
    login.
  \<^item> this theory: a stored submission is read back through the client (C8);
    the path from the screen through the service to the worker and back (C34,
    C35); Submit is enabled only for a form the service accepts (C37), though
    a name the name field rejects is submitted (C38); every request the page
    sends respects the picker's limits (C40); Start New Submission leaves the
    pickers' state behind; after a successful submission the screen renders
    the card with the form's data and each file's size in KB (C2).

  \<^bold>\<open>Bounds and loops.\<close> Every function is total: loops over lists are
  structural recursion; the year search \<open>find_year\<close> has a lexicographic
  measure, \<open>log1024\<close> the measure of its argument, and the frame loop
  \<open>frames_until_done\<close> the number of frames left,
  \<open>ceil((duration - elapsed) / dt) + 1\<close>, which each frame decreases; so no
  fuel is used.  Machine integers appear once, in \<^verbatim>\<open>(i - 1) >>> 0\<close>,
  modelled as a 32-bit word; C23 holds for names up to 4294967296 characters,
  beyond which the shift wraps.  Dates are integers of milliseconds clipped at
  8.64e15; C14 and C17 are stated for four-digit years, whose key the calendar
  prints with four digits, and offsets of less than a day.  Local time is a
  fixed offset from UTC.  Counter numbers are rationals.  File sizes are
  natural numbers; \<^verbatim>\<open>Math.round(x * 100) / 100\<close> of \<^verbatim>\<open>formatFileSize\<close> is
  computed exactly, where the floating-point result may differ in the last
  place; the card's \<^verbatim>\<open>size / 1024\<close> is exact in binary, and its lemma holds
  for sizes below 1024 times 10 to the 21, where \<^verbatim>\<open>toFixed\<close> switches to
  exponent notation.

  \<^bold>\<open>Not modelled.\<close> Styles and layout (the renders give the texts, colours
  and enabled states only); the non-linear easing curves of Reanimated (a
  parameter); time zones with daylight saving; the transport of the HTTP
  client (its answer is an input) and URLs with percent-escapes or dot
  segments; logging; \<^verbatim>\<open>Date.now\<close> and \<^verbatim>\<open>Math.random\<close> (the id and time
  are inputs); the text of JSON (\<^verbatim>\<open>JSON.stringify\<close> and \<^verbatim>\<open>JSON.parse\<close> are
  taken as inverse on records); the time-to-live of the email index and the
  512-byte limit of a KV key, which an \<^verbatim>\<open>email:\<close> key of an address over
  about 500 characters exceeds (the writes are one step that cannot fail); the
  effects of the commands the build scripts run (\<^verbatim>\<open>npm\<close>, \<^verbatim>\<open>eas\<close>);
  \<^verbatim>\<open>StringToNumber\<close> of a non-numeric size and \<^verbatim>\<open>toLocaleString\<close>,
  which are inputs of the render; the documentation (README, architecture
  notes, checklist), which has no behaviour.
\<close>

section \<open>Properties that span components\<close>

text \<open>A filled-in form: the two validated texts, a start date and one
  selected file.\<close>

definition example_screen :: screen where
  "example_screen =
     \<lparr>sc_name = ''Ann Lee'', sc_email = ''ann@example.com'', sc_start_date = ''01/06/2026'',
      sc_documents = [\<lparr>sf_uri = ''file:///id.pdf'', sf_name = ''id.pdf'', sf_size = 1000,
                        sf_mime = Some ''application/pdf''\<rparr>],
      sc_name_valid = True, sc_email_valid = True, sc_submitting = False, sc_show_success = False,
      sc_submitted = None\<rparr>"

text \<open>The form filled in by events: the e-mail typed and left, a one-letter name, a start date and one file.\<close>

definition id_file :: selected_file where
  "id_file = \<lparr>sf_uri = ''file:///id.pdf'', sf_name = ''id.pdf'', sf_size = 1000, sf_mime = Some ''application/pdf''\<rparr>"

definition short_name_events :: "form_event list" where
  "short_name_events =
     [EmailEvent Focus, EmailEvent (Change ''ann@example.com''), EmailEvent Blur, NameText ''A'',
      NameValid False, DateText ''01/06/2026'', DocsChange [id_file]]"

definition filled_form :: "screen \<times> text_field" where
  "filled_form =
     (sc_init\<lparr>sc_email := ''ann@example.com'', sc_email_valid := True, sc_name := ''A'',
        sc_start_date := ''01/06/2026'', sc_documents := [id_file]\<rparr>,
      tf_init\<lparr>tf_touched := True\<rparr>)"

text \<open>The worker behind the client's adapter: the request reaches
  \<^verbatim>\<open>fetch\<close> with the path name of its URL and its JSON body, and the
  answer comes back with its status and JSON body (no body reads as
  \<^verbatim>\<open>null\<close>).\<close>

definition worker_wire :: "kv_store \<Rightarrow> js_string \<Rightarrow> js_string \<Rightarrow> request_config \<Rightarrow> wire_outcome" where
  "worker_wire kv oid now cfg =
     (case snd (worker_fetch kv oid now (rc_method cfg) (url_pathname (rc_url cfg)) (rc_data cfg)) of
        Response st b \<Rightarrow> WireAnswer st (case http_body_json now (Response st b) of Some j \<Rightarrow> j | None \<Rightarrow> JNull))"

text \<open>The page filled in by events: the e-mail typed and left, the name, the
  calendar's 15 March 2025 (at UTC) and one document.\<close>

definition filled_page_events :: "int \<Rightarrow> page_event list" where
  "filled_page_events now =
     [PEmail Focus, PEmail (Change ''ann@example.com''), PEmail Blur, PName ''Ann Lee'', PNameValid True,
      PDate now (DSelect ''2025-03-15''), PFiles (Pick (Assets [pdf_asset ''id.pdf'']))]"

definition filled_page :: page where
  "filled_page =
     \<lparr>pg_form = (sc_init\<lparr>sc_name := ''Ann Lee'', sc_email := ''ann@example.com'', sc_start_date := ''15/03/2025'',
                          sc_documents := [asset_file (pdf_asset ''id.pdf'')], sc_name_valid := True,
                          sc_email_valid := True\<rparr>,
                  tf_init\<lparr>tf_touched := True\<rparr>),
      pg_files = \<lparr>fp_files = [asset_file (pdf_asset ''id.pdf'')], fp_error = [], fp_touched = True\<rparr>,
      pg_date = \<lparr>df_text = ''15/03/2025'', df_error = [], df_touched = True, df_modal = False\<rparr>\<rparr>"

lemma client_validate_documents:
  "(ds = []) = (sr_documents d = []) \<Longrightarrow> client_validate (d\<lparr>sr_documents := ds\<rparr>) = client_validate d"
  by (simp add: client_validate_def)

lemma example_screen_valid: "client_validate (screen_request example_screen) = []"
  by (simp add: example_screen_def screen_request_def client_validate_def email_regex_test_def js_trim_def
      is_js_space_def)

lemma filled_form_run: "form_run (sc_init, tf_init) short_name_events = Inr filled_form"
  using email_example
  by (simp add: short_name_events_def filled_form_def email_props_def tf_init_def handle_focus_def
      handle_change_text_def handle_blur_def tf_value_def validate_email_rules js_trim_def is_js_space_def
      sc_init_def)

lemma filled_form_reach: "form_reach filled_form"
  by (rule form_run_reach [OF form_reach.init filled_form_run])

lemma filled_form_enabled: "submit_enabled (fst filled_form)"
  by (simp add: filled_form_def submit_enabled_def is_form_valid_def sc_init_def js_trim_def is_js_space_def)

text \<open>C8: a submission the worker stores is read back through the
  client: \<^verbatim>\<open>getOnboardingById\<close> of the id the worker generated, sent by
  \<^verbatim>\<open>apiClient\<close> under a base \<^verbatim>\<open>https://host\<close> to
  \<^verbatim>\<open>/api/onboard/<id>\<close>, reaches the worker's lookup with the same id
  and returns \<^verbatim>\<open>{success: true, data}\<close> with the stored record.\<close>

theorem get_after_submit:
  assumes ok: "client_validate d = []"
    and base: "ac_base_url ac = ''https://'' @ host" "host \<noteq> []" "\<forall>c\<in>set host. host_char c"
    and rnd: "\<forall>c\<in>set rnd. c \<notin> {CHR ''/'', CHR ''?'', CHR ''#''}"
  shows "\<exists>r. snd (handle_submit kv (generate_id t rnd) now (Some (encode_payload d sub))) = Response 201 (RData r) \<and>
           get_onboarding_by_id ac (worker_wire (fst (handle_submit kv (generate_id t rnd) now (Some (encode_payload d sub))))
             oid2 now2) (or_id r) = JObj [(''success'', JBool True), (''data'', record_json r)] \<and>
           or_id r = generate_id t rnd \<and> or_name r = sr_name d \<and> or_email r = sr_email d \<and>
           or_start_date r = sr_start_date d"
proof -
  obtain r where r: "handle_submit kv (generate_id t rnd) now (Some (encode_payload d sub)) =
      (kv(generate_id t rnd \<mapsto> KvRecord r, (''email:'' @ sr_email d) \<mapsto> KvId (generate_id t rnd)), Response 201 (RData r))"
    "or_id r = generate_id t rnd" "or_name r = sr_name d" "or_email r = sr_email d" "or_start_date r = sr_start_date d"
    using submit_encoded [OF ok] by blast
  have ne: "generate_id t rnd \<noteq> ''email:'' @ sr_email d" by (rule onboard_not_email_key [OF generate_id_prefix])
  have chars: "\<forall>c\<in>set (generate_id t rnd). c \<notin> {CHR ''/'', CHR ''?'', CHR ''#''}"
    by (rule generate_id_chars [OF rnd])
  have path: "url_pathname (rc_url (sent_config ac GET (endpoint_get_by_id (generate_id t rnd)) None [])) =
      ''/api/onboard/'' @ generate_id t rnd"
    using get_path_roundtrip [OF base(2,3)] chars base(1) by (simp add: sent_config_def request_interceptor_def)
  have slash: "CHR ''/'' \<notin> set (generate_id t rnd)" using chars by blast
  have "worker_wire (kv(generate_id t rnd \<mapsto> KvRecord r, (''email:'' @ sr_email d) \<mapsto> KvId (generate_id t rnd))) oid2 now2
          (sent_config ac GET (endpoint_get_by_id (generate_id t rnd)) None []) =
        WireAnswer 200 (JObj [(''success'', JBool True), (''data'', record_json r)])"
    using path worker_get_route [OF slash] ne
    by (simp add: worker_wire_def sent_config_def request_interceptor_def handle_get_def http_body_json_def)
  then show ?thesis using r
    by (intro exI [of _ r])
       (simp add: get_onboarding_by_id_def api_get_def api_request_def response_interceptor_def)
qed

lemma select_example:
  "df_select (screen_date_props now) 0 s ''2025-03-15'' =
     (s\<lparr>df_text := ''15/03/2025'', df_error := [], df_touched := True, df_modal := False\<rparr>, [DateOnChange ''15/03/2025''])"
proof -
  have v: "valid_civil 2025 2 15" by (rule example_date(1))
  have iso: "to_calendar_format 0 (make_day 2025 2 15 * ms_per_day) = ''2025-03-15''"
    using to_calendar_format_civil [of 0 "make_day 2025 2 15 * ms_per_day" 2025 2 15]
      local_civil_midnight [of 0 "make_day 2025 2 15"] civil_of_make_day [OF v]
    by (simp add: string_eval)
  have p: "js_date_parse_iso ''2025-03-15'' = Some (make_day 2025 2 15 * ms_per_day)"
    using js_date_parse_iso_calendar [OF v] iso by simp
  have lc: "local_civil 0 (make_day 2025 2 15 * ms_per_day) = (2025, 2, 15)"
    using local_civil_midnight [of 0 "make_day 2025 2 15"] civil_of_make_day [OF v] by simp
  have "format_date DDMMYYYY 0 (Some (make_day 2025 2 15 * ms_per_day)) = ''15/03/2025''"
    using lc by (simp add: format_date_def date_fields_def string_eval)
  then show ?thesis using p by (simp add: df_select_def screen_date_props_def Let_def)
qed

lemma pick_example:
  "fp_step format_file_size screen_file_props (fp_init []) (Pick (Assets [pdf_asset ''id.pdf''])) =
     (\<lparr>fp_files = [asset_file (pdf_asset ''id.pdf'')], fp_error = [], fp_touched = True\<rparr>,
      [FilesOnChange [asset_file (pdf_asset ''id.pdf'')]])"
  by (simp add: screen_file_props_def fp_init_def handle_pick_files_def Let_def is_file_type_allowed_def
      asset_too_large_def pdf_asset_def validate_files_def asset_file_def total_size_def)

lemma filled_page_run: "page_run 0 page_init (filled_page_events now) = Inr filled_page"
  using email_example select_example pick_example
  by (simp add: filled_page_events_def filled_page_def page_init_def with_form_def email_props_def tf_init_def
      handle_focus_def handle_change_text_def handle_blur_def tf_value_def validate_email_rules js_trim_def
      is_js_space_def sc_init_def df_init_def)

text \<open>C40: in every reachable state of the screen composed with its pickers,
  a request the submit handler sends carries at most three documents, each of
  at most 5 MB and 15 MB together: the documents the screen holds are always
  a list the file picker reported after validating it, or a part of one, or
  empty after a reset.\<close>

theorem screen_request_within_limits:
  assumes "page_reach tz pg" and "snd (submit_press (fst (pg_form pg))) = [SendRequest r]"
  shows "length (sr_documents r) \<le> 3 \<and> (\<forall>d\<in>set (sr_documents r). df_size d \<le> 5 * 1024 * 1024) \<and>
         sum_list (map df_size (sr_documents r)) \<le> 15 * 1024 * 1024"
proof -
  have "page_inv pg" using assms(1)
  proof induction
    case init
    then show ?case
      by (simp add: page_inv_def page_init_def fp_inv_def fp_init_def sc_init_def files_within_def total_size_def)
  next
    case (step pg e pg')
    then show ?case by (blast intro: page_inv_step)
  qed
  then have "files_within screen_file_props (sc_documents (fst (pg_form pg)))" by (simp add: page_inv_def)
  moreover have "r = screen_request (fst (pg_form pg))"
    using assms(2) by (simp add: submit_press_def Let_def split: if_splits)
  ultimately show ?thesis
    by (simp add: files_within_def screen_file_props_def screen_request_def to_document_def list_all_iff
        total_size_def comp_def)
qed

text \<open>After Start New Submission the pickers keep what they showed: the file
  picker still holds the first document and the next pick sends it again, and
  the date field still shows the old date while the screen's start date is
  empty.\<close>

lemma reset_keeps_picker_state:
  "\<exists>pg. page_run 0 page_init (filled_page_events now @ [PReset, PFiles (Pick (Assets [pdf_asset ''photo.pdf'']))]) =
     Inr pg \<and>
   sc_documents (fst (pg_form pg)) = [asset_file (pdf_asset ''id.pdf''), asset_file (pdf_asset ''photo.pdf'')] \<and>
   df_text (pg_date pg) = ''15/03/2025'' \<and> sc_start_date (fst (pg_form pg)) = []"
  using filled_page_run [of now]
  by (simp add: page_run_append filled_page_def with_form_def screen_reset_def screen_file_props_def
      handle_pick_files_def Let_def is_file_type_allowed_def asset_too_large_def pdf_asset_def validate_files_def
      asset_file_def total_size_def sc_init_def tf_init_def)

text \<open>The screen's request, posted through the service with the outcome of
  reading each file, is stored by the worker under the id it generated, with
  the form's texts, one stored document per selected file, and the time of
  the request as its creation time.\<close>

lemma screen_submit_stored:
  assumes ok: "client_validate (screen_request sc) = []" and len: "length reads = length (sc_documents sc)"
  shows "\<exists>r. worker_fetch kv oid now POST ''/api/onboard'' (Some (service_payload (screen_request sc) reads sub)) =
               (kv(oid \<mapsto> KvRecord r, (''email:'' @ sc_email sc) \<mapsto> KvId oid), Response 201 (RData r)) \<and>
             or_id r = oid \<and> or_name r = sc_name sc \<and> or_email r = sc_email sc \<and> or_start_date r = sc_start_date sc \<and>
             or_created_at r = now \<and>
             or_documents r = map stored_of_document (map2 attach_base64 (map to_document (sc_documents sc)) reads)"
proof -
  define d where "d = (screen_request sc)\<lparr>sr_documents := map2 attach_base64 (sr_documents (screen_request sc)) reads\<rparr>"
  have "(map2 attach_base64 (sr_documents (screen_request sc)) reads = []) = (sr_documents (screen_request sc) = [])"
    using len by (auto simp: screen_request_def)
  then have valid: "client_validate d = []"
    using ok client_validate_documents by (simp add: d_def)
  obtain r where r: "handle_submit kv oid now (Some (encode_payload d sub)) =
      (kv(oid \<mapsto> KvRecord r, (''email:'' @ sr_email d) \<mapsto> KvId oid), Response 201 (RData r))"
    "or_id r = oid" "or_name r = sr_name d" "or_email r = sr_email d" "or_start_date r = sr_start_date d"
    "or_documents r = map stored_of_document (sr_documents d)" "or_created_at r = now"
    using submit_encoded [OF valid, of kv oid now sub] by (elim exE conjE) (rule that, assumption+)
  show ?thesis
    using r by (intro exI [of _ r]) (simp add: worker_fetch_def service_payload_def d_def screen_request_def)
qed

text \<open>C34: a form that passes the service's check, submitted through the
  service to the worker, ends on the screen's success state with the success
  alert, and the worker's store holds the record the screen shows, with the
  form's name, email, start date and number of files, whatever the outcome of
  reading each file as base64.\<close>

theorem end_to_end_submit:
  assumes ok: "client_validate (screen_request sc) = []" and oid: "js_starts_with oid ''onboard_''"
    and len: "length reads = length (sc_documents sc)"
  shows "\<exists>r. submit_press sc = (sc\<lparr>sc_submitting := True\<rparr>, [SendRequest (screen_request sc)]) \<and>
             worker_fetch kv oid now POST ''/api/onboard'' (Some (service_payload (screen_request sc) reads sub)) =
               (kv(oid \<mapsto> KvRecord r, (''email:'' @ sc_email sc) \<mapsto> KvId oid), Response 201 (RData r)) \<and>
             submit_answer (sc\<lparr>sc_submitting := True\<rparr>) (service_result (Delivered (Response 201 (RData r)))) =
               (sc\<lparr>sc_submitted := Some r, sc_show_success := True, sc_submitting := False\<rparr>,
                [ScAlert ''Success'' (AlertText ''Onboarding submitted successfully'')]) \<and>
             or_name r = sc_name sc \<and> or_email r = sc_email sc \<and> or_start_date r = sc_start_date sc \<and>
             length (or_documents r) = length (sc_documents sc)"
proof -
  obtain r where w: "worker_fetch kv oid now POST ''/api/onboard'' (Some (service_payload (screen_request sc) reads sub)) =
      (kv(oid \<mapsto> KvRecord r, (''email:'' @ sc_email sc) \<mapsto> KvId oid), Response 201 (RData r))"
    and f: "or_id r = oid" "or_name r = sc_name sc" "or_email r = sc_email sc" "or_start_date r = sc_start_date sc"
      "or_created_at r = now"
    and docs: "or_documents r = map stored_of_document (map2 attach_base64 (map to_document (sc_documents sc)) reads)"
    using screen_submit_stored [OF ok len, of kv oid now sub] by (elim exE conjE) (rule that, assumption+)
  show ?thesis
    using w f docs ok len
    by (intro exI [of _ r]) (simp add: submit_press_def submit_answer_def service_result_def)
qed

text \<open>Attaching the base64 text keeps each document's name and size.\<close>

lemma attached_names_sizes:
  "length ys = length xs \<Longrightarrow>
   map (\<lambda>d. F (df_name d) (df_size d)) (map2 attach_base64 (map to_document xs) ys) = map (\<lambda>f. F (sf_name f) (sf_size f)) xs"
proof (induction xs arbitrary: ys)
  case (Cons x xs)
  then show ?case by (cases ys) (auto simp: attach_base64_def to_document_def split: option.splits)
qed simp

text \<open>C2: after a successful submission the screen shows the success card: the
  id the worker generated, the form's name, e-mail and start date, each
  selected file as its name and its size in KB to two places, and the time of
  the request in local form; Submit is disabled while the answer is awaited
  and enabled again for the filled form, and Start New Submission appears.\<close>

lemma success_card_shown:
  assumes ok: "client_validate (screen_request sc) = []" and len: "length reads = length (sc_documents sc)"
    and small: "\<forall>f\<in>set (sc_documents sc). sf_size f < 1024 * 10 ^ 21"
  shows "\<exists>r kv'. worker_fetch kv oid now POST ''/api/onboard'' (Some (service_payload (screen_request sc) reads sub)) =
               (kv', Response 201 (RData r)) \<and>
             screen_view num str_num to_locale tz clock
               (fst (submit_answer (fst (submit_press sc)) (service_result (Delivered (Response 201 (RData r)))))) =
             Inr \<lparr>sv_card = Some \<lparr>card_id = oid, card_name = sc_name sc, card_email = sc_email sc,
                                  card_start_date = sc_start_date sc,
                                  card_documents = map (\<lambda>f. sf_name f @ '' ('' @ kb_reference (sf_size f) @ '' KB)'')
                                                     (sc_documents sc),
                                  card_submitted_at = to_locale now\<rparr>,
                  sv_submit_enabled = is_form_valid sc, sv_submit_spinner = False, sv_reset_button = True,
                  sv_year = fst (local_civil tz clock)\<rparr>"
proof -
  obtain r where w: "worker_fetch kv oid now POST ''/api/onboard'' (Some (service_payload (screen_request sc) reads sub)) =
      (kv(oid \<mapsto> KvRecord r, (''email:'' @ sc_email sc) \<mapsto> KvId oid), Response 201 (RData r))"
    and f: "or_id r = oid" "or_name r = sc_name sc" "or_email r = sc_email sc" "or_start_date r = sc_start_date sc"
      "or_created_at r = now"
    and docs: "or_documents r = map stored_of_document (map2 attach_base64 (map to_document (sc_documents sc)) reads)"
    using screen_submit_stored [OF ok len, of kv oid now sub] by (elim exE conjE) (rule that, assumption+)
  define ds where "ds = map2 attach_base64 (map to_document (sc_documents sc)) reads"
  have lines: "map (\<lambda>d. df_name d @ '' ('' @ kb_reference (df_size d) @ '' KB)'') ds =
        map (\<lambda>f. sf_name f @ '' ('' @ kb_reference (sf_size f) @ '' KB)'') (sc_documents sc)"
    using attached_names_sizes [OF len] unfolding ds_def .
  have "map df_size ds = map sf_size (sc_documents sc)"
    using attached_names_sizes [OF len, of "\<lambda>n s. s"] unfolding ds_def .
  then have "\<forall>d\<in>set ds. df_size d < 1024 * 10 ^ 21"
  proof (intro ballI)
    fix d assume "d \<in> set ds"
    then have "df_size d \<in> set (map sf_size (sc_documents sc))" using \<open>map df_size ds = map sf_size (sc_documents sc)\<close>
      by (metis image_eqI list.set_map)
    then show "df_size d < 1024 * 10 ^ 21" using small by auto
  qed
  from success_card_stored [OF docs [folded ds_def] this] lines f
  have card: "success_card num str_num to_locale r =
      Inr \<lparr>card_id = oid, card_name = sc_name sc, card_email = sc_email sc, card_start_date = sc_start_date sc,
           card_documents = map (\<lambda>f. sf_name f @ '' ('' @ kb_reference (sf_size f) @ '' KB)'') (sc_documents sc),
           card_submitted_at = to_locale now\<rparr>"
    by simp
  have press: "fst (submit_press sc) = sc\<lparr>sc_submitting := True\<rparr>"
    using ok by (simp add: submit_press_def)
  have ans: "fst (submit_answer (sc\<lparr>sc_submitting := True\<rparr>) (service_result (Delivered (Response 201 (RData r))))) =
      sc\<lparr>sc_submitted := Some r, sc_show_success := True, sc_submitting := False\<rparr>"
    by (simp add: submit_answer_def service_result_def)
  show ?thesis
    using w
    by (intro exI [of _ r] exI [of _ "kv(oid \<mapsto> KvRecord r, (''email:'' @ sc_email sc) \<mapsto> KvId oid)"])
       (simp add: press ans card screen_view_def submit_enabled_def is_form_valid_def)
qed

text \<open>C35: an error answer of the worker (status 300 or more with a
  non-empty error text) goes through \<^verbatim>\<open>handleError\<close> and the service to the
  screen, which clears \<^verbatim>\<open>isSubmitting\<close> and shows the worker's text in an
  Error alert.\<close>

theorem worker_error_reaches_user:
  assumes "300 \<le> st" and "e \<noteq> []"
  shows "submit_answer sc (service_result (Delivered (Response st (RError e)))) =
           (sc\<lparr>sc_submitting := False\<rparr>, [ScAlert ''Error'' (AlertJson (JStr e))])"
  using assms
  by (simp add: service_result_def handle_error_def response_json_def read_opt_def truthy_def submit_answer_def)

text \<open>The e-mail validity the form holds reflects the current address in
  every reachable state, and with it an enabled Submit means a request the
  service accepts.\<close>

lemma form_reach_email_inv: "form_reach c \<Longrightarrow> email_inv c"
proof (induction rule: form_reach.induct)
  case init
  then show ?case by (simp add: email_inv_def sc_init_def)
next
  case (step c e c')
  then show ?case using email_inv_step by blast
qed

lemma email_inv_client_valid:
  assumes "email_inv c" and "submit_enabled (fst c)"
  shows "client_validate (screen_request (fst c)) = []"
proof -
  have "validate email_rules (sc_email (fst c)) = Inr []"
    using assms by (simp add: email_inv_def submit_enabled_def is_form_valid_def)
  then show ?thesis using assms(2)
    by (auto simp: validate_email_rules submit_enabled_def is_form_valid_def client_validate_def
        screen_request_def split: if_splits)
qed

text \<open>C37: in every reachable state of the form with its e-mail field, the Submit button is enabled only when the service's check of the form passes: the \<^verbatim>\<open>isEmailValid\<close> the screen holds always reflects the current address.\<close>

theorem submit_enabled_client_valid:
  assumes "form_reach c" and "submit_enabled (fst c)"
  shows "client_validate (screen_request (fst c)) = []"
  using email_inv_client_valid [OF form_reach_email_inv [OF assms(1)] assms(2)] .

text \<open>C38: \<^verbatim>\<open>isFormValid\<close> ignores \<^verbatim>\<open>isNameValid\<close>: from any reachable
  state of the form with Submit enabled, a name that is not blank but that
  the name field's rules reject, reported by the field as invalid, leaves
  Submit enabled, and pressing it sends a request with that name.\<close>

theorem short_name_submitted:
  assumes reach: "form_reach c" and en: "submit_enabled (fst c)"
    and n: "js_trim n \<noteq> []" and bad: "validate name_rules n = Inr errs" "errs \<noteq> []"
  shows "\<exists>c'. form_run c [NameText n, NameValid False] = Inr c' \<and> form_reach c' \<and>
              \<not> sc_name_valid (fst c') \<and> submit_enabled (fst c') \<and>
              snd (submit_press (fst c')) = [SendRequest (screen_request (fst c'))] \<and>
              sr_name (screen_request (fst c')) = n"
proof -
  obtain sc fs where c: "c = (sc, fs)" by (cases c)
  define c' where "c' = (sc\<lparr>sc_name := n, sc_name_valid := False\<rparr>, fs)"
  have run: "form_run c [NameText n, NameValid False] = Inr c'" by (simp add: c c'_def)
  have r': "form_reach c'" by (rule form_run_reach [OF reach run])
  have en': "submit_enabled (fst c')" using en n by (simp add: c c'_def submit_enabled_def is_form_valid_def)
  have "client_validate (screen_request (fst c')) = []"
    by (rule email_inv_client_valid [OF form_reach_email_inv [OF r'] en'])
  then have "snd (submit_press (fst c')) = [SendRequest (screen_request (fst c'))]" by (simp add: submit_press_def)
  with run r' en' show ?thesis by (intro exI [of _ c']) (simp add: c'_def screen_request_def)
qed

subsection \<open>Witnesses\<close>

theorem end_to_end_submit_witness:
  "\<exists>r. worker_fetch Map.empty ''onboard_1_a'' ''2026-01-01T00:00:00.000Z'' POST ''/api/onboard''
         (Some (service_payload (screen_request example_screen) [None] ''2026-01-01T00:00:00.000Z'')) =
       (Map.empty(''onboard_1_a'' \<mapsto> KvRecord r, ''email:ann@example.com'' \<mapsto> KvId ''onboard_1_a''),
        Response 201 (RData r)) \<and>
       or_name r = ''Ann Lee'' \<and> or_start_date r = ''01/06/2026''"
  using end_to_end_submit [OF example_screen_valid, of "''onboard_1_a''" "[None]" "Map.empty"
      "''2026-01-01T00:00:00.000Z''" "''2026-01-01T00:00:00.000Z''"]
  by (auto simp: js_starts_with_def example_screen_def)

theorem get_after_submit_witness:
  "\<exists>r. get_onboarding_by_id (api_client_new None 0 ''0.abc'')
         (worker_wire (fst (handle_submit Map.empty (generate_id 1 ''0.k3x'') ''2026-01-01T00:00:00.000Z''
           (Some (encode_payload example_request ''2026-01-01T00:00:00.000Z'')))) ''onboard_2_b'' ''2026-01-02T00:00:00.000Z'')
         (or_id r) = JObj [(''success'', JBool True), (''data'', record_json r)] \<and>
       or_id r = ''onboard_1_k3x'' \<and> or_name r = ''Ann Lee''"
proof -
  have base: "ac_base_url (api_client_new None 0 ''0.abc'') = ''https://'' @ ''your-backend-url.workers.dev''"
    by (simp add: api_client_new_def api_base_url_def default_api_url_def)
  have host: "\<forall>c\<in>set ''your-backend-url.workers.dev''. host_char c"
    by (simp add: host_char_def is_alpha_def is_digit_def)
  have "generate_id 1 ''0.k3x'' = ''onboard_1_k3x''"
    by (simp add: generate_id_def js_substring_def string_eval)
  then show ?thesis
    using get_after_submit [OF example_request_valid base _ host, of "''0.k3x''" Map.empty 1
        "''2026-01-01T00:00:00.000Z''" "''2026-01-01T00:00:00.000Z''" "''onboard_2_b''" "''2026-01-02T00:00:00.000Z''"]
    by (auto simp: example_request_def)
qed

theorem screen_request_within_limits_witness:
  "length (sr_documents (screen_request (fst (pg_form filled_page)))) \<le> 3 \<and>
   sum_list (map df_size (sr_documents (screen_request (fst (pg_form filled_page))))) \<le> 15 * 1024 * 1024"
proof -
  have reach: "page_reach 0 filled_page"
    by (rule page_run_reach [OF page_reach.init filled_page_run])
  have "client_validate (screen_request (fst (pg_form filled_page))) = []"
    using email_example by (simp add: filled_page_def client_validate_def screen_request_def sc_init_def
        js_trim_def is_js_space_def)
  then have "snd (submit_press (fst (pg_form filled_page))) = [SendRequest (screen_request (fst (pg_form filled_page)))]"
    by (simp add: submit_press_def)
  then show ?thesis using screen_request_within_limits [OF reach] by blast
qed

theorem worker_error_reaches_user_witness:
  "submit_answer example_screen (service_result (Delivered (Response 400 (RError ''Name is required'')))) =
     (example_screen\<lparr>sc_submitting := False\<rparr>, [ScAlert ''Error'' (AlertJson (JStr ''Name is required''))])"
  using worker_error_reaches_user [of 400 "''Name is required''" example_screen] by simp

theorem submit_enabled_client_valid_witness:
  "client_validate (screen_request (fst filled_form)) = []"
  using submit_enabled_client_valid [OF filled_form_reach filled_form_enabled] .

theorem short_name_submitted_witness:
  "\<exists>c'. form_run filled_form [NameText ''A'', NameValid False] = Inr c' \<and> form_reach c' \<and>
        \<not> sc_name_valid (fst c') \<and> submit_enabled (fst c') \<and>
        snd (submit_press (fst c')) = [SendRequest (screen_request (fst c'))] \<and> sr_name (screen_request (fst c')) = ''A''"
proof -
  have "js_trim ''A'' \<noteq> []" by (simp add: js_trim_def is_js_space_def)
  moreover have "validate name_rules ''A'' = Inr [''Name must be at least 2 characters'']"
    by (simp add: name_rules_def rule_fails_def js_trim_def is_js_space_def)
  ultimately show ?thesis using short_name_submitted [OF filled_form_reach filled_form_enabled] by blast
qed

theorem success_card_shown_witness:
  "\<exists>r kv'. worker_fetch Map.empty ''onboard_1_a'' ''2026-01-01T00:00:00.000Z'' POST ''/api/onboard''
            (Some (service_payload (screen_request example_screen) [None] [])) = (kv', Response 201 (RData r)) \<and>
          map_sum id (\<lambda>v. map_option card_documents (sv_card v))
            (screen_view (\<lambda>x. []) (\<lambda>x. None) (\<lambda>x. x) 0 0
              (fst (submit_answer (fst (submit_press example_screen)) (service_result (Delivered (Response 201 (RData r))))))) =
          Inr (Some [''id.pdf (0.98 KB)''])"
proof -
  have len: "length [None :: js_string option] = length (sc_documents example_screen)" by (simp add: example_screen_def)
  have small: "\<forall>f\<in>set (sc_documents example_screen). sf_size f < 1024 * 10 ^ 21" by (simp add: example_screen_def)
  obtain r kv' where w: "worker_fetch Map.empty ''onboard_1_a'' ''2026-01-01T00:00:00.000Z'' POST ''/api/onboard''
            (Some (service_payload (screen_request example_screen) [None] [])) = (kv', Response 201 (RData r))"
    and v: "screen_view (\<lambda>x. []) (\<lambda>x. None) (\<lambda>x. x) 0 0
              (fst (submit_answer (fst (submit_press example_screen)) (service_result (Delivered (Response 201 (RData r)))))) =
            Inr \<lparr>sv_card = Some \<lparr>card_id = ''onboard_1_a'', card_name = sc_name example_screen,
                   card_email = sc_email example_screen, card_start_date = sc_start_date example_screen,
                   card_documents = map (\<lambda>f. sf_name f @ '' ('' @ kb_reference (sf_size f) @ '' KB)'')
                                      (sc_documents example_screen),
                   card_submitted_at = ''2026-01-01T00:00:00.000Z''\<rparr>,
                 sv_submit_enabled = is_form_valid example_screen, sv_submit_spinner = False, sv_reset_button = True,
                 sv_year = fst (local_civil 0 0)\<rparr>"
    using success_card_shown [OF example_screen_valid len small, where kv = "Map.empty" and oid = "''onboard_1_a''"
        and now = "''2026-01-01T00:00:00.000Z''" and sub = "[]" and num = "\<lambda>x. []" and str_num = "\<lambda>x. None"
        and to_locale = "\<lambda>x. x" and tz = "0" and clock = "0"]
    by blast
  have "map_sum id (\<lambda>v. map_option card_documents (sv_card v))
          (screen_view (\<lambda>x. []) (\<lambda>x. None) (\<lambda>x. x) 0 0
            (fst (submit_answer (fst (submit_press example_screen)) (service_result (Delivered (Response 201 (RData r))))))) =
        Inr (Some [''id.pdf (0.98 KB)''])"
    unfolding v by (simp add: example_screen_def kb_examples)
  with w show ?thesis by blast
qed

end
